theory Spec2Isabelle
  imports Main "HOL-Library.Multiset"
begin

section \<open>Python values, strings and exceptions\<close>

text \<open>
  Elapsed times are the values \<^verbatim>\<open>round((time.time() - start) * 1000, 2)\<close>:
  milliseconds with two decimals. They are kept as the number of hundredths of a
  millisecond, so that the truth value Python gives them (\<open>0.0\<close> is false) is decided.
\<close>

type_synonym millis = int

datatype pyval =
    PNone
  | PBool bool
  | PInt int
  | PFloat millis
  | PStr string
  | PList "string list"

text \<open>Truth value of a Python object, as \<^verbatim>\<open>if x:\<close> and \<^verbatim>\<open>x and y\<close> test it.\<close>

fun truthy :: "pyval \<Rightarrow> bool" where
  "truthy PNone = False"
| "truthy (PBool b) = b"
| "truthy (PInt n) = (n \<noteq> 0)"
| "truthy (PFloat t) = (t \<noteq> 0)"
| "truthy (PStr s) = (s \<noteq> [])"
| "truthy (PList xs) = (xs \<noteq> [])"

text \<open>\<^verbatim>\<open>x == k\<close> for an integer literal \<open>k\<close>: booleans and floats compare by value.\<close>

fun py_eq_int :: "pyval \<Rightarrow> int \<Rightarrow> bool" where
  "py_eq_int (PInt n) k = (n = k)"
| "py_eq_int (PBool b) k = ((if b then 1 else 0) = k)"
| "py_eq_int (PFloat t) k = (t = 100 * k)"
| "py_eq_int _ k = False"

text \<open>
  The classes of exception the program distinguishes in its \<^verbatim>\<open>except\<close> clauses. All of
  them are subclasses of \<^verbatim>\<open>Exception\<close>; an exception of another class is modelled by its
  nearest ancestor in this list (\<open>OtherException\<close> when there is none). An exception value
  carries its class and the text \<^verbatim>\<open>str(e)\<close>.
\<close>

datatype exn_class =
    error_perm
  | ftplib_Error
  | OSError
  | EOFError
  | socket_timeout
  | socket_gaierror
  | AuthenticationException
  | SSHException
  | KeyError
  | ValueError
  | TypeError
  | ZeroDivisionError
  | ExpatError
  | OtherException

datatype exn = Exn exn_class string

fun cls :: "exn \<Rightarrow> exn_class" where
  "cls (Exn c m) = c"

fun str_exn :: "exn \<Rightarrow> string" where
  "str_exn (Exn c m) = m"

text \<open>\<^verbatim>\<open>ftplib.all_errors = (ftplib.Error, OSError, EOFError)\<close>; \<^verbatim>\<open>socket.timeout\<close> and
  \<^verbatim>\<open>socket.gaierror\<close> are subclasses of \<^verbatim>\<open>OSError\<close>, and \<^verbatim>\<open>IOError\<close> is \<^verbatim>\<open>OSError\<close>.\<close>

fun is_OSError :: "exn_class \<Rightarrow> bool" where
  "is_OSError OSError = True"
| "is_OSError socket_timeout = True"
| "is_OSError socket_gaierror = True"
| "is_OSError _ = False"

fun is_all_errors :: "exn_class \<Rightarrow> bool" where
  "is_all_errors error_perm = True"
| "is_all_errors ftplib_Error = True"
| "is_all_errors EOFError = True"
| "is_all_errors c = is_OSError c"

fun is_SSHException :: "exn_class \<Rightarrow> bool" where
  "is_SSHException AuthenticationException = True"
| "is_SSHException SSHException = True"
| "is_SSHException _ = False"

definition quoted :: "string \<Rightarrow> string" where
  "quoted s = [CHR 0x27] @ s @ [CHR 0x27]"

text \<open>\<^verbatim>\<open>KeyError(key)\<close>: its text is the \<^verbatim>\<open>repr\<close> of the key.\<close>

definition KeyError_of :: "string \<Rightarrow> exn" where
  "KeyError_of k = Exn KeyError (quoted k)"

definition not_iterable :: "string \<Rightarrow> exn" where
  "not_iterable ty = Exn TypeError (quoted ty @ '' object is not iterable'')"

definition not_subscriptable :: "string \<Rightarrow> exn" where
  "not_subscriptable ty = Exn TypeError (quoted ty @ '' object is not subscriptable'')"

definition has_no_len :: "string \<Rightarrow> exn" where
  "has_no_len ty = Exn TypeError (''object of type '' @ quoted ty @ '' has no len()'')"

subsection \<open>String operations\<close>

text \<open>
  A text is a list of characters, and a character is a code point below 256. The white
  space of Python among them, which \<^verbatim>\<open>str.strip\<close> removes at both ends and \<^verbatim>\<open>int\<close>
  accepts around a number: the controls U+0009 to U+000D and U+001C to U+001F, the space,
  the next line U+0085 and the no-break space U+00A0.
\<close>

definition isspace :: "char \<Rightarrow> bool" where
  "isspace c = (c \<in> set [CHR 0x09, CHR 0x0A, CHR 0x0B, CHR 0x0C, CHR 0x0D,
                           CHR 0x1C, CHR 0x1D, CHR 0x1E, CHR 0x1F, CHR 0x20,
                           CHR 0x85, CHR 0xA0])"

definition strip :: "string \<Rightarrow> string" where
  "strip s = rev (dropWhile isspace (rev (dropWhile isspace s)))"

definition startswith :: "string \<Rightarrow> string \<Rightarrow> bool" where
  "startswith s p = (take (length p) s = p)"

text \<open>\<^verbatim>\<open>s.split(sep)\<close> for a separator of one character: never the empty list.\<close>

fun split_on :: "char \<Rightarrow> string \<Rightarrow> string list" where
  "split_on sep [] = [[]]"
| "split_on sep (c # cs) =
     (if c = sep then [] # split_on sep cs
      else (case split_on sep cs of
              [] \<Rightarrow> [[c]]
            | w # ws \<Rightarrow> (c # w) # ws))"

fun join :: "string \<Rightarrow> string list \<Rightarrow> string" where
  "join sep [] = []"
| "join sep [x] = x"
| "join sep (x # y # ys) = x @ sep @ join sep (y # ys)"

section \<open>Probe results\<close>

text \<open>
  The dictionary \<^verbatim>\<open>self.results\<close> of a checker. Its keys are fixed by \<^verbatim>\<open>__init__\<close>, and
  \<^verbatim>\<open>check\<close> only assigns to them, so it is a record; \<open>total_time\<close> is the one key
  that \<^verbatim>\<open>__init__\<close> does not create (\<open>None\<close> here: the key is absent). The other optional
  fields hold Python's \<^verbatim>\<open>None\<close> when they are \<open>None\<close>.
\<close>

record probe_result =
  host :: pyval
  port :: pyval
  username :: pyval
  protocol :: string
  timestamp :: string
  connection :: bool
  connection_time :: "millis option"
  authentication :: bool
  auth_time :: "millis option"
  path_exists :: "bool option"
  path_type :: "string option"
  path_check_time :: "millis option"
  welcome_message :: "string option"
  features :: "string list"
  errors :: "string list"
  total_time :: "millis option"

text \<open>The constructor arguments a checker keeps (\<^verbatim>\<open>self.host\<close>, ...).\<close>

record checker =
  self_host :: pyval
  self_username :: pyval
  self_password :: pyval
  self_port :: pyval
  self_timeout :: int
  self_check_path :: "string option"

text \<open>\<^verbatim>\<open>self.results\<close> as \<^verbatim>\<open>__init__\<close> builds it; \<open>now\<close> is
  \<^verbatim>\<open>datetime.now().isoformat()\<close>.\<close>

definition init_results :: "string \<Rightarrow> checker \<Rightarrow> string \<Rightarrow> probe_result" where
  "init_results proto c now =
     \<lparr> host = self_host c, port = self_port c, username = self_username c,
       protocol = proto, timestamp = now,
       connection = False, connection_time = None,
       authentication = False, auth_time = None,
       path_exists = None, path_type = None, path_check_time = None,
       welcome_message = None, features = [], errors = [], total_time = None \<rparr>"

definition FTPChecker_init :: "checker \<Rightarrow> string \<Rightarrow> probe_result" where
  "FTPChecker_init c now = init_results ''FTP'' c now"

definition SFTPChecker_init :: "checker \<Rightarrow> string \<Rightarrow> probe_result" where
  "SFTPChecker_init c now = init_results ''SFTP'' c now"

text \<open>\<^verbatim>\<open>self.results['errors'].append(msg)\<close>\<close>

definition append_error :: "string \<Rightarrow> probe_result \<Rightarrow> probe_result" where
  "append_error msg r = r\<lparr>errors := errors r @ [msg]\<rparr>"

section \<open>The FTP checker\<close>

text \<open>
  The behaviour of \<^verbatim>\<open>ftplib\<close> during one call of \<^verbatim>\<open>check\<close>, one field per call the code
  makes: \<open>Some e\<close> (or \<open>Inl e\<close>) when the call raises \<open>e\<close>, \<open>None\<close> (or \<open>Inr v\<close>) when
  it returns. The four last fields are the elapsed times the code measures.
\<close>

record ftp_env =
  ftp_new :: "exn option"
  ftp_connect :: "exn option"
  ftp_getwelcome :: "exn + string"
  ftp_login :: "exn option"
  ftp_voidcmd_FEAT :: "exn option"
  ftp_sendcmd_FEAT :: "exn option"
  ftp_sendcmd_FEAT2 :: "exn + string"
  ftp_cwd :: "string \<Rightarrow> exn option"
  ftp_cwd_parent :: "string \<Rightarrow> exn option"
  ftp_retrlines_NLST :: "exn + string list"
  ftp_exit :: "exn option"
  ftp_connect_ms :: millis
  ftp_auth_ms :: millis
  ftp_path_ms :: millis
  ftp_total_ms :: millis

text \<open>
  A block of statements run on \<^verbatim>\<open>self.results\<close>: the exception that leaves the block, if
  any, and the dictionary as the block left it.
\<close>

type_synonym outcome = "exn option \<times> probe_result"

text \<open>Lines 142-156: the feature query. \<^verbatim>\<open>error_perm\<close> from \<^verbatim>\<open>voidcmd\<close> is passed over,
  anything raised by the inner block too; another exception of \<^verbatim>\<open>voidcmd\<close> leaves the block.\<close>

definition ftp_features :: "ftp_env \<Rightarrow> probe_result \<Rightarrow> outcome" where
  "ftp_features env r =
     (case ftp_voidcmd_FEAT env of
        Some e \<Rightarrow> if cls e = error_perm then (None, r) else (Some e, r)
      | None \<Rightarrow>
          (case ftp_sendcmd_FEAT env of
             Some e \<Rightarrow> (None, r)
           | None \<Rightarrow>
               (case ftp_sendcmd_FEAT2 env of
                  Inl e \<Rightarrow> (None, r)
                | Inr response \<Rightarrow>
                    if startswith response ''211-''
                    then (None, r\<lparr>features :=
                            [strip f. f \<leftarrow> butlast (tl (split_on CHR 0x0A response)), strip f \<noteq> []]\<rparr>)
                    else (None, r))))"

definition path_check_error :: "exn \<Rightarrow> probe_result \<Rightarrow> probe_result" where
  "path_check_error e r =
     append_error (''Path check error: '' @ str_exn e) (r\<lparr>path_exists := Some False\<rparr>)"

definition path_not_found :: "string \<Rightarrow> probe_result \<Rightarrow> probe_result" where
  "path_not_found p r =
     append_error (''Path '' @ quoted p @ '' not found'')
       (r\<lparr>path_exists := Some False\<rparr>)"

text \<open>Lines 171-183: the path is not a directory; look for the file in its parent.\<close>

definition ftp_check_file :: "ftp_env \<Rightarrow> string \<Rightarrow> probe_result \<Rightarrow> outcome" where
  "ftp_check_file env p r =
     (let parent_dir = (let d = join ''/'' (butlast (split_on CHR ''/'' p))
                        in if d = [] then ''/'' else d);
          filename = last (split_on CHR ''/'' p);
          parent_error = (\<lambda>e. if cls e = error_perm
             then (None, append_error (''Error accessing parent directory: '' @ str_exn e)
                           (r\<lparr>path_exists := Some False\<rparr>))
             else (Some e, r))
      in case ftp_cwd_parent env parent_dir of
           Some e \<Rightarrow> parent_error e
         | None \<Rightarrow>
             (case ftp_retrlines_NLST env of
                Inl e \<Rightarrow> parent_error e
              | Inr files \<Rightarrow>
                  if filename \<in> set files
                  then (None, r\<lparr>path_exists := Some True, path_type := Some ''file''\<rparr>)
                  else (None, path_not_found p r)))"

text \<open>Lines 160-188: the path check, with its \<^verbatim>\<open>except Exception\<close> and its \<^verbatim>\<open>finally\<close>.\<close>

definition ftp_path_check :: "ftp_env \<Rightarrow> string \<Rightarrow> probe_result \<Rightarrow> probe_result" where
  "ftp_path_check env p r =
     (let (ex, r1) =
            (case ftp_cwd env p of
               None \<Rightarrow> (None, r\<lparr>path_exists := Some True, path_type := Some ''directory''\<rparr>)
             | Some e \<Rightarrow> if cls e = error_perm then ftp_check_file env p r else (Some e, r));
          r2 = (case ex of None \<Rightarrow> r1 | Some e \<Rightarrow> path_check_error e r1)
      in r2\<lparr>path_check_time := Some (ftp_path_ms env)\<rparr>)"

text \<open>Lines 124-188: the body of the \<^verbatim>\<open>with\<close> statement.\<close>

definition ftp_session :: "ftp_env \<Rightarrow> checker \<Rightarrow> probe_result \<Rightarrow> outcome" where
  "ftp_session env c r =
     (case ftp_connect env of
        Some e \<Rightarrow> (Some e, r)
      | None \<Rightarrow>
          (let r1 = r\<lparr>connection_time := Some (ftp_connect_ms env), connection := True\<rparr>;
               r2 = (case ftp_getwelcome env of
                       Inr w \<Rightarrow> r1\<lparr>welcome_message := Some w\<rparr>
                     | Inl e \<Rightarrow> r1)
           in case ftp_login env of
                Some e \<Rightarrow> (Some e, r2)
              | None \<Rightarrow>
                  (let r3 = r2\<lparr>auth_time := Some (ftp_auth_ms env), authentication := True\<rparr>
                   in case ftp_features env r3 of
                        (Some e, r4) \<Rightarrow> (Some e, r4)
                      | (None, r4) \<Rightarrow>
                          (case self_check_path c of
                             None \<Rightarrow> (None, r4)
                           | Some p \<Rightarrow>
                               if p \<noteq> [] then (None, ftp_path_check env p r4)
                               else (None, r4)))))"

text \<open>Line 122: \<^verbatim>\<open>with ftplib.FTP() as ftp\<close>. When the object was made, \<^verbatim>\<open>__exit__\<close> runs
  however the body ended, and what it raises replaces the body's exception.\<close>

definition ftp_with :: "ftp_env \<Rightarrow> checker \<Rightarrow> probe_result \<Rightarrow> outcome" where
  "ftp_with env c r =
     (case ftp_new env of
        Some e \<Rightarrow> (Some e, r)
      | None \<Rightarrow>
          (case ftp_session env c r of
             (ex, r1) \<Rightarrow>
               (case ftp_exit env of
                  Some e \<Rightarrow> (Some e, r1)
                | None \<Rightarrow> (ex, r1))))"

text \<open>Lines 190-197: the \<^verbatim>\<open>except\<close> clauses of \<^verbatim>\<open>FTPChecker.check\<close>, in their order.\<close>

definition ftp_except :: "exn \<Rightarrow> probe_result \<Rightarrow> outcome" where
  "ftp_except e r =
     (if is_all_errors (cls e) then (None, append_error (''FTP error: '' @ str_exn e) r)
      else if cls e = socket_timeout then (None, append_error ''Connection timed out'' r)
      else if cls e = socket_gaierror then (None, append_error ''Hostname resolution failed'' r)
      else (None, append_error (''Unexpected error: '' @ str_exn e) r))"

text \<open>
  \<^verbatim>\<open>FTPChecker.check\<close> as it acts on \<^verbatim>\<open>self.results\<close>: the exception that leaves
  \<^verbatim>\<open>check\<close>, if any, and the dictionary afterwards.
\<close>

definition FTPChecker_run :: "ftp_env \<Rightarrow> checker \<Rightarrow> probe_result \<Rightarrow> outcome" where
  "FTPChecker_run env c r =
     (case (case ftp_with env c r of
              (None, r1) \<Rightarrow> (None, r1)
            | (Some e, r1) \<Rightarrow> ftp_except e r1) of
        (Some e, r2) \<Rightarrow> (Some e, r2)
      | (None, r2) \<Rightarrow> (None, r2\<lparr>total_time := Some (ftp_total_ms env)\<rparr>))"

text \<open>What the caller of \<^verbatim>\<open>check\<close> gets: the exception, or the dictionary returned.\<close>

definition returned :: "outcome \<Rightarrow> exn + probe_result" where
  "returned out = (case out of (Some e, r) \<Rightarrow> Inl e | (None, r) \<Rightarrow> Inr r)"

definition FTPChecker_check :: "ftp_env \<Rightarrow> checker \<Rightarrow> probe_result \<Rightarrow> exn + probe_result" where
  "FTPChecker_check env c r = returned (FTPChecker_run env c r)"

section \<open>The SFTP checker\<close>

record sftp_env =
  ssh_new :: "exn option"
  ssh_set_policy :: "exn option"
  ssh_connect :: "exn option"
  ssh_open_sftp :: "exn option"
  sftp_stat :: "exn + int option"
  sftp_close :: "exn option"
  ssh_close :: "exn option"
  sftp_connect_ms :: millis
  sftp_path_ms :: millis
  sftp_total_ms :: millis

text \<open>Lines 249-258: \<^verbatim>\<open>stat\<close> with its \<^verbatim>\<open>except IOError\<close>, then \<^verbatim>\<open>sftp.close()\<close> in the
  \<^verbatim>\<open>finally\<close>; \<open>sftp_stat\<close> gives \<^verbatim>\<open>st_mode\<close>, which may be \<^verbatim>\<open>None\<close>.\<close>

definition sftp_stat_path :: "sftp_env \<Rightarrow> string \<Rightarrow> probe_result \<Rightarrow> outcome" where
  "sftp_stat_path env p r =
     (let (ex, r1) =
            (case sftp_stat env of
               Inr st_mode \<Rightarrow>
                 (None, (case st_mode of
                           None \<Rightarrow> r\<lparr>path_exists := Some True\<rparr>
                         | Some m \<Rightarrow> r\<lparr>path_exists := Some True,
                                       path_type := Some (if bit m 14 then ''directory'' else ''file'')\<rparr>))
             | Inl e \<Rightarrow> if is_OSError (cls e) then (None, path_not_found p r) else (Some e, r))
      in case sftp_close env of
           Some e \<Rightarrow> (Some e, r1)
         | None \<Rightarrow> (ex, r1))"

text \<open>Lines 246-263: the path check, with its \<^verbatim>\<open>except Exception\<close> and its \<^verbatim>\<open>finally\<close>.\<close>

definition sftp_path_check :: "sftp_env \<Rightarrow> string \<Rightarrow> probe_result \<Rightarrow> probe_result" where
  "sftp_path_check env p r =
     (let (ex, r1) =
            (case ssh_open_sftp env of
               Some e \<Rightarrow> (Some e, r)
             | None \<Rightarrow> sftp_stat_path env p r);
          r2 = (case ex of None \<Rightarrow> r1 | Some e \<Rightarrow> path_check_error e r1)
      in r2\<lparr>path_check_time := Some (sftp_path_ms env)\<rparr>)"

text \<open>Lines 236-263: the body of the \<^verbatim>\<open>try\<close>. The boolean tells whether \<^verbatim>\<open>ssh\<close> was
  assigned, which the \<^verbatim>\<open>finally\<close> clause tests.\<close>

definition sftp_session :: "sftp_env \<Rightarrow> checker \<Rightarrow> probe_result \<Rightarrow> outcome \<times> bool" where
  "sftp_session env c r =
     (case ssh_new env of
        Some e \<Rightarrow> ((Some e, r), False)
      | None \<Rightarrow>
          (case ssh_set_policy env of
             Some e \<Rightarrow> ((Some e, r), True)
           | None \<Rightarrow>
               (case ssh_connect env of
                  Some e \<Rightarrow> ((Some e, r), True)
                | None \<Rightarrow>
                    (let r1 = r\<lparr>connection_time := Some (sftp_connect_ms env),
                                 connection := True, authentication := True\<rparr>
                     in case self_check_path c of
                          None \<Rightarrow> ((None, r1), True)
                        | Some p \<Rightarrow>
                            if p \<noteq> [] then ((None, sftp_path_check env p r1), True)
                            else ((None, r1), True)))))"

text \<open>Lines 265-274: the \<^verbatim>\<open>except\<close> clauses of \<^verbatim>\<open>SFTPChecker.check\<close>, in their order.\<close>

definition sftp_except :: "exn \<Rightarrow> probe_result \<Rightarrow> outcome" where
  "sftp_except e r =
     (if cls e = AuthenticationException then (None, append_error ''Authentication failed'' r)
      else if is_SSHException (cls e) then (None, append_error (''SSH error: '' @ str_exn e) r)
      else if cls e = socket_timeout then (None, append_error ''Connection timed out'' r)
      else if cls e = socket_gaierror then (None, append_error ''Hostname resolution failed'' r)
      else (None, append_error (''Unexpected error: '' @ str_exn e) r))"

text \<open>
  \<^verbatim>\<open>SFTPChecker.check\<close> as it acts on \<^verbatim>\<open>self.results\<close>. The \<^verbatim>\<open>finally\<close> clause
  (lines 275-277) calls \<^verbatim>\<open>ssh.close()\<close> outside every \<^verbatim>\<open>try\<close>: what it raises leaves
  \<^verbatim>\<open>check\<close>, before lines 279-280 run.
\<close>

definition SFTPChecker_run :: "sftp_env \<Rightarrow> checker \<Rightarrow> probe_result \<Rightarrow> outcome" where
  "SFTPChecker_run env c r =
     (case sftp_session env c r of
        ((ex, r1), ssh) \<Rightarrow>
          (case (case ex of None \<Rightarrow> (None, r1) | Some e \<Rightarrow> sftp_except e r1) of
             (ex2, r2) \<Rightarrow>
               (case (if ssh then ssh_close env else None) of
                  Some e \<Rightarrow> (Some e, r2)
                | None \<Rightarrow>
                    (case ex2 of
                       Some e \<Rightarrow> (Some e, r2)
                     | None \<Rightarrow>
                         (None, r2\<lparr>total_time := Some (sftp_total_ms env),
                                    auth_time := connection_time r2\<rparr>)))))"

definition SFTPChecker_check :: "sftp_env \<Rightarrow> checker \<Rightarrow> probe_result \<Rightarrow> exn + probe_result" where
  "SFTPChecker_check env c r = returned (SFTPChecker_run env c r)"

section \<open>Result dictionaries\<close>

text \<open>
  The lists \<^verbatim>\<open>self.results\<close> of the schedulers hold dictionaries of two shapes: the one a
  checker returns and the one the scheduler builds when a check raised. They are
  maps from keys to values; \<^verbatim>\<open>d[k]\<close> raises \<^verbatim>\<open>KeyError\<close> on a key that is absent.
\<close>

type_synonym result = "string \<rightharpoonup> pyval"

definition getitem :: "result \<Rightarrow> string \<Rightarrow> exn + pyval" where
  "getitem d k = (case d k of None \<Rightarrow> Inl (KeyError_of k) | Some v \<Rightarrow> Inr v)"

definition opt_float :: "millis option \<Rightarrow> pyval" where
  "opt_float t = (case t of None \<Rightarrow> PNone | Some x \<Rightarrow> PFloat x)"

definition opt_bool :: "bool option \<Rightarrow> pyval" where
  "opt_bool b = (case b of None \<Rightarrow> PNone | Some x \<Rightarrow> PBool x)"

definition opt_str :: "string option \<Rightarrow> pyval" where
  "opt_str s = (case s of None \<Rightarrow> PNone | Some x \<Rightarrow> PStr x)"

text \<open>The dictionary a checker returns, as a dictionary.\<close>

definition to_dict :: "probe_result \<Rightarrow> result" where
  "to_dict r =
     (let d = [''host'' \<mapsto> host r,
               ''port'' \<mapsto> port r,
               ''username'' \<mapsto> username r,
               ''protocol'' \<mapsto> PStr (protocol r),
               ''timestamp'' \<mapsto> PStr (timestamp r),
               ''connection'' \<mapsto> PBool (connection r),
               ''connection_time'' \<mapsto> opt_float (connection_time r),
               ''authentication'' \<mapsto> PBool (authentication r),
               ''auth_time'' \<mapsto> opt_float (auth_time r),
               ''path_exists'' \<mapsto> opt_bool (path_exists r),
               ''path_type'' \<mapsto> opt_str (path_type r),
               ''path_check_time'' \<mapsto> opt_float (path_check_time r),
               ''welcome_message'' \<mapsto> opt_str (welcome_message r),
               ''features'' \<mapsto> PList (features r),
               ''errors'' \<mapsto> PList (errors r)]
      in case total_time r of None \<Rightarrow> d | Some t \<Rightarrow> d(''total_time'' \<mapsto> PFloat t))"

text \<open>\<^verbatim>\<open>result['connection'] and result['authentication']\<close>, as a condition: the second
  key is read only when the first value is true.\<close>

definition connection_and_authentication :: "result \<Rightarrow> exn + bool" where
  "connection_and_authentication d =
     (case getitem d ''connection'' of
        Inl e \<Rightarrow> Inl e
      | Inr v \<Rightarrow>
          if truthy v
          then (case getitem d ''authentication'' of
                  Inl e \<Rightarrow> Inl e
                | Inr v2 \<Rightarrow> Inr (truthy v2))
          else Inr False)"

section \<open>The brute forcer\<close>

record combo =
  combo_host :: string
  combo_port :: int
  combo_username :: string
  combo_password :: string
  combo_protocol :: int

record BruteForcer =
  bf_host :: string
  bf_protocol :: int
  bf_timeout :: int
  bf_max_workers :: int
  bf_check_path :: "string option"
  bf_results :: "result list"

text \<open>
  What the run of a scheduler depends on and the program does not decide: the behaviour of
  the servers during the check submitted as number \<open>i\<close>, the clock, and the order in
  which the checks complete.
\<close>

record world =
  ftp_of :: "nat \<Rightarrow> ftp_env"
  sftp_of :: "nat \<Rightarrow> sftp_env"
  init_now :: "nat \<Rightarrow> string"
  error_now :: "nat \<Rightarrow> string"
  order :: "nat list"

text \<open>
  \<^verbatim>\<open>as_completed\<close> yields every future once, in the order of completion. Any order is
  possible: each future takes the place among the later ones that the next number of
  \<open>order\<close> gives it (the first place when the numbers have run out).
\<close>

definition insert_at :: "nat \<Rightarrow> 'a \<Rightarrow> 'a list \<Rightarrow> 'a list" where
  "insert_at k x ys = take k ys @ x # drop k ys"

fun as_completed :: "nat list \<Rightarrow> 'a list \<Rightarrow> 'a list" where
  "as_completed cs [] = []"
| "as_completed [] (x # xs) = x # as_completed [] xs"
| "as_completed (c # cs) (x # xs) = insert_at (c mod Suc (length xs)) x (as_completed cs xs)"

text \<open>What is written to the console and handed to the executor, in program order: the
  announcement of line 302, the submission of a check, and the two messages of lines
  355-360 with the numbers they show. The colours are left out, and \<^verbatim>\<open>print\<close> is taken
  to return.\<close>

datatype bf_event =
    Starting nat
  | Submitted combo
  | Found combo nat nat
  | Progress nat nat

text \<open>Line 297-298.\<close>

definition default_ports :: "int \<Rightarrow> int list \<Rightarrow> int list" where
  "default_ports proto port_list =
     (if port_list = [] then (if proto = 0 then [21] else [22]) else port_list)"

text \<open>Lines 305-315.\<close>

definition combinations :: "BruteForcer \<Rightarrow> string list \<Rightarrow> string list \<Rightarrow> int list \<Rightarrow> combo list" where
  "combinations self username_list password_list port_list =
     concat (map (\<lambda>port.
       concat (map (\<lambda>username.
         map (\<lambda>password.
           \<lparr> combo_host = bf_host self, combo_port = port, combo_username = username,
             combo_password = password, combo_protocol = bf_protocol self \<rparr>)
           password_list)
         username_list))
       port_list)"

text \<open>Lines 322-343: the check submitted for a combination, and what its future holds.\<close>

definition bf_submit :: "world \<Rightarrow> BruteForcer \<Rightarrow> nat \<Rightarrow> combo \<Rightarrow> exn + probe_result" where
  "bf_submit w self i cmb =
     (let c = \<lparr> self_host = PStr (combo_host cmb), self_username = PStr (combo_username cmb),
                self_password = PStr (combo_password cmb), self_port = PInt (combo_port cmb),
                self_timeout = bf_timeout self, self_check_path = bf_check_path self \<rparr>
      in if combo_protocol cmb = 0
         then FTPChecker_check (ftp_of w i) c (FTPChecker_init c (init_now w i))
         else SFTPChecker_check (sftp_of w i) c (SFTPChecker_init c (init_now w i)))"

text \<open>Lines 363-372.\<close>

definition bf_error_result :: "combo \<Rightarrow> string \<Rightarrow> exn \<Rightarrow> result" where
  "bf_error_result cmb now e =
     [''host'' \<mapsto> PStr (combo_host cmb),
      ''port'' \<mapsto> PInt (combo_port cmb),
      ''username'' \<mapsto> PStr (combo_username cmb),
      ''protocol'' \<mapsto> PStr (if combo_protocol cmb = 0 then ''FTP'' else ''SFTP''),
      ''timestamp'' \<mapsto> PStr now,
      ''connection'' \<mapsto> PBool False,
      ''authentication'' \<mapsto> PBool False,
      ''errors'' \<mapsto> PList [''Check failed: '' @ str_exn e]]"

type_synonym bf_state = "result list \<times> bf_event list"

text \<open>Lines 349-360: the body of the \<^verbatim>\<open>try\<close> for the future completed as number \<open>i\<close>.\<close>

definition bf_try :: "nat \<Rightarrow> nat \<Rightarrow> combo \<Rightarrow> exn + probe_result \<Rightarrow> bf_state \<Rightarrow> exn option \<times> bf_state" where
  "bf_try total_attempts i cmb fut st =
     (case st of (results, out) \<Rightarrow>
        (case fut of
           Inl e \<Rightarrow> (Some e, (results, out))
         | Inr r \<Rightarrow>
             (let results1 = results @ [to_dict r]
              in if total_attempts = 0
                 then (Some (Exn ZeroDivisionError ''division by zero''), (results1, out))
                 else (case connection_and_authentication (to_dict r) of
                         Inl e \<Rightarrow> (Some e, (results1, out))
                       | Inr True \<Rightarrow> (None, (results1, out @ [Found cmb (i + 1) total_attempts]))
                       | Inr False \<Rightarrow>
                           (None, (results1,
                              if (i + 1) mod 10 = 0 then out @ [Progress (i + 1) total_attempts]
                              else out))))))"

text \<open>Lines 347-373: one turn of the loop over the completed futures.\<close>

definition bf_step :: "world \<Rightarrow> nat \<Rightarrow> nat \<Rightarrow> combo \<Rightarrow> exn + probe_result \<Rightarrow> bf_state \<Rightarrow> bf_state" where
  "bf_step w total_attempts i cmb fut st =
     (case bf_try total_attempts i cmb fut st of
        (None, st1) \<Rightarrow> st1
      | (Some e, (results1, out1)) \<Rightarrow>
          (results1 @ [bf_error_result cmb (error_now w i) e], out1))"

fun bf_collect :: "world \<Rightarrow> nat \<Rightarrow> nat \<Rightarrow> (combo \<times> (exn + probe_result)) list \<Rightarrow> bf_state \<Rightarrow> bf_state" where
  "bf_collect w total_attempts i [] st = st"
| "bf_collect w total_attempts i ((cmb, fut) # rest) st =
     bf_collect w total_attempts (Suc i) rest (bf_step w total_attempts i cmb fut st)"

text \<open>Lines 321-344: the futures, in the order of submission, each with its combination.\<close>

definition bf_futures ::
  "world \<Rightarrow> BruteForcer \<Rightarrow> combo list \<Rightarrow> (combo \<times> (exn + probe_result)) list" where
  "bf_futures w self combos =
     map (\<lambda>(i, cmb). (cmb, bf_submit w self i cmb)) (enumerate 0 combos)"

text \<open>
  \<^verbatim>\<open>BruteForcer.brute_force\<close>: the exception that leaves it, if any, the object afterwards
  (\<open>bf_results\<close> is the list returned) and the events. \<^verbatim>\<open>ThreadPoolExecutor\<close> raises
  \<^verbatim>\<open>ValueError\<close> when \<^verbatim>\<open>max_workers\<close> is not positive. A \<^verbatim>\<open>port_list\<close> that is \<^verbatim>\<open>None\<close> is
  the empty list here: line 297 treats both alike.
\<close>

definition brute_force ::
  "world \<Rightarrow> BruteForcer \<Rightarrow> string list \<Rightarrow> string list \<Rightarrow> int list
     \<Rightarrow> exn option \<times> BruteForcer \<times> bf_event list" where
  "brute_force w self username_list password_list port_list0 =
     (let port_list = default_ports (bf_protocol self) port_list0;
          total_attempts = length username_list * length password_list * length port_list;
          out0 = [Starting total_attempts];
          combos = combinations self username_list password_list port_list
      in if bf_max_workers self \<le> 0
         then (Some (Exn ValueError ''max_workers must be greater than 0''), self, out0)
         else
           (let futures = bf_futures w self combos;
                out1 = out0 @ map Submitted combos;
                (results, out2) =
                   bf_collect w total_attempts 0 (as_completed (order w) futures)
                     (bf_results self, out1)
            in (None, self\<lparr>bf_results := results\<rparr>, out2)))"

section \<open>The bulk checker\<close>

text \<open>
  A server is a dictionary: the FileZilla parser gives it the keys \<open>host\<close>, \<open>port\<close>,
  \<open>protocol\<close>, \<open>username\<close>, \<open>password\<close>, \<open>name\<close>, \<open>type\<close> and \<open>logontype\<close>;
  the single-host mode of \<^verbatim>\<open>main\<close> (lines 727-733) only the first five.
\<close>

type_synonym server = "string \<rightharpoonup> pyval"

text \<open>The values of several keys, read from left to right: the first key that is absent
  raises.\<close>

fun getitems :: "(string \<rightharpoonup> pyval) \<Rightarrow> string list \<Rightarrow> exn + pyval list" where
  "getitems d [] = Inr []"
| "getitems d (k # ks) =
     (case getitem d k of
        Inl e \<Rightarrow> Inl e
      | Inr v \<Rightarrow> (case getitems d ks of Inl e \<Rightarrow> Inl e | Inr vs \<Rightarrow> Inr (v # vs)))"

text \<open>\<^verbatim>\<open>d.get(k, default)\<close>\<close>

definition get_default :: "(string \<rightharpoonup> pyval) \<Rightarrow> string \<Rightarrow> pyval \<Rightarrow> pyval" where
  "get_default d k dflt = (case d k of None \<Rightarrow> dflt | Some v \<Rightarrow> v)"

text \<open>\<^verbatim>\<open>for x in v\<close>: the items of a list, the characters of a string; other values are not
  iterable.\<close>

fun py_iter :: "pyval \<Rightarrow> exn + string list" where
  "py_iter (PList xs) = Inr xs"
| "py_iter (PStr s) = Inr (map (\<lambda>c. [c]) s)"
| "py_iter PNone = Inl (not_iterable ''NoneType'')"
| "py_iter (PBool b) = Inl (not_iterable ''bool'')"
| "py_iter (PInt n) = Inl (not_iterable ''int'')"
| "py_iter (PFloat t) = Inl (not_iterable ''float'')"

text \<open>The messages of \<^verbatim>\<open>check_servers\<close> (lines 421-422, 424, 427 and 440), each with the
  values it shows.\<close>

datatype cs_event =
    Success "pyval list" "pyval list"
  | Failed "pyval list"
  | Error_line string
  | Check_error "pyval list" string

text \<open>Lines 389-412: the check submitted for a server, if one is: a server whose protocol
  is neither 0 nor 1 is passed over. Reading an absent key raises. (\<open>getitems\<close> gives as
  many values as it is given keys: the case \<open>Inr vs\<close> below never arises.)\<close>

definition cs_submit ::
  "world \<Rightarrow> string option \<Rightarrow> int \<Rightarrow> nat \<Rightarrow> server \<Rightarrow> exn + (server \<times> (exn + probe_result)) list" where
  "cs_submit w check_path timeout i srv =
     (case getitem srv ''protocol'' of
        Inl e \<Rightarrow> Inl e
      | Inr proto \<Rightarrow>
          if py_eq_int proto 0 then
            (case getitems srv [''host'', ''username'', ''password'', ''port''] of
               Inr [h, u, pw, po] \<Rightarrow>
                 (let c = \<lparr> self_host = h, self_username = u, self_password = pw, self_port = po,
                            self_timeout = timeout, self_check_path = check_path \<rparr>
                  in Inr [(srv, FTPChecker_check (ftp_of w i) c (FTPChecker_init c (init_now w i)))])
             | Inr vs \<Rightarrow> Inr []
             | Inl e \<Rightarrow> Inl e)
          else if py_eq_int proto 1 then
            (case getitems srv [''host'', ''username'', ''password''] of
               Inr [h, u, pw] \<Rightarrow>
                 (let c = \<lparr> self_host = h, self_username = u, self_password = pw,
                            self_port = get_default srv ''port'' (PInt 22),
                            self_timeout = timeout, self_check_path = check_path \<rparr>
                  in Inr [(srv, SFTPChecker_check (sftp_of w i) c (SFTPChecker_init c (init_now w i)))])
             | Inr vs \<Rightarrow> Inr []
             | Inl e \<Rightarrow> Inl e)
          else Inr [])"

text \<open>Lines 388-412: the loop that submits; the first exception ends it.\<close>

fun cs_submit_all ::
  "world \<Rightarrow> string option \<Rightarrow> int \<Rightarrow> nat \<Rightarrow> server list \<Rightarrow> exn + (server \<times> (exn + probe_result)) list" where
  "cs_submit_all w check_path timeout i [] = Inr []"
| "cs_submit_all w check_path timeout i (srv # rest) =
     (case cs_submit w check_path timeout i srv of
        Inl e \<Rightarrow> Inl e
      | Inr fut \<Rightarrow>
          (case cs_submit_all w check_path timeout (Suc i) rest of
             Inl e \<Rightarrow> Inl e
           | Inr futs \<Rightarrow> Inr (fut @ futs)))"

text \<open>Lines 429-438.\<close>

definition cs_error_result :: "server \<Rightarrow> string \<Rightarrow> exn \<Rightarrow> exn + result" where
  "cs_error_result srv now e =
     (case getitems srv [''host'', ''port'', ''username'', ''protocol''] of
        Inr [h, po, u, proto] \<Rightarrow>
          Inr [''host'' \<mapsto> h,
               ''port'' \<mapsto> po,
               ''username'' \<mapsto> u,
               ''protocol'' \<mapsto> PStr (if py_eq_int proto 0 then ''FTP'' else ''SFTP''),
               ''timestamp'' \<mapsto> PStr now,
               ''connection'' \<mapsto> PBool False,
               ''authentication'' \<mapsto> PBool False,
               ''errors'' \<mapsto> PList [''Check failed: '' @ str_exn e]]
      | Inr vs \<Rightarrow> Inr Map.empty
      | Inl e2 \<Rightarrow> Inl e2)"

type_synonym cs_state = "result list \<times> cs_event list"

text \<open>Lines 417-427: the body of the \<^verbatim>\<open>try\<close>. The messages read the keys of the server
  and of the result from left to right.\<close>

definition cs_try :: "server \<Rightarrow> exn + probe_result \<Rightarrow> cs_state \<Rightarrow> exn option \<times> cs_state" where
  "cs_try srv fut st =
     (case st of (results, out) \<Rightarrow>
        (case fut of
           Inl e \<Rightarrow> (Some e, (results, out))
         | Inr r \<Rightarrow>
             (let result = to_dict r; results1 = results @ [result]
              in case connection_and_authentication result of
                   Inl e \<Rightarrow> (Some e, (results1, out))
                 | Inr True \<Rightarrow>
                     (case getitems srv [''username'', ''password'', ''host'', ''port'', ''type''] of
                        Inl e \<Rightarrow> (Some e, (results1, out))
                      | Inr vs \<Rightarrow>
                          (case getitems result [''connection_time'', ''auth_time''] of
                             Inl e \<Rightarrow> (Some e, (results1, out))
                           | Inr ts \<Rightarrow> (None, (results1, out @ [Success vs ts]))))
                 | Inr False \<Rightarrow>
                     (case getitems srv [''username'', ''host'', ''port'', ''type''] of
                        Inl e \<Rightarrow> (Some e, (results1, out))
                      | Inr vs \<Rightarrow>
                          (let out1 = out @ [Failed vs]
                           in case getitem result ''errors'' of
                                Inl e \<Rightarrow> (Some e, (results1, out1))
                              | Inr ev \<Rightarrow>
                                  if truthy ev
                                  then (case py_iter ev of
                                          Inl e \<Rightarrow> (Some e, (results1, out1))
                                        | Inr items \<Rightarrow> (None, (results1, out1 @ map Error_line items)))
                                  else (None, (results1, out1)))))))"

text \<open>Lines 428-440: the handler. What it raises itself leaves \<^verbatim>\<open>check_servers\<close>.\<close>

definition cs_except :: "server \<Rightarrow> string \<Rightarrow> exn \<Rightarrow> cs_state \<Rightarrow> exn option \<times> cs_state" where
  "cs_except srv now e st =
     (case st of (results, out) \<Rightarrow>
        (case cs_error_result srv now e of
           Inl e2 \<Rightarrow> (Some e2, (results, out))
         | Inr error_result \<Rightarrow>
             (let results1 = results @ [error_result]
              in case getitems srv [''username'', ''host'', ''port'', ''type''] of
                   Inl e2 \<Rightarrow> (Some e2, (results1, out))
                 | Inr vs \<Rightarrow> (None, (results1, out @ [Check_error vs (str_exn e)])))))"

definition cs_step :: "world \<Rightarrow> nat \<Rightarrow> server \<Rightarrow> exn + probe_result \<Rightarrow> cs_state \<Rightarrow> exn option \<times> cs_state" where
  "cs_step w i srv fut st =
     (case cs_try srv fut st of
        (None, st1) \<Rightarrow> (None, st1)
      | (Some e, st1) \<Rightarrow> cs_except srv (error_now w i) e st1)"

fun cs_collect ::
  "world \<Rightarrow> nat \<Rightarrow> (server \<times> (exn + probe_result)) list \<Rightarrow> cs_state \<Rightarrow> exn option \<times> cs_state" where
  "cs_collect w i [] st = (None, st)"
| "cs_collect w i ((srv, fut) # rest) st =
     (case cs_step w i srv fut st of
        (Some e, st1) \<Rightarrow> (Some e, st1)
      | (None, st1) \<Rightarrow> cs_collect w (Suc i) rest st1)"

text \<open>
  \<^verbatim>\<open>AdvancedFTPChecker.check_servers\<close>, from the list \<^verbatim>\<open>self.results\<close> it starts with: the
  exception that leaves it, if any, \<^verbatim>\<open>self.results\<close> afterwards (the list returned) and
  the messages printed.
\<close>

definition check_servers ::
  "world \<Rightarrow> result list \<Rightarrow> server list \<Rightarrow> int \<Rightarrow> string option \<Rightarrow> int
     \<Rightarrow> exn option \<times> result list \<times> cs_event list" where
  "check_servers w results servers max_workers check_path timeout =
     (if max_workers \<le> 0
      then (Some (Exn ValueError ''max_workers must be greater than 0''), results, [])
      else (case cs_submit_all w check_path timeout 0 servers of
              Inl e \<Rightarrow> (Some e, results, [])
            | Inr futures \<Rightarrow>
                (case cs_collect w 0 (as_completed (order w) futures) (results, []) of
                   (ex, (results1, out)) \<Rightarrow> (ex, results1, out))))"

section \<open>Reports\<close>

text \<open>
  What a report holds, before it is written out: the text of a message is a list of
  pieces, a literal text or a value that the f-string formats with \<^verbatim>\<open>str\<close>.
\<close>

datatype piece = Lit string | Val pyval

type_synonym line = "piece list"

definition bind :: "exn + 'a \<Rightarrow> ('a \<Rightarrow> exn + 'b) \<Rightarrow> exn + 'b" where
  "bind m f = (case m of Inl e \<Rightarrow> Inl e | Inr v \<Rightarrow> f v)"

text \<open>\<^verbatim>\<open>sum(1 for r in self.results if r['connection'] and r['authentication'])\<close>\<close>

fun successful :: "result list \<Rightarrow> exn + nat" where
  "successful [] = Inr 0"
| "successful (r # rs) =
     bind (connection_and_authentication r) (\<lambda>b.
     bind (successful rs) (\<lambda>n. Inr ((if b then 1 else 0) + n)))"

text \<open>\<^verbatim>\<open>v[:100]\<close> and \<^verbatim>\<open>len(v)\<close>\<close>

fun py_slice100 :: "pyval \<Rightarrow> exn + pyval" where
  "py_slice100 (PStr s) = Inr (PStr (take 100 s))"
| "py_slice100 (PList xs) = Inr (PList (take 100 xs))"
| "py_slice100 PNone = Inl (not_subscriptable ''NoneType'')"
| "py_slice100 (PBool b) = Inl (not_subscriptable ''bool'')"
| "py_slice100 (PInt n) = Inl (not_subscriptable ''int'')"
| "py_slice100 (PFloat t) = Inl (not_subscriptable ''float'')"

fun py_len :: "pyval \<Rightarrow> exn + nat" where
  "py_len (PStr s) = Inr (length s)"
| "py_len (PList xs) = Inr (length xs)"
| "py_len PNone = Inl (has_no_len ''NoneType'')"
| "py_len (PBool b) = Inl (has_no_len ''bool'')"
| "py_len (PInt n) = Inl (has_no_len ''int'')"
| "py_len (PFloat t) = Inl (has_no_len ''float'')"

subsection \<open>Text\<close>

text \<open>Lines 459-466: the head of the text report.\<close>

definition txt_header :: "string \<Rightarrow> nat \<Rightarrow> nat \<Rightarrow> line list" where
  "txt_header now n succ =
     [[Lit ''Advanced FTP/SFTP Check Results''],
      [Lit ''==============================''],
      [Lit ''Generated: '', Val (PStr now)],
      [Lit ''Total servers: '', Val (PInt (int n))],
      [],
      [Lit ''Successful connections: '', Val (PInt (int succ))],
      [Lit ''Failed connections: '', Val (PInt (int n - int succ))],
      []]"

text \<open>A flag with its time, when the time is true: lines 470-473 and 475-478.\<close>

definition txt_status :: "string \<Rightarrow> result \<Rightarrow> string \<Rightarrow> string \<Rightarrow> exn + line" where
  "txt_status label result flag time =
     bind (getitem result flag) (\<lambda>f.
     bind (getitem result time) (\<lambda>t.
       Inr ([Lit label, Lit (if truthy f then ''Success'' else ''Failed'')]
            @ (if truthy t then [Lit '' ('', Val t, Lit ''ms)''] else []))))"

text \<open>Lines 480-486.\<close>

definition txt_path :: "result \<Rightarrow> exn + line list" where
  "txt_path result =
     bind (getitem result ''path_exists'') (\<lambda>pe.
       if pe \<noteq> PNone then
         bind (getitem result ''path_check_time'') (\<lambda>t.
         bind (getitem result ''path_type'') (\<lambda>ty.
           Inr [[Lit ''  Path check: '', Lit (if truthy pe then ''Exists'' else ''Missing'')]
                @ (if truthy t then [Lit '' ('', Val t, Lit ''ms)''] else [])
                @ (if truthy ty then [Lit '' [Type: '', Val ty, Lit '']''] else [])]))
       else Inr [])"

text \<open>Lines 488-492.\<close>

definition txt_welcome :: "result \<Rightarrow> exn + line list" where
  "txt_welcome result =
     bind (getitem result ''welcome_message'') (\<lambda>wm.
       if truthy wm then
         bind (py_slice100 wm) (\<lambda>cut.
         bind (py_len wm) (\<lambda>n.
           Inr [[Lit ''  Welcome: '', Val cut] @ (if n > 100 then [Lit ''...''] else [])]))
       else Inr [])"

text \<open>Lines 494-495.\<close>

definition txt_features :: "result \<Rightarrow> exn + line list" where
  "txt_features result =
     bind (getitem result ''features'') (\<lambda>fs.
       if truthy fs then
         bind (py_len fs) (\<lambda>n. Inr [[Lit ''  Features: '', Val (PInt (int n)), Lit '' supported'']])
       else Inr [])"

text \<open>Lines 499-502.\<close>

definition txt_errors :: "result \<Rightarrow> exn + line list" where
  "txt_errors result =
     bind (getitem result ''errors'') (\<lambda>es.
       if truthy es then
         bind (py_iter es) (\<lambda>items.
           Inr ([Lit ''  Errors:''] # map (\<lambda>error. [Lit ''    - '', Val (PStr error)]) items))
       else Inr [])"

text \<open>Lines 469-504: the lines of the result numbered \<open>i\<close>.\<close>

definition txt_server :: "nat \<Rightarrow> result \<Rightarrow> exn + line list" where
  "txt_server i result =
     bind (getitems result [''username'', ''host'', ''port'']) (\<lambda>vs.
     bind (txt_status ''  Connection: '' result ''connection'' ''connection_time'') (\<lambda>conn.
     bind (txt_status ''  Authentication: '' result ''authentication'' ''auth_time'') (\<lambda>auth.
     bind (txt_path result) (\<lambda>path.
     bind (txt_welcome result) (\<lambda>welcome.
     bind (txt_features result) (\<lambda>feats.
     bind (txt_errors result) (\<lambda>errs.
       Inr ([[Lit ''Server '', Val (PInt (int i)), Lit '': '', Val (vs ! 0), Lit ''@'',
              Val (vs ! 1), Lit '':'', Val (vs ! 2), Lit '' ('',
              Val (get_default result ''protocol'' (PStr ''Unknown'')), Lit '')''],
             conn, auth]
            @ path @ welcome @ feats
            @ [[Lit ''  Total time: '', Val (get_default result ''total_time'' (PStr ''N/A'')),
                Lit ''ms'']]
            @ errs @ [[]]))))))))"

fun txt_servers :: "nat \<Rightarrow> result list \<Rightarrow> exn + line list" where
  "txt_servers i [] = Inr []"
| "txt_servers i (result # rest) =
     bind (txt_server i result) (\<lambda>ls.
     bind (txt_servers (Suc i) rest) (\<lambda>more. Inr (ls @ more)))"

text \<open>\<^verbatim>\<open>_save_txt\<close>: the text, or the exception raised before anything is written.\<close>

definition save_txt :: "string \<Rightarrow> result list \<Rightarrow> exn + line list" where
  "save_txt now results =
     bind (successful results) (\<lambda>succ.
     bind (txt_servers 1 results) (\<lambda>body.
       Inr (txt_header now (length results) succ @ body)))"

subsection \<open>XML\<close>

text \<open>
  The element tree that \<^verbatim>\<open>_save_xml\<close> builds: a tag, the \<^verbatim>\<open>text\<close> of the element and its
  children. The text is absent, a value assigned as it is, or \<^verbatim>\<open>str\<close> of a value.
\<close>

datatype xtext = NoText | Text pyval | StrOf pyval

datatype xml = Element string xtext "xml list"

definition leaf :: "string \<Rightarrow> xtext \<Rightarrow> xml" where
  "leaf tag t = Element tag t []"

text \<open>Lines 531-537.\<close>

definition xml_status :: "result \<Rightarrow> exn + xml" where
  "xml_status result =
     bind (getitems result [''connection'', ''connection_time'']) (\<lambda>c.
     bind (getitems result [''authentication'', ''auth_time'']) (\<lambda>a.
       Inr (Element ''status'' NoText
              ([leaf ''connection'' (StrOf (c ! 0))]
               @ (if truthy (c ! 1) then [leaf ''connection_time_ms'' (StrOf (c ! 1))] else [])
               @ [leaf ''authentication'' (StrOf (a ! 0))]
               @ (if truthy (a ! 1) then [leaf ''authentication_time_ms'' (StrOf (a ! 1))] else [])))))"

text \<open>Lines 539-545.\<close>

definition xml_path :: "result \<Rightarrow> exn + xml list" where
  "xml_path result =
     bind (getitem result ''path_exists'') (\<lambda>pe.
       if pe \<noteq> PNone then
         bind (getitem result ''path_type'') (\<lambda>ty.
         bind (getitem result ''path_check_time'') (\<lambda>t.
           Inr [Element ''path_check'' NoText
                  ([leaf ''exists'' (StrOf pe)]
                   @ (if truthy ty then [leaf ''type'' (Text ty)] else [])
                   @ (if truthy t then [leaf ''check_time_ms'' (StrOf t)] else []))]))
       else Inr [])"

text \<open>Lines 550-553 and 557-560: a list under \<open>tag\<close>, one \<open>item\<close> for each entry.\<close>

definition xml_list :: "result \<Rightarrow> string \<Rightarrow> string \<Rightarrow> string \<Rightarrow> exn + xml list" where
  "xml_list result key tag item =
     bind (getitem result key) (\<lambda>v.
       if truthy v then
         bind (py_iter v) (\<lambda>items.
           Inr [Element tag NoText (map (\<lambda>x. leaf item (Text (PStr x))) items)])
       else Inr [])"

text \<open>Lines 524-560: the element of one result.\<close>

definition xml_server :: "result \<Rightarrow> exn + xml" where
  "xml_server result =
     bind (getitems result [''host'', ''port'', ''username'']) (\<lambda>vs.
     bind (getitem result ''timestamp'') (\<lambda>ts.
     bind (xml_status result) (\<lambda>status.
     bind (xml_path result) (\<lambda>path.
     bind (getitem result ''welcome_message'') (\<lambda>wm.
     bind (xml_list result ''features'' ''features'' ''feature'') (\<lambda>feats.
     bind (xml_list result ''errors'' ''errors'' ''error'') (\<lambda>errs.
       Inr (Element ''server'' NoText
              ([leaf ''host'' (Text (vs ! 0)),
                leaf ''port'' (StrOf (vs ! 1)),
                leaf ''username'' (Text (vs ! 2)),
                leaf ''protocol'' (Text (get_default result ''protocol'' (PStr ''Unknown''))),
                leaf ''timestamp'' (Text ts),
                status]
               @ path
               @ (if truthy wm then [leaf ''welcome_message'' (Text wm)] else [])
               @ feats
               @ [leaf ''total_time_ms'' (StrOf (get_default result ''total_time'' (PStr ''N/A'')))]
               @ errs)))))))))"

fun xml_servers :: "result list \<Rightarrow> exn + xml list" where
  "xml_servers [] = Inr []"
| "xml_servers (result # rest) =
     bind (xml_server result) (\<lambda>x.
     bind (xml_servers rest) (\<lambda>xs. Inr (x # xs)))"

text \<open>Lines 514-520: the four elements at the head of the tree.\<close>

definition xml_header :: "string \<Rightarrow> nat \<Rightarrow> nat \<Rightarrow> xml list" where
  "xml_header now n succ =
     [leaf ''timestamp'' (Text (PStr now)),
      leaf ''total_servers'' (StrOf (PInt (int n))),
      leaf ''successful_connections'' (StrOf (PInt (int succ))),
      leaf ''failed_connections'' (StrOf (PInt (int n - int succ)))]"

text \<open>
  Line 563 writes the tree with \<^verbatim>\<open>ET.tostring\<close> and reads the bytes again with
  \<^verbatim>\<open>minidom.parseString\<close>. The first raises \<^verbatim>\<open>TypeError\<close> at a text that is neither
  \<^verbatim>\<open>None\<close> nor a string (the text of that exception names the value and is left empty
  here). It writes a control character as it stands, and the parser then refuses every
  control character other than the tabulator, the line feed and the carriage return
  with an \<^verbatim>\<open>ExpatError\<close> (whose text goes on with the line and the column, left out
  here); a character from 128 on is written as a reference, which the parser reads.
\<close>

fun xml_texts :: "xml \<Rightarrow> xtext list" where
  "xml_texts (Element tag t children) = t # concat (map xml_texts children)"

fun serializable :: "xtext \<Rightarrow> bool" where
  "serializable NoText = True"
| "serializable (StrOf v) = True"
| "serializable (Text PNone) = True"
| "serializable (Text (PStr s)) = True"
| "serializable (Text v) = False"

definition tostring :: "xml \<Rightarrow> exn option" where
  "tostring root =
     (if list_all serializable (xml_texts root) then None else Some (Exn TypeError []))"

definition xml_char :: "char \<Rightarrow> bool" where
  "xml_char c =
     (c \<notin> set [CHR 0x00, CHR 0x01, CHR 0x02, CHR 0x03, CHR 0x04, CHR 0x05, CHR 0x06, CHR 0x07,
                  CHR 0x08, CHR 0x0B, CHR 0x0C, CHR 0x0E, CHR 0x0F, CHR 0x10, CHR 0x11, CHR 0x12,
                  CHR 0x13, CHR 0x14, CHR 0x15, CHR 0x16, CHR 0x17, CHR 0x18, CHR 0x19, CHR 0x1A,
                  CHR 0x1B, CHR 0x1C, CHR 0x1D, CHR 0x1E, CHR 0x1F])"

text \<open>The characters of a text as they are written: \<^verbatim>\<open>str\<close> of \<^verbatim>\<open>None\<close>, of a boolean
  and of a number has letters, digits and signs only, and \<^verbatim>\<open>str\<close> of a list is its
  \<^verbatim>\<open>repr\<close>, which escapes the control characters.\<close>

fun well_formed :: "xtext \<Rightarrow> bool" where
  "well_formed (Text (PStr s)) = list_all xml_char s"
| "well_formed (StrOf (PStr s)) = list_all xml_char s"
| "well_formed t = True"

definition parseString :: "xml \<Rightarrow> exn option" where
  "parseString root =
     (if list_all well_formed (xml_texts root) then None
      else Some (Exn ExpatError ''not well-formed (invalid token)''))"

definition serialize :: "xml \<Rightarrow> exn + xml" where
  "serialize root =
     (case tostring root of
        Some e \<Rightarrow> Inl e
      | None \<Rightarrow> (case parseString root of Some e \<Rightarrow> Inl e | None \<Rightarrow> Inr root))"

text \<open>\<^verbatim>\<open>_save_xml\<close>: the tree that is written, or the exception raised before anything is
  written. Opening the file and writing to it are taken to succeed, here and in the
  other three reports.\<close>

definition save_xml :: "string \<Rightarrow> result list \<Rightarrow> exn + xml" where
  "save_xml now results =
     bind (successful results) (\<lambda>succ.
     bind (xml_servers results) (\<lambda>servers.
       serialize (Element ''ftp_check_results'' NoText
                    (xml_header now (length results) succ
                     @ [Element ''servers'' NoText servers]))))"

subsection \<open>JSON\<close>



subsection \<open>CSV\<close>






section \<open>The command line\<close>

subsection \<open>Word lists and numbers\<close>

text \<open>
  The files the program reads: whether a path is a file, the lines of a file (with their
  line ends; \<open>None\<close> when opening or reading raises) and what the FileZilla parser makes
  of a file (the list of servers, or the exception it raises).
\<close>

record filesystem =
  fs_isfile :: "string \<Rightarrow> bool"
  fs_lines :: "string \<Rightarrow> string list option"
  fs_filezilla :: "string \<Rightarrow> exn + server list"

text \<open>Lines 610-617.\<close>

definition read_wordlist :: "filesystem \<Rightarrow> string \<Rightarrow> string list" where
  "read_wordlist fs file_path =
     (case fs_lines fs file_path of
        None \<Rightarrow> []
      | Some ls \<Rightarrow> [strip l. l \<leftarrow> ls, strip l \<noteq> [] \<and> \<not> startswith l ''#''])"

text \<open>
  The decimal digits, which \<^verbatim>\<open>int\<close> reads, and the digits of \<^verbatim>\<open>str.isdigit\<close>: below 256
  these are the decimal digits and the superscripts two, three and one (U+00B2, U+00B3
  and U+00B9), which \<^verbatim>\<open>int\<close> does not read.
\<close>

definition is_decimal :: "char \<Rightarrow> bool" where
  "is_decimal c = (c \<in> set ''0123456789'')"

definition is_digit :: "char \<Rightarrow> bool" where
  "is_digit c = (is_decimal c \<or> c \<in> set [CHR 0xB2, CHR 0xB3, CHR 0xB9])"

text \<open>\<^verbatim>\<open>s.isdigit()\<close>\<close>

definition isdigit :: "string \<Rightarrow> bool" where
  "isdigit s = (s \<noteq> [] \<and> list_all is_digit s)"

text \<open>\<^verbatim>\<open>str(n)\<close> for a natural number.\<close>

fun show_nat :: "nat \<Rightarrow> string" where
  "show_nat n =
     (if n < 10 then [char_of (48 + n)]
      else show_nat (n div 10) @ [char_of (48 + n mod 10)])"

declare show_nat.simps [simp del]

definition digits_value :: "string \<Rightarrow> nat" where
  "digits_value s = foldl (\<lambda>n c. 10 * n + (of_char c - 48)) 0 s"

text \<open>The digits of an integer literal: single underscores may stand between digits.\<close>

fun int_body :: "string \<Rightarrow> bool" where
  "int_body [] = False"
| "int_body [c] = is_decimal c"
| "int_body (c # d # ds) =
     (is_decimal c \<and> (if d = CHR ''_'' then int_body ds else int_body (d # ds)))"

text \<open>
  The interpreter refuses to convert more than \<^verbatim>\<open>sys.int_max_str_digits\<close> digits, 4300
  unless it was started with another limit (CPython from 3.11 on, and the later releases
  of 3.7 to 3.10).
\<close>

definition int_max_str_digits :: nat where
  "int_max_str_digits = 4300"

definition exceeds_limit :: "nat \<Rightarrow> exn" where
  "exceeds_limit n =
     Exn ValueError (''Exceeds the limit (4300 digits) for integer string conversion: value has ''
                     @ show_nat n @ '' digits; use sys.set_int_max_str_digits() to increase the limit'')"

text \<open>
  \<^verbatim>\<open>repr(s)\<close> for a string: in double quotes when it holds a single quote and no double
  quote, in single quotes otherwise; the quote and the backslash are escaped, and so are
  the characters that are not printable (the controls, U+007F to U+00A0 and the soft
  hyphen U+00AD).
\<close>

definition printable :: "char \<Rightarrow> bool" where
  "printable c =
     (if (of_char c :: nat) < 127 then 32 \<le> (of_char c :: nat)
      else 161 \<le> (of_char c :: nat) \<and> (of_char c :: nat) \<noteq> 173)"

definition hex_digit :: "nat \<Rightarrow> char" where
  "hex_digit n = ''0123456789abcdef'' ! n"

definition repr_char :: "char \<Rightarrow> char \<Rightarrow> string" where
  "repr_char q c =
     (if c = q \<or> c = CHR 0x5C then [CHR 0x5C, c]
      else if c = CHR 0x09 then [CHR 0x5C, CHR ''t'']
      else if c = CHR 0x0A then [CHR 0x5C, CHR ''n'']
      else if c = CHR 0x0D then [CHR 0x5C, CHR ''r'']
      else if printable c then [c]
      else [CHR 0x5C, CHR ''x'', hex_digit (of_char c div 16), hex_digit (of_char c mod 16)])"

definition py_repr :: "string \<Rightarrow> string" where
  "py_repr s =
     (let q = (if CHR 0x27 \<in> set s \<and> CHR 0x22 \<notin> set s then CHR 0x22 else CHR 0x27)
      in [q] @ concat (map (repr_char q) s) @ [q])"

text \<open>The \<^verbatim>\<open>ValueError\<close> of \<^verbatim>\<open>int\<close>: its text shows the first 200 characters of the
  \<^verbatim>\<open>repr\<close> of the string.\<close>

definition invalid_literal :: "string \<Rightarrow> exn" where
  "invalid_literal s =
     Exn ValueError (''invalid literal for int() with base 10: '' @ take 200 (py_repr s))"

text \<open>\<^verbatim>\<open>int(s)\<close> for a string: white space around, a sign, decimal digits;
  \<^verbatim>\<open>ValueError\<close> otherwise.\<close>

definition py_int :: "string \<Rightarrow> exn + int" where
  "py_int s =
     (let t = strip s;
          (negative, body) =
             (case t of
                [] \<Rightarrow> (False, [])
              | c # cs \<Rightarrow>
                  if c = CHR ''-'' then (True, cs)
                  else if c = CHR ''+'' then (False, cs)
                  else (False, t))
      in if int_body body
         then (let ds = filter (\<lambda>c. c \<noteq> CHR ''_'') body
               in if length ds > int_max_str_digits then Inl (exceeds_limit (length ds))
                  else Inr (if negative then - int (digits_value ds) else int (digits_value ds)))
         else Inl (invalid_literal s))"

text \<open>\<^verbatim>\<open>[int(p) for p in xs]\<close>\<close>

fun ints_of :: "string list \<Rightarrow> exn + int list" where
  "ints_of [] = Inr []"
| "ints_of (p # ps) =
     bind (py_int p) (\<lambda>n.
     bind (ints_of ps) (\<lambda>ns. Inr (n # ns)))"

subsection \<open>Choosing what to run\<close>

record args =
  args_filezilla_xml :: "string option"
  args_host :: "string option"
  args_brute_force :: bool
  args_port :: "int option"
  args_username :: "string option"
  args_password :: "string option"
  args_protocol :: int
  args_user_list :: "string option"
  args_pass_list :: "string option"
  args_combo_list :: "string option"
  args_port_list :: "string option"
  args_timeout :: int
  args_max_workers :: int
  args_check_path :: "string option"

text \<open>An optional text argument is false when it is \<^verbatim>\<open>None\<close> and when it is empty: the
  program only uses it where it is true, so \<^verbatim>\<open>None\<close> is read as the empty text.\<close>

definition text_of :: "string option \<Rightarrow> string" where
  "text_of a = (case a of None \<Rightarrow> [] | Some s \<Rightarrow> s)"

text \<open>\<^verbatim>\<open>args.port if args.port else (21 if args.protocol == 0 else 22)\<close>\<close>

definition port_of :: "args \<Rightarrow> int" where
  "port_of a =
     (case args_port a of
        None \<Rightarrow> (if args_protocol a = 0 then 21 else 22)
      | Some p \<Rightarrow> if p \<noteq> 0 then p else (if args_protocol a = 0 then 21 else 22))"

text \<open>Lines 672-677 and 680-685.\<close>

definition main_usernames :: "args \<Rightarrow> filesystem \<Rightarrow> string list" where
  "main_usernames a fs =
     (if text_of (args_user_list a) \<noteq> [] then read_wordlist fs (text_of (args_user_list a))
      else if text_of (args_username a) \<noteq> [] then [text_of (args_username a)]
      else [''anonymous'', ''ftp'', ''admin'', ''root'', ''guest''])"

definition main_passwords :: "args \<Rightarrow> filesystem \<Rightarrow> string list" where
  "main_passwords a fs =
     (if text_of (args_pass_list a) \<noteq> [] then read_wordlist fs (text_of (args_pass_list a))
      else if text_of (args_password a) \<noteq> [] then [text_of (args_password a)]
      else [''anonymous'', ''ftp'', ''admin'', ''root'', ''guest'', ''123456'', ''password'', []])"

text \<open>\<^verbatim>\<open>combo.split(":", 1)\<close> for a text that holds a colon.\<close>

definition split_colon :: "string \<Rightarrow> string \<times> string" where
  "split_colon s = (takeWhile (\<lambda>c. c \<noteq> CHR '':'') s, tl (dropWhile (\<lambda>c. c \<noteq> CHR '':'') s))"

text \<open>Lines 690-695: the two lists that the lines of the combo file are split into.\<close>

fun main_combos :: "string list \<Rightarrow> string list \<times> string list" where
  "main_combos [] = ([], [])"
| "main_combos (cmb # rest) =
     (case main_combos rest of
        (usernames, passwords) \<Rightarrow>
          if CHR '':'' \<in> set cmb
          then (case split_colon cmb of (u, p) \<Rightarrow> (strip u # usernames, strip p # passwords))
          else (usernames, passwords))"

text \<open>Lines 669-695.\<close>

definition main_credentials :: "args \<Rightarrow> filesystem \<Rightarrow> string list \<times> string list" where
  "main_credentials a fs =
     (if text_of (args_combo_list a) \<noteq> []
      then main_combos (read_wordlist fs (text_of (args_combo_list a)))
      else (main_usernames a fs, main_passwords a fs))"

text \<open>Lines 698-704.\<close>

definition main_ports :: "args \<Rightarrow> filesystem \<Rightarrow> exn + int list" where
  "main_ports a fs =
     (let pl = text_of (args_port_list a)
      in if pl \<noteq> [] then
           (if fs_isfile fs pl then ints_of (read_wordlist fs pl)
            else ints_of (filter (\<lambda>p. isdigit (strip p)) (split_on CHR '','' pl)))
         else Inr [port_of a])"

text \<open>What \<^verbatim>\<open>main\<close> hands to a scheduler.\<close>

datatype job =
    Brute_force BruteForcer "string list" "string list" "int list"
  | Check_servers "server list" int "string option" int

text \<open>How \<^verbatim>\<open>main\<close> goes on after lines 661-736: \<^verbatim>\<open>sys.exit\<close> with a status, an exception
  that nothing catches, or the call of a scheduler.\<close>

datatype status = SysExit int | Uncaught exn | Run job

text \<open>Lines 727-733.\<close>

definition single_server :: "args \<Rightarrow> server" where
  "single_server a =
     [''host'' \<mapsto> PStr (text_of (args_host a)),
      ''port'' \<mapsto> PInt (port_of a),
      ''protocol'' \<mapsto> PInt (args_protocol a),
      ''username'' \<mapsto> PStr (text_of (args_username a)),
      ''password'' \<mapsto> PStr (text_of (args_password a))]"

text \<open>Lines 661-736 of \<^verbatim>\<open>main\<close>, up to the call of the scheduler.\<close>

definition main_configure :: "args \<Rightarrow> filesystem \<Rightarrow> status" where
  "main_configure a fs =
     (if args_brute_force a then
        (if text_of (args_host a) = [] then SysExit 1
         else (case main_credentials a fs of
                 (usernames, passwords) \<Rightarrow>
                   (case main_ports a fs of
                      Inl e \<Rightarrow> Uncaught e
                    | Inr ports \<Rightarrow>
                        Run (Brute_force
                               \<lparr> bf_host = text_of (args_host a), bf_protocol = args_protocol a,
                                 bf_timeout = args_timeout a, bf_max_workers = args_max_workers a,
                                 bf_check_path = args_check_path a, bf_results = [] \<rparr>
                               usernames passwords ports))))
      else if text_of (args_filezilla_xml a) \<noteq> [] then
        (case fs_filezilla fs (text_of (args_filezilla_xml a)) of
           Inl e \<Rightarrow> SysExit 1
         | Inr servers \<Rightarrow>
             Run (Check_servers servers (args_max_workers a) (args_check_path a) (args_timeout a)))
      else if text_of (args_host a) \<noteq> [] then
        (if text_of (args_username a) = [] \<or> text_of (args_password a) = [] then SysExit 1
         else Run (Check_servers [single_server a] (args_max_workers a) (args_check_path a)
                     (args_timeout a)))
      else SysExit 1)"

section \<open>Checker objects in a store\<close>

text \<open>
  \<^verbatim>\<open>check\<close> returns \<^verbatim>\<open>self.results\<close> itself, not a copy: the caller and the checker hold
  the same dictionary. The store maps the address of a dictionary to its contents; a
  checker object holds its arguments and the address of its \<^verbatim>\<open>self.results\<close>.
\<close>

type_synonym addr = nat

type_synonym store = "addr \<Rightarrow> probe_result"

record checker_obj =
  obj_args :: checker
  obj_results :: addr

text \<open>\<^verbatim>\<open>FTPChecker(...)\<close> and \<^verbatim>\<open>SFTPChecker(...)\<close>, with \<open>a\<close> the address of the new
  dictionary.\<close>

definition FTPChecker_new :: "addr \<Rightarrow> checker \<Rightarrow> string \<Rightarrow> store \<Rightarrow> checker_obj \<times> store" where
  "FTPChecker_new a c now h = (\<lparr> obj_args = c, obj_results = a \<rparr>, h(a := FTPChecker_init c now))"

definition SFTPChecker_new :: "addr \<Rightarrow> checker \<Rightarrow> string \<Rightarrow> store \<Rightarrow> checker_obj \<times> store" where
  "SFTPChecker_new a c now h = (\<lparr> obj_args = c, obj_results = a \<rparr>, h(a := SFTPChecker_init c now))"

text \<open>\<^verbatim>\<open>obj.check()\<close>: the address returned (or the exception) and the store afterwards.\<close>

definition FTPChecker_check_obj :: "ftp_env \<Rightarrow> checker_obj \<Rightarrow> store \<Rightarrow> (exn + addr) \<times> store" where
  "FTPChecker_check_obj env obj h =
     (case FTPChecker_run env (obj_args obj) (h (obj_results obj)) of
        (ex, r) \<Rightarrow>
          ((case ex of None \<Rightarrow> Inr (obj_results obj) | Some e \<Rightarrow> Inl e),
           h(obj_results obj := r)))"

definition SFTPChecker_check_obj :: "sftp_env \<Rightarrow> checker_obj \<Rightarrow> store \<Rightarrow> (exn + addr) \<times> store" where
  "SFTPChecker_check_obj env obj h =
     (case SFTPChecker_run env (obj_args obj) (h (obj_results obj)) of
        (ex, r) \<Rightarrow>
          ((case ex of None \<Rightarrow> Inr (obj_results obj) | Some e \<Rightarrow> Inl e),
           h(obj_results obj := r)))"

section \<open>Notions and examples\<close>

subsection \<open>Notions used in the properties\<close>

text \<open>The truth value of the entry \<open>k\<close> of a record; false when the key is absent.\<close>

definition flag :: "result \<Rightarrow> string \<Rightarrow> bool" where
  "flag d k = (case d k of None \<Rightarrow> False | Some v \<Rightarrow> truthy v)"

definition flags_ok :: "probe_result \<Rightarrow> bool" where
  "flags_ok r = (authentication r \<longrightarrow> connection r)"

text \<open>
  The records that end up in the list of a scheduler: the one a new checker returns from
  \<^verbatim>\<open>check\<close>, and the one that \<^verbatim>\<open>brute_force\<close> or \<^verbatim>\<open>check_servers\<close> builds for a check that
  raised.
\<close>

inductive produced :: "result \<Rightarrow> bool" where
  by_FTPChecker: "FTPChecker_check env c (FTPChecker_init c now) = Inr r \<Longrightarrow> produced (to_dict r)"
| by_SFTPChecker: "SFTPChecker_check env c (SFTPChecker_init c now) = Inr r \<Longrightarrow> produced (to_dict r)"
| by_brute_force: "produced (bf_error_result cmb now e)"
| by_check_servers: "cs_error_result srv now e = Inr d \<Longrightarrow> produced d"

text \<open>The keys of a record built for a check that raised, and the keys that only a record
  returned by a checker has.\<close>

definition synthetic_keys :: "string set" where
  "synthetic_keys = {''host'', ''port'', ''username'', ''protocol'', ''timestamp'',
                     ''connection'', ''authentication'', ''errors''}"

definition checker_only_keys :: "string set" where
  "checker_only_keys = {''connection_time'', ''auth_time'', ''path_exists'', ''path_type'',
                        ''path_check_time'', ''welcome_message'', ''features'', ''total_time''}"

text \<open>The record that the loop of \<^verbatim>\<open>brute_force\<close> appends for the future completed as
  number \<open>i\<close>: the one the check returned, or the one built for the exception it raised.\<close>

definition bf_record :: "world \<Rightarrow> nat \<times> combo \<times> (exn + probe_result) \<Rightarrow> result" where
  "bf_record w f =
     (case f of
        (i, cmb, Inl e) \<Rightarrow> bf_error_result cmb (error_now w i) e
      | (i, cmb, Inr r) \<Rightarrow> to_dict r)"

text \<open>The same for \<^verbatim>\<open>check_servers\<close>, where building the record reads the server and may
  raise.\<close>

definition cs_record :: "world \<Rightarrow> nat \<times> server \<times> (exn + probe_result) \<Rightarrow> exn + result" where
  "cs_record w f =
     (case f of
        (i, srv, Inl e) \<Rightarrow> cs_error_result srv (error_now w i) e
      | (i, srv, Inr r) \<Rightarrow> Inr (to_dict r))"

text \<open>The combinations that \<^verbatim>\<open>brute_force\<close> generates from its arguments.\<close>

definition bf_generated :: "BruteForcer \<Rightarrow> string list \<Rightarrow> string list \<Rightarrow> int list \<Rightarrow> combo list" where
  "bf_generated self username_list password_list port_list =
     combinations self username_list password_list (default_ports (bf_protocol self) port_list)"

text \<open>The dictionary of lines 309-315.\<close>

definition combo_of :: "BruteForcer \<Rightarrow> int \<Rightarrow> string \<Rightarrow> string \<Rightarrow> combo" where
  "combo_of self p u pw =
     \<lparr> combo_host = bf_host self, combo_port = p, combo_username = u,
       combo_password = pw, combo_protocol = bf_protocol self \<rparr>"

text \<open>A server that \<^verbatim>\<open>check_servers\<close> submits a check for: its protocol is 0 or 1.\<close>

definition supported :: "server \<Rightarrow> bool" where
  "supported srv =
     (case srv ''protocol'' of None \<Rightarrow> False | Some p \<Rightarrow> py_eq_int p 0 \<or> py_eq_int p 1)"

text \<open>The keys that \<^verbatim>\<open>check_servers\<close> reads with \<^verbatim>\<open>server[...]\<close>; the FileZilla parser
  sets them all.\<close>

definition read_keys :: "string set" where
  "read_keys = {''host'', ''port'', ''protocol'', ''username'', ''password'', ''type''}"

definition well_keyed :: "server \<Rightarrow> bool" where
  "well_keyed srv = (read_keys \<subseteq> dom srv)"







subsection \<open>Example inputs\<close>

definition now0 :: string where
  "now0 = ''2024-01-01T00:00:00''"

definition exn0 :: exn where
  "exn0 = Exn OtherException ''boom''"

text \<open>A checker for an anonymous login, and servers that behave in different ways: every
  call succeeds; \<^verbatim>\<open>FEAT\<close> is not known; the connection is refused; the login is
  rejected.\<close>

definition chk0 :: checker where
  "chk0 = \<lparr> self_host = PStr ''ftp.example.test'', self_username = PStr ''anonymous'',
            self_password = PStr [], self_port = PInt 21, self_timeout = 10,
            self_check_path = None \<rparr>"

definition ftp_ok :: ftp_env where
  "ftp_ok = \<lparr> ftp_new = None, ftp_connect = None, ftp_getwelcome = Inr ''220 ready'',
              ftp_login = None, ftp_voidcmd_FEAT = None, ftp_sendcmd_FEAT = None,
              ftp_sendcmd_FEAT2 = Inr ''211 no features'',
              ftp_cwd = (\<lambda>p. None), ftp_cwd_parent = (\<lambda>p. None),
              ftp_retrlines_NLST = Inr [], ftp_exit = None,
              ftp_connect_ms = 1250, ftp_auth_ms = 830, ftp_path_ms = 410, ftp_total_ms = 2600 \<rparr>"

definition ftp_no_feat :: ftp_env where
  "ftp_no_feat = ftp_ok\<lparr>ftp_voidcmd_FEAT := Some (Exn error_perm ''500 Unknown command'')\<rparr>"

definition ftp_refused :: ftp_env where
  "ftp_refused = ftp_ok\<lparr>ftp_connect := Some (Exn OSError ''[Errno 111] Connection refused'')\<rparr>"

definition ftp_bad_login :: ftp_env where
  "ftp_bad_login = ftp_ok\<lparr>ftp_login := Some (Exn error_perm ''530 Login incorrect'')\<rparr>"

text \<open>SSH servers: every call succeeds; the password is rejected; \<^verbatim>\<open>ssh.close()\<close>
  raises.\<close>

definition sftp_ok :: sftp_env where
  "sftp_ok = \<lparr> ssh_new = None, ssh_set_policy = None, ssh_connect = None, ssh_open_sftp = None,
               sftp_stat = Inr (Some 16877), sftp_close = None, ssh_close = None,
               sftp_connect_ms = 5200, sftp_path_ms = 300, sftp_total_ms = 5600 \<rparr>"

definition sftp_bad_auth :: sftp_env where
  "sftp_bad_auth = sftp_ok\<lparr>ssh_connect := Some (Exn AuthenticationException ''Authentication failed.'')\<rparr>"

definition sftp_close_fails :: sftp_env where
  "sftp_close_fails = sftp_ok\<lparr>ssh_close := Some (Exn OSError ''Socket is closed'')\<rparr>"

text \<open>The record that \<^verbatim>\<open>FTPChecker.check\<close> returns for \<open>chk0\<close> when every call succeeds.\<close>

definition r_ok :: probe_result where
  "r_ok = \<lparr> host = PStr ''ftp.example.test'', port = PInt 21, username = PStr ''anonymous'',
            protocol = ''FTP'', timestamp = now0,
            connection = True, connection_time = Some 1250,
            authentication = True, auth_time = Some 830,
            path_exists = None, path_type = None, path_check_time = None,
            welcome_message = Some ''220 ready'', features = [], errors = [],
            total_time = Some 2600 \<rparr>"

text \<open>The same record when the banner of the server holds an escape character.\<close>

definition r_esc :: probe_result where
  "r_esc = r_ok\<lparr>welcome_message := Some (''220 '' @ [CHR 0x1B] @ ''[1mready'')\<rparr>"

text \<open>A server as the FileZilla parser makes it, and the same with protocol 3, which the
  parser labels \<open>SFTP\<close> like every protocol other than 0.\<close>

definition srv_ftp :: server where
  "srv_ftp = [''host'' \<mapsto> PStr ''ftp.example.test'', ''port'' \<mapsto> PInt 21,
              ''protocol'' \<mapsto> PInt 0, ''username'' \<mapsto> PStr ''anonymous'',
              ''password'' \<mapsto> PStr [], ''name'' \<mapsto> PStr ''anonymous@ftp.example.test:21'',
              ''type'' \<mapsto> PStr ''FTP'', ''logontype'' \<mapsto> PStr ''1'']"

definition srv_ftps :: server where
  "srv_ftps = srv_ftp(''protocol'' \<mapsto> PInt 3, ''type'' \<mapsto> PStr ''SFTP'')"

text \<open>Brute forcers for FTP and for SFTP, a combination, and two worlds: in the first the
  first FTP check succeeds; in the second \<^verbatim>\<open>ssh.close()\<close> raises in every SFTP check.\<close>

definition bf0 :: BruteForcer where
  "bf0 = \<lparr> bf_host = ''ftp.example.test'', bf_protocol = 0, bf_timeout = 10,
           bf_max_workers = 5, bf_check_path = None, bf_results = [] \<rparr>"

definition bf1 :: BruteForcer where
  "bf1 = bf0\<lparr>bf_protocol := 1\<rparr>"

definition cmb0 :: combo where
  "cmb0 = \<lparr> combo_host = ''ftp.example.test'', combo_port = 22, combo_username = ''root'',
             combo_password = ''1234'', combo_protocol = 1 \<rparr>"

definition world0 :: world where
  "world0 = \<lparr> ftp_of = (\<lambda>i. if i = 0 then ftp_ok else ftp_bad_login),
              sftp_of = (\<lambda>i. sftp_ok),
              init_now = (\<lambda>i. now0), error_now = (\<lambda>i. now0),
              order = [1, 0] \<rparr>"

definition world1 :: world where
  "world1 = world0\<lparr>sftp_of := (\<lambda>i. sftp_close_fails)\<rparr>"

text \<open>A command line for the brute-force mode, a file system with a combo file of two
  lines, and one with a port file whose second line is not a number.\<close>

definition args0 :: args where
  "args0 = \<lparr> args_filezilla_xml = None, args_host = Some ''ftp.example.test'',
             args_brute_force = True, args_port = None, args_username = None,
             args_password = None, args_protocol = 0, args_user_list = None,
             args_pass_list = None, args_combo_list = None, args_port_list = None,
             args_timeout = 10, args_max_workers = 5, args_check_path = None \<rparr>"

text \<open>The command line \<^verbatim>\<open>--host ftp.example.test --username anonymous --password guest\<close>
  of the single-host mode.\<close>

definition args_single :: args where
  "args_single = args0\<lparr>args_brute_force := False, args_username := Some ''anonymous'',
                        args_password := Some ''guest''\<rparr>"

definition fs0 :: filesystem where
  "fs0 = \<lparr> fs_isfile = (\<lambda>p. p = ''combos.txt''),
            fs_lines = (\<lambda>p. if p = ''combos.txt''
                            then Some [''alice:wonder'' @ [CHR 0x0A], ''bob:builder'' @ [CHR 0x0A]]
                            else None),
            fs_filezilla = (\<lambda>p. Inl exn0) \<rparr>"


text \<open>A store, a checker made in it at address 0, and the store after a first check that
  finds the connection refused and a second check, on the same object, that succeeds.\<close>

definition store0 :: store where
  "store0 = (\<lambda>a. init_results [] chk0 [])"

definition obj0 :: checker_obj where
  "obj0 = fst (FTPChecker_new 0 chk0 now0 store0)"

definition store1 :: store where
  "store1 = snd (FTPChecker_new 0 chk0 now0 store0)"

definition store2 :: store where
  "store2 = snd (FTPChecker_check_obj ftp_refused obj0 store1)"

definition store3 :: store where
  "store3 = snd (FTPChecker_check_obj ftp_ok obj0 store2)"

section \<open>Properties\<close>

subsection \<open>The checkers\<close>

lemma to_dict_lookup:
  "to_dict r ''host'' = Some (host r)"
  "to_dict r ''port'' = Some (port r)"
  "to_dict r ''username'' = Some (username r)"
  "to_dict r ''protocol'' = Some (PStr (protocol r))"
  "to_dict r ''timestamp'' = Some (PStr (timestamp r))"
  "to_dict r ''connection'' = Some (PBool (connection r))"
  "to_dict r ''connection_time'' = Some (opt_float (connection_time r))"
  "to_dict r ''authentication'' = Some (PBool (authentication r))"
  "to_dict r ''auth_time'' = Some (opt_float (auth_time r))"
  "to_dict r ''path_exists'' = Some (opt_bool (path_exists r))"
  "to_dict r ''path_type'' = Some (opt_str (path_type r))"
  "to_dict r ''path_check_time'' = Some (opt_float (path_check_time r))"
  "to_dict r ''welcome_message'' = Some (opt_str (welcome_message r))"
  "to_dict r ''features'' = Some (PList (features r))"
  "to_dict r ''errors'' = Some (PList (errors r))"
  "to_dict r ''total_time'' = map_option PFloat (total_time r)"
  by (simp_all add: to_dict_def Let_def split: option.splits)

lemma ftp_except_None: "fst (ftp_except e r) = None"
  by (simp add: ftp_except_def)

lemma FTPChecker_run_None: "fst (FTPChecker_run env c r) = None"
  by (simp add: FTPChecker_run_def ftp_except_def split: prod.splits option.splits)

lemma FTPChecker_check_Inr: "FTPChecker_check env c r = Inr (snd (FTPChecker_run env c r))"
  using FTPChecker_run_None [of env c r]
  by (cases "FTPChecker_run env c r") (simp add: FTPChecker_check_def returned_def)

lemma append_error_flags [simp]:
  "connection (append_error m r) = connection r"
  "authentication (append_error m r) = authentication r"
  by (simp_all add: append_error_def)

lemma ftp_features_flags:
  "ftp_features env r = (ex, r') \<Longrightarrow> connection r' = connection r \<and> authentication r' = authentication r"
  by (auto simp: ftp_features_def split: option.splits sum.splits if_splits)

lemma ftp_check_file_flags:
  "ftp_check_file env p r = (ex, r') \<Longrightarrow> connection r' = connection r \<and> authentication r' = authentication r"
  by (auto simp: ftp_check_file_def Let_def path_not_found_def split: option.splits sum.splits if_splits)

lemma ftp_path_check_flags:
  "connection (ftp_path_check env p r) = connection r \<and> authentication (ftp_path_check env p r) = authentication r"
  by (auto simp: ftp_path_check_def Let_def path_check_error_def  split: option.splits sum.splits if_splits prod.splits dest: ftp_check_file_flags)

lemma ftp_session_flags_ok:
  "ftp_session env c r = (ex, r') \<Longrightarrow> flags_ok r \<Longrightarrow> flags_ok r'"
  by (auto simp: ftp_session_def Let_def flags_ok_def ftp_path_check_flags split: option.splits sum.splits if_splits prod.splits dest!: ftp_features_flags)

lemma ftp_with_flags_ok:
  "ftp_with env c r = (ex, r') \<Longrightarrow> flags_ok r \<Longrightarrow> flags_ok r'"
  by (auto simp: ftp_with_def split: option.splits prod.splits dest: ftp_session_flags_ok)

lemma ftp_except_flags_ok:
  "ftp_except e r = (ex, r') \<Longrightarrow> flags_ok r \<Longrightarrow> flags_ok r'"
  by (auto simp: ftp_except_def flags_ok_def split: if_splits)

lemma FTPChecker_run_flags_ok:
  "flags_ok r \<Longrightarrow> flags_ok (snd (FTPChecker_run env c r))"
  by (auto simp: FTPChecker_run_def flags_ok_def split: option.splits prod.splits
      dest!: ftp_with_flags_ok ftp_except_flags_ok)

lemma sftp_stat_path_flags:
  "sftp_stat_path env p r = (ex, r') \<Longrightarrow> connection r' = connection r \<and> authentication r' = authentication r"
  by (auto simp: sftp_stat_path_def Let_def path_not_found_def split: option.splits sum.splits if_splits prod.splits)

lemma sftp_path_check_flags:
  "connection (sftp_path_check env p r) = connection r \<and> authentication (sftp_path_check env p r) = authentication r"
  by (auto simp: sftp_path_check_def Let_def path_check_error_def split: option.splits sum.splits if_splits prod.splits dest: sftp_stat_path_flags)

lemma sftp_session_flags_ok:
  "sftp_session env c r = ((ex, r'), b) \<Longrightarrow> flags_ok r \<Longrightarrow> flags_ok r'"
  by (auto simp: sftp_session_def Let_def flags_ok_def sftp_path_check_flags split: option.splits if_splits)

lemma sftp_except_flags_ok:
  "sftp_except e r = (ex, r') \<Longrightarrow> flags_ok r \<Longrightarrow> flags_ok r'"
  by (auto simp: sftp_except_def flags_ok_def split: if_splits)

lemma SFTPChecker_run_flags_ok:
  "flags_ok r \<Longrightarrow> flags_ok (snd (SFTPChecker_run env c r))"
  by (auto simp: SFTPChecker_run_def flags_ok_def split: option.splits prod.splits
      dest!: sftp_session_flags_ok sftp_except_flags_ok)

lemma init_flags_ok: "flags_ok (init_results proto c now)"
  by (simp add: flags_ok_def init_results_def)

lemma returned_snd: "returned out = Inr r \<Longrightarrow> r = snd out"
  by (auto simp: returned_def split: prod.splits option.splits)

text \<open>
  C3. Every record that a checker returns, and every record that a scheduler builds in
  place of a check that raised, has \<open>connection\<close> true when \<open>authentication\<close> is
  true. (The records that \<^verbatim>\<open>brute_force\<close> and \<^verbatim>\<open>check_servers\<close> append to their lists
  are all of these kinds, as the sections on the two schedulers show.)
\<close>

theorem auth_implies_connection:
  "produced d \<Longrightarrow> flag d ''authentication'' \<Longrightarrow> flag d ''connection''"
proof (induction rule: produced.induct)
  case (by_FTPChecker env c now r)
  then have "r = snd (FTPChecker_run env c (FTPChecker_init c now))"
    by (simp add: FTPChecker_check_def returned_snd)
  then have "flags_ok r"
    by (simp add: FTPChecker_run_flags_ok FTPChecker_init_def init_flags_ok)
  with by_FTPChecker.prems show ?case
    by (simp add: flag_def to_dict_lookup flags_ok_def)
next
  case (by_SFTPChecker env c now r)
  then have "r = snd (SFTPChecker_run env c (SFTPChecker_init c now))"
    by (simp add: SFTPChecker_check_def returned_snd)
  then have "flags_ok r"
    by (simp add: SFTPChecker_run_flags_ok SFTPChecker_init_def init_flags_ok)
  with by_SFTPChecker.prems show ?case
    by (simp add: flag_def to_dict_lookup flags_ok_def)
next
  case (by_brute_force cmb now e)
  then show ?case by (simp add: flag_def bf_error_result_def)
next
  case (by_check_servers srv now e d)
  then show ?case
    by (auto simp: flag_def cs_error_result_def split: sum.splits list.splits)
qed

lemma ftp_ok_run:
  "FTPChecker_run ftp_ok chk0 (FTPChecker_init chk0 now0) =
     (None, \<lparr> host = PStr ''ftp.example.test'', port = PInt 21, username = PStr ''anonymous'',
              protocol = ''FTP'', timestamp = now0,
              connection = True, connection_time = Some 1250,
              authentication = True, auth_time = Some 830,
              path_exists = None, path_type = None, path_check_time = None,
              welcome_message = Some ''220 ready'', features = [], errors = [],
              total_time = Some 2600 \<rparr>)"
  by (simp add: FTPChecker_run_def ftp_with_def ftp_session_def ftp_features_def ftp_ok_def
      chk0_def FTPChecker_init_def init_results_def startswith_def)

lemma r_ok_returned: "FTPChecker_check ftp_ok chk0 (FTPChecker_init chk0 now0) = Inr r_ok"
  by (simp add: FTPChecker_check_def returned_def ftp_ok_run r_ok_def)

theorem auth_implies_connection_witness:
  "produced (to_dict (snd (FTPChecker_run ftp_ok chk0 (FTPChecker_init chk0 now0))))
   \<and> flag (to_dict (snd (FTPChecker_run ftp_ok chk0 (FTPChecker_init chk0 now0)))) ''authentication''
   \<and> flag (to_dict (snd (FTPChecker_run ftp_ok chk0 (FTPChecker_init chk0 now0)))) ''connection''"
proof -
  let ?d = "to_dict (snd (FTPChecker_run ftp_ok chk0 (FTPChecker_init chk0 now0)))"
  have p: "produced ?d"
    by (rule by_FTPChecker) (rule FTPChecker_check_Inr)
  have a: "flag ?d ''authentication''"
    by (simp add: ftp_ok_run flag_def to_dict_lookup)
  from p a auth_implies_connection [OF p a] show ?thesis by simp
qed

lemma ftp_with_connect_fails:
  assumes "ftp_new env \<noteq> None \<or> ftp_connect env \<noteq> None"
  shows "\<exists>e. ftp_with env c r = (Some e, r)"
  using assms
  by (auto simp: ftp_with_def ftp_session_def split: option.splits)

lemma FTPChecker_run_raised:
  assumes "ftp_with env c r = (Some e, r1)"
  shows "connection (snd (FTPChecker_run env c r)) = connection r1"
    and "authentication (snd (FTPChecker_run env c r)) = authentication r1"
    and "length (errors (snd (FTPChecker_run env c r))) = Suc (length (errors r1))"
  using assms by (simp_all add: FTPChecker_run_def ftp_except_def append_error_def)

lemma init_results_fields [simp]:
  "connection (init_results proto c now) = False"
  "authentication (init_results proto c now) = False"
  "errors (init_results proto c now) = []"
  by (simp_all add: init_results_def)

lemma ftp_connect_fails:
  assumes "ftp_new env \<noteq> None \<or> ftp_connect env \<noteq> None"
  shows "\<not> connection (snd (FTPChecker_run env c (FTPChecker_init c now)))
       \<and> \<not> authentication (snd (FTPChecker_run env c (FTPChecker_init c now)))
       \<and> length (errors (snd (FTPChecker_run env c (FTPChecker_init c now)))) = 1"
proof -
  obtain e where w: "ftp_with env c (FTPChecker_init c now) = (Some e, FTPChecker_init c now)"
    using ftp_with_connect_fails [OF assms] by blast
  show ?thesis
    using FTPChecker_run_raised [OF w] by (simp add: FTPChecker_init_def)
qed
lemma sftp_session_connect_fails:
  assumes "ssh_new env \<noteq> None \<or> ssh_set_policy env \<noteq> None \<or> ssh_connect env \<noteq> None"
  shows "\<exists>e b. sftp_session env c r = ((Some e, r), b)"
  using assms
  by (auto simp: sftp_session_def split: option.splits)

lemma SFTPChecker_run_raised:
  assumes "sftp_session env c r = ((Some e, r1), b)" and "ssh_close env = None"
  shows "connection (snd (SFTPChecker_run env c r)) = connection r1"
    and "authentication (snd (SFTPChecker_run env c r)) = authentication r1"
    and "length (errors (snd (SFTPChecker_run env c r))) = Suc (length (errors r1))"
  using assms by (simp_all add: SFTPChecker_run_def sftp_except_def append_error_def)

lemma sftp_connect_fails:
  assumes "ssh_close env = None"
    and "ssh_new env \<noteq> None \<or> ssh_set_policy env \<noteq> None \<or> ssh_connect env \<noteq> None"
  shows "\<not> connection (snd (SFTPChecker_run env c (SFTPChecker_init c now)))
       \<and> \<not> authentication (snd (SFTPChecker_run env c (SFTPChecker_init c now)))
       \<and> length (errors (snd (SFTPChecker_run env c (SFTPChecker_init c now)))) = 1"
proof -
  obtain e b where w: "sftp_session env c (SFTPChecker_init c now) = ((Some e, SFTPChecker_init c now), b)"
    using sftp_session_connect_fails [OF assms(2)] by blast
  show ?thesis
    using SFTPChecker_run_raised [OF w assms(1)] by (simp add: SFTPChecker_init_def init_results_def)
qed

lemma ftp_login_fails:
  assumes "ftp_new env = None" "ftp_connect env = None" "ftp_login env \<noteq> None"
  shows "connection (snd (FTPChecker_run env c (FTPChecker_init c now)))
       \<and> \<not> authentication (snd (FTPChecker_run env c (FTPChecker_init c now)))
       \<and> length (errors (snd (FTPChecker_run env c (FTPChecker_init c now)))) = 1"
  using assms
  by (auto simp: FTPChecker_run_def ftp_with_def ftp_session_def ftp_except_def append_error_def
      FTPChecker_init_def init_results_def Let_def split: option.splits sum.splits)

lemma ftp_swallowed:
  assumes "ftp_new env = None" "ftp_connect env = None" "ftp_login env = None" "ftp_exit env = None"
    and "self_check_path c = None"
    and "ftp_voidcmd_FEAT env = None \<or> (\<exists>e. ftp_voidcmd_FEAT env = Some e \<and> cls e = error_perm)"
  shows "connection (snd (FTPChecker_run env c (FTPChecker_init c now)))
       \<and> authentication (snd (FTPChecker_run env c (FTPChecker_init c now)))
       \<and> errors (snd (FTPChecker_run env c (FTPChecker_init c now))) = []"
  using assms
  by (auto simp: FTPChecker_run_def ftp_with_def ftp_session_def ftp_features_def
      FTPChecker_init_def init_results_def Let_def split: option.splits sum.splits)

lemma sftp_close_ok_None:
  "ssh_close env = None \<Longrightarrow> fst (SFTPChecker_run env c r) = None"
  by (auto simp: SFTPChecker_run_def sftp_except_def split: prod.splits option.splits if_splits)
lemma SFTPChecker_check_Inr:
  "ssh_close env = None \<Longrightarrow> SFTPChecker_check env c r = Inr (snd (SFTPChecker_run env c r))"
  using sftp_close_ok_None [of env c r]
  by (cases "SFTPChecker_run env c r") (simp add: SFTPChecker_check_def returned_def)
text \<open>
  The failures that \<^verbatim>\<open>check\<close> turns into a record. \<^verbatim>\<open>FTPChecker.check\<close> returns a record
  whatever the library raises, and \<^verbatim>\<open>SFTPChecker.check\<close> does whenever \<^verbatim>\<open>ssh.close()\<close>
  returns. When making the client or connecting fails, the record of a new checker has
  both flags false and one error; when the FTP login fails, \<open>connection\<close> is true,
  \<open>authentication\<close> false, and there is one error. A failure of \<^verbatim>\<open>getwelcome\<close>, of the
  \<^verbatim>\<open>sendcmd\<close> calls, or \<^verbatim>\<open>error_perm\<close> from \<^verbatim>\<open>voidcmd("FEAT")\<close> leaves no entry in
  \<open>errors\<close>.
\<close>

lemma checker_captures_failures:
  "(\<exists>r'. FTPChecker_check env c r = Inr r')
   \<and> (ssh_close senv = None \<longrightarrow> (\<exists>r'. SFTPChecker_check senv c r = Inr r'))
   \<and> (ftp_new env \<noteq> None \<or> ftp_connect env \<noteq> None \<longrightarrow>
        (\<exists>r'. FTPChecker_check env c (FTPChecker_init c now) = Inr r'
              \<and> \<not> connection r' \<and> \<not> authentication r' \<and> length (errors r') = 1))
   \<and> (ftp_new env = None \<and> ftp_connect env = None \<and> ftp_login env \<noteq> None \<longrightarrow>
        (\<exists>r'. FTPChecker_check env c (FTPChecker_init c now) = Inr r'
              \<and> connection r' \<and> \<not> authentication r' \<and> length (errors r') = 1))
   \<and> (ssh_close senv = None
        \<and> (ssh_new senv \<noteq> None \<or> ssh_set_policy senv \<noteq> None \<or> ssh_connect senv \<noteq> None) \<longrightarrow>
        (\<exists>r'. SFTPChecker_check senv c (SFTPChecker_init c now) = Inr r'
              \<and> \<not> connection r' \<and> \<not> authentication r' \<and> length (errors r') = 1))
   \<and> (ftp_new env = None \<and> ftp_connect env = None \<and> ftp_login env = None
        \<and> ftp_exit env = None \<and> self_check_path c = None
        \<and> (ftp_voidcmd_FEAT env = None
            \<or> (\<exists>e. ftp_voidcmd_FEAT env = Some e \<and> cls e = error_perm)) \<longrightarrow>
        (\<exists>r'. FTPChecker_check env c (FTPChecker_init c now) = Inr r'
              \<and> connection r' \<and> authentication r' \<and> errors r' = []))"
proof (intro conjI impI)
  show "\<exists>r'. FTPChecker_check env c r = Inr r'"
    by (simp add: FTPChecker_check_Inr)
next
  assume "ssh_close senv = None"
  then show "\<exists>r'. SFTPChecker_check senv c r = Inr r'"
    by (simp add: SFTPChecker_check_Inr)
next
  assume "ftp_new env \<noteq> None \<or> ftp_connect env \<noteq> None"
  from ftp_connect_fails [OF this, of c now]
  show "\<exists>r'. FTPChecker_check env c (FTPChecker_init c now) = Inr r'
              \<and> \<not> connection r' \<and> \<not> authentication r' \<and> length (errors r') = 1"
    by (simp add: FTPChecker_check_Inr)
next
  assume "ftp_new env = None \<and> ftp_connect env = None \<and> ftp_login env \<noteq> None"
  then have "ftp_new env = None" "ftp_connect env = None" "ftp_login env \<noteq> None"
    by simp_all
  from ftp_login_fails [OF this, of c now]
  show "\<exists>r'. FTPChecker_check env c (FTPChecker_init c now) = Inr r'
              \<and> connection r' \<and> \<not> authentication r' \<and> length (errors r') = 1"
    by (simp add: FTPChecker_check_Inr)
next
  assume a: "ssh_close senv = None
        \<and> (ssh_new senv \<noteq> None \<or> ssh_set_policy senv \<noteq> None \<or> ssh_connect senv \<noteq> None)"
  then have 1: "ssh_close senv = None"
    and 2: "ssh_new senv \<noteq> None \<or> ssh_set_policy senv \<noteq> None \<or> ssh_connect senv \<noteq> None"
    by simp_all
  from sftp_connect_fails [OF 1 2, of c now] 1
  show "\<exists>r'. SFTPChecker_check senv c (SFTPChecker_init c now) = Inr r'
              \<and> \<not> connection r' \<and> \<not> authentication r' \<and> length (errors r') = 1"
    by (simp add: SFTPChecker_check_Inr)
next
  assume a: "ftp_new env = None \<and> ftp_connect env = None \<and> ftp_login env = None
        \<and> ftp_exit env = None \<and> self_check_path c = None
        \<and> (ftp_voidcmd_FEAT env = None
            \<or> (\<exists>e. ftp_voidcmd_FEAT env = Some e \<and> cls e = error_perm))"
  then have "ftp_new env = None" "ftp_connect env = None" "ftp_login env = None"
    "ftp_exit env = None" "self_check_path c = None"
    "ftp_voidcmd_FEAT env = None \<or> (\<exists>e. ftp_voidcmd_FEAT env = Some e \<and> cls e = error_perm)"
    by simp_all
  from ftp_swallowed [OF this, of now]
  show "\<exists>r'. FTPChecker_check env c (FTPChecker_init c now) = Inr r'
              \<and> connection r' \<and> authentication r' \<and> errors r' = []"
    by (simp add: FTPChecker_check_Inr)
qed

lemma checker_captures_failures_examples:
  "(\<exists>r'. FTPChecker_check ftp_refused chk0 (FTPChecker_init chk0 now0) = Inr r'
         \<and> \<not> connection r' \<and> \<not> authentication r' \<and> length (errors r') = 1)
   \<and> (\<exists>r'. FTPChecker_check ftp_bad_login chk0 (FTPChecker_init chk0 now0) = Inr r'
         \<and> connection r' \<and> \<not> authentication r' \<and> length (errors r') = 1)
   \<and> (\<exists>r'. SFTPChecker_check sftp_bad_auth chk0 (SFTPChecker_init chk0 now0) = Inr r'
         \<and> \<not> connection r' \<and> \<not> authentication r' \<and> length (errors r') = 1)
   \<and> (\<exists>r'. FTPChecker_check ftp_no_feat chk0 (FTPChecker_init chk0 now0) = Inr r'
         \<and> connection r' \<and> authentication r' \<and> errors r' = [])"
proof (intro conjI)
  show "\<exists>r'. FTPChecker_check ftp_refused chk0 (FTPChecker_init chk0 now0) = Inr r'
         \<and> \<not> connection r' \<and> \<not> authentication r' \<and> length (errors r') = 1"
    using checker_captures_failures [of ftp_refused chk0 undefined sftp_ok now0]
    by (simp add: ftp_refused_def ftp_ok_def)
  show "\<exists>r'. FTPChecker_check ftp_bad_login chk0 (FTPChecker_init chk0 now0) = Inr r'
         \<and> connection r' \<and> \<not> authentication r' \<and> length (errors r') = 1"
    using checker_captures_failures [of ftp_bad_login chk0 undefined sftp_ok now0]
    by (simp add: ftp_bad_login_def ftp_ok_def)
  show "\<exists>r'. SFTPChecker_check sftp_bad_auth chk0 (SFTPChecker_init chk0 now0) = Inr r'
         \<and> \<not> connection r' \<and> \<not> authentication r' \<and> length (errors r') = 1"
    using checker_captures_failures [of ftp_ok chk0 undefined sftp_bad_auth now0]
    by (simp add: sftp_bad_auth_def sftp_ok_def)
  show "\<exists>r'. FTPChecker_check ftp_no_feat chk0 (FTPChecker_init chk0 now0) = Inr r'
         \<and> connection r' \<and> authentication r' \<and> errors r' = []"
    using checker_captures_failures [of ftp_no_feat chk0 undefined sftp_ok now0]
    by (simp add: ftp_no_feat_def ftp_ok_def chk0_def)
qed

text \<open>
  Failures after the login are captured as well. Another exception than \<^verbatim>\<open>error_perm\<close>
  from \<^verbatim>\<open>voidcmd("FEAT")\<close> ends the check with one error, both flags true. A path check
  that raises leaves \<open>path_exists\<close> false and one error that holds the text of the
  exception; a path that \<^verbatim>\<open>stat\<close> does not find leaves one error that names the path.
\<close>

lemma not_all_errors:
  "\<not> is_all_errors (cls e) \<Longrightarrow> cls e \<noteq> socket_timeout \<and> cls e \<noteq> socket_gaierror"
  by (cases "cls e") simp_all

lemma ftp_feat_failure_captured:
  assumes "ftp_new env = None" "ftp_connect env = None" "ftp_login env = None"
    and "ftp_exit env = None"
    and "ftp_voidcmd_FEAT env = Some e" "cls e \<noteq> error_perm"
  shows "\<exists>r'. FTPChecker_check env c (FTPChecker_init c now) = Inr r'
           \<and> connection r' \<and> authentication r'
           \<and> errors r' = [(if is_all_errors (cls e) then ''FTP error: ''
                            else ''Unexpected error: '') @ str_exn e]"
  using assms not_all_errors [of e]
  by (auto simp: FTPChecker_check_def returned_def FTPChecker_run_def ftp_with_def
      ftp_session_def ftp_features_def ftp_except_def append_error_def
      FTPChecker_init_def init_results_def Let_def split: sum.splits)

lemma ftp_features_passes:
  assumes "ftp_voidcmd_FEAT env = None
           \<or> (\<exists>e. ftp_voidcmd_FEAT env = Some e \<and> cls e = error_perm)"
  shows "\<exists>r'. ftp_features env r = (None, r') \<and> connection r' = connection r
           \<and> authentication r' = authentication r \<and> errors r' = errors r"
  using assms
  by (auto simp: ftp_features_def split: option.splits sum.splits)

lemma ftp_path_failure_captured:
  assumes "ftp_new env = None" "ftp_connect env = None" "ftp_login env = None"
    and "ftp_exit env = None"
    and f: "ftp_voidcmd_FEAT env = None
           \<or> (\<exists>e. ftp_voidcmd_FEAT env = Some e \<and> cls e = error_perm)"
    and "self_check_path c = Some p" "p \<noteq> []"
    and "ftp_cwd env p = Some e" "cls e \<noteq> error_perm"
  shows "\<exists>r'. FTPChecker_check env c (FTPChecker_init c now) = Inr r'
           \<and> connection r' \<and> authentication r' \<and> path_exists r' = Some False
           \<and> errors r' = [''Path check error: '' @ str_exn e]"
proof -
  let ?r3 = "(case ftp_getwelcome env of
                Inr w \<Rightarrow> (FTPChecker_init c now)
                   \<lparr>connection_time := Some (ftp_connect_ms env), connection := True,
                    welcome_message := Some w\<rparr>
              | Inl e \<Rightarrow> (FTPChecker_init c now)
                   \<lparr>connection_time := Some (ftp_connect_ms env), connection := True\<rparr>)
             \<lparr>auth_time := Some (ftp_auth_ms env), authentication := True\<rparr>"
  obtain r4 where r4: "ftp_features env ?r3 = (None, r4)" "connection r4 = connection ?r3"
    "authentication r4 = authentication ?r3" "errors r4 = errors ?r3"
    using ftp_features_passes [OF f, of ?r3] by blast
  have c3: "connection ?r3" "authentication ?r3" "errors ?r3 = []"
    by (simp_all add: FTPChecker_init_def split: sum.splits)
  have pc: "ftp_path_check env p r4 =
              (append_error (''Path check error: '' @ str_exn e) (r4\<lparr>path_exists := Some False\<rparr>))
                \<lparr>path_check_time := Some (ftp_path_ms env)\<rparr>"
    using assms by (simp add: ftp_path_check_def path_check_error_def)
  have "ftp_session env c (FTPChecker_init c now) = (None, ftp_path_check env p r4)"
    using assms r4(1) by (simp add: ftp_session_def Let_def split: sum.splits)
  then have "FTPChecker_run env c (FTPChecker_init c now) =
               (None, (ftp_path_check env p r4)\<lparr>total_time := Some (ftp_total_ms env)\<rparr>)"
    using assms by (simp add: FTPChecker_run_def ftp_with_def)
  then show ?thesis
    using r4 c3 by (simp add: FTPChecker_check_def returned_def pc append_error_def)
qed

lemma sftp_path_failure_captured:
  assumes "ssh_new env = None" "ssh_set_policy env = None" "ssh_connect env = None"
    and "ssh_close env = None"
    and "self_check_path c = Some p" "p \<noteq> []"
    and "ssh_open_sftp env = Some e
         \<or> (ssh_open_sftp env = None \<and> sftp_stat env = Inl e \<and> \<not> is_OSError (cls e)
             \<and> sftp_close env = None)"
  shows "\<exists>r'. SFTPChecker_check env c (SFTPChecker_init c now) = Inr r'
           \<and> connection r' \<and> authentication r' \<and> path_exists r' = Some False
           \<and> errors r' = [''Path check error: '' @ str_exn e]"
  using assms
  by (auto simp: SFTPChecker_check_def returned_def SFTPChecker_run_def sftp_session_def
      sftp_path_check_def sftp_stat_path_def path_check_error_def append_error_def
      SFTPChecker_init_def init_results_def Let_def)

lemma sftp_path_not_found_captured:
  assumes "ssh_new env = None" "ssh_set_policy env = None" "ssh_connect env = None"
    and "ssh_close env = None"
    and "self_check_path c = Some p" "p \<noteq> []"
    and "ssh_open_sftp env = None" "sftp_stat env = Inl e" "is_OSError (cls e)"
    and "sftp_close env = None"
  shows "\<exists>r'. SFTPChecker_check env c (SFTPChecker_init c now) = Inr r'
           \<and> connection r' \<and> authentication r' \<and> path_exists r' = Some False
           \<and> errors r' = [''Path '' @ quoted p @ '' not found'']"
  using assms
  by (auto simp: SFTPChecker_check_def returned_def SFTPChecker_run_def sftp_session_def
      sftp_path_check_def sftp_stat_path_def path_not_found_def append_error_def
      SFTPChecker_init_def init_results_def Let_def)

text \<open>
  What \<^verbatim>\<open>ssh.close()\<close> raises leaves \<^verbatim>\<open>SFTPChecker.check\<close>, whatever the body of the
  \<^verbatim>\<open>try\<close> did, as soon as the client was made.
\<close>

lemma ssh_close_raises:
  assumes "ssh_new env = None" "ssh_close env = Some e"
  shows "SFTPChecker_check env c r = Inl e"
  using assms
  by (auto simp: SFTPChecker_check_def returned_def SFTPChecker_run_def sftp_session_def
      sftp_except_def Let_def split: option.splits prod.splits)

text \<open>
  C2 fails on the code. The \<^verbatim>\<open>finally\<close> clause of \<^verbatim>\<open>SFTPChecker.check\<close> (lines 275-277)
  calls \<^verbatim>\<open>ssh.close()\<close> outside every \<^verbatim>\<open>try\<close>. For a server that accepts the connection and
  the login and whose connection fails to close, \<^verbatim>\<open>check\<close> raises the \<^verbatim>\<open>OSError\<close> of
  \<^verbatim>\<open>close\<close>: the failure is not captured, and no record is returned.
\<close>

theorem sftp_close_failure_escapes:
  "ssh_new sftp_close_fails = None
   \<and> ssh_connect sftp_close_fails = None
   \<and> ssh_close sftp_close_fails = Some (Exn OSError ''Socket is closed'')
   \<and> SFTPChecker_check sftp_close_fails chk0 (SFTPChecker_init chk0 now0) =
       Inl (Exn OSError ''Socket is closed'')"
  by (simp add: SFTPChecker_check_def returned_def SFTPChecker_run_def sftp_session_def
      sftp_close_fails_def sftp_ok_def SFTPChecker_init_def chk0_def)
subsection \<open>The two shapes of a record\<close>

lemma dom_to_dict:
  "dom (to_dict r) =
     (synthetic_keys \<union> (checker_only_keys - {''total_time''}))
       \<union> (case total_time r of None \<Rightarrow> {} | Some t \<Rightarrow> {''total_time''})"
  by (auto simp: to_dict_def Let_def synthetic_keys_def checker_only_keys_def
      split: option.splits if_splits)

lemma FTPChecker_run_total_time:
  "total_time (snd (FTPChecker_run env c r)) = Some (ftp_total_ms env)"
  by (simp add: FTPChecker_run_def ftp_except_def split: prod.splits option.splits)

lemma SFTPChecker_run_total_time:
  "fst (SFTPChecker_run env c r) = None \<Longrightarrow>
   total_time (snd (SFTPChecker_run env c r)) = Some (sftp_total_ms env)"
  by (auto simp: SFTPChecker_run_def sftp_except_def split: prod.splits option.splits if_splits)

lemma returned_Inr: "returned out = Inr r \<Longrightarrow> out = (None, r)"
  by (auto simp: returned_def split: prod.splits option.splits)

lemma dom_bf_error_result: "dom (bf_error_result cmb now e) = synthetic_keys"
  by (auto simp: bf_error_result_def synthetic_keys_def split: if_splits)

lemma dom_cs_error_result: "cs_error_result srv now e = Inr d \<Longrightarrow> dom d = synthetic_keys"
  by (auto simp: cs_error_result_def synthetic_keys_def getitem_def
      split: sum.splits list.splits option.splits if_splits)

lemma keys_disjoint: "synthetic_keys \<inter> checker_only_keys = {}"
  by (auto simp: synthetic_keys_def checker_only_keys_def)

lemma total_time_key: "''total_time'' \<in> checker_only_keys"
  by (simp add: checker_only_keys_def)

lemma cs_error_result_built:
  assumes "{''host'', ''port'', ''username'', ''protocol''} \<subseteq> dom srv"
  shows "\<exists>d. cs_error_result srv now e = Inr d \<and> dom d = synthetic_keys"
proof -
  from assms obtain h po u pr where
    "srv ''host'' = Some h" "srv ''port'' = Some po" "srv ''username'' = Some u"
    "srv ''protocol'' = Some pr"
    by auto
  then have "\<exists>d. cs_error_result srv now e = Inr d"
    by (simp add: cs_error_result_def getitem_def)
  then show ?thesis
    using dom_cs_error_result by blast
qed

lemma cs_error_result_raises:
  assumes "\<not> {''host'', ''port'', ''username'', ''protocol''} \<subseteq> dom srv"
  shows "\<exists>k. cs_error_result srv now e = Inl (KeyError_of k)"
  using assms
  by (auto simp: cs_error_result_def getitem_def split: option.splits)

lemma bf_step_raised:
  "fst (bf_step w n i cmb (Inl e) (rs, out)) = rs @ [bf_error_result cmb (error_now w i) e]"
  by (simp add: bf_step_def bf_try_def)

lemma cs_step_raised:
  assumes "cs_error_result srv (error_now w i) e = Inr d"
  shows "fst (snd (cs_step w i srv (Inl e) (rs, out))) = rs @ [d]"
  using assms
  by (simp add: cs_step_def cs_try_def cs_except_def Let_def split: sum.splits)

text \<open>
  C10. The record that a scheduler builds for a check that raised has exactly the keys
  \<open>host\<close>, \<open>port\<close>, \<open>username\<close>, \<open>protocol\<close>, \<open>timestamp\<close>, \<open>connection\<close>,
  \<open>authentication\<close> and \<open>errors\<close>, and none of \<open>connection_time\<close>, \<open>auth_time\<close>,
  \<open>path_exists\<close>, \<open>path_type\<close>, \<open>path_check_time\<close>, \<open>welcome_message\<close>, \<open>features\<close>
  and \<open>total_time\<close>. \<^verbatim>\<open>brute_force\<close> always builds it and appends it; \<^verbatim>\<open>check_servers\<close>
  builds it and appends it when the server holds the four keys it copies, and whatever
  it builds has this shape. A record that a checker returns has all sixteen keys, and
  \<^verbatim>\<open>FTPChecker.check\<close> always returns one.
\<close>

theorem synthetic_record_shape:
  "dom (bf_error_result cmb now e) = synthetic_keys
   \<and> dom (bf_error_result cmb now e) \<inter> checker_only_keys = {}
   \<and> fst (bf_step w n i cmb (Inl e) (rs, out)) = rs @ [bf_error_result cmb (error_now w i) e]
   \<and> ({''host'', ''port'', ''username'', ''protocol''} \<subseteq> dom srv \<longrightarrow>
        (\<exists>d. cs_error_result srv (error_now w i) e = Inr d
              \<and> dom d = synthetic_keys \<and> dom d \<inter> checker_only_keys = {}
              \<and> fst (snd (cs_step w i srv (Inl e) (rs', out'))) = rs' @ [d]))
   \<and> (cs_error_result srv now e = Inr d \<longrightarrow>
         dom d = synthetic_keys \<and> dom d \<inter> checker_only_keys = {})
   \<and> (\<exists>r. FTPChecker_check env c (FTPChecker_init c now') = Inr r
            \<and> dom (to_dict r) = synthetic_keys \<union> checker_only_keys
            \<and> dom (to_dict r) \<noteq> dom (bf_error_result cmb now e))
   \<and> (SFTPChecker_check senv c (SFTPChecker_init c now') = Inr r' \<longrightarrow>
         dom (to_dict r') = synthetic_keys \<union> checker_only_keys
         \<and> dom (to_dict r') \<noteq> dom (bf_error_result cmb now e))
   \<and> (ssh_close senv = None \<longrightarrow>
         (\<exists>r'. SFTPChecker_check senv c (SFTPChecker_init c now') = Inr r'))"
proof (intro conjI impI)
  show "dom (bf_error_result cmb now e) = synthetic_keys"
    by (rule dom_bf_error_result)
  show "dom (bf_error_result cmb now e) \<inter> checker_only_keys = {}"
    by (simp add: dom_bf_error_result keys_disjoint)
  show "fst (bf_step w n i cmb (Inl e) (rs, out)) = rs @ [bf_error_result cmb (error_now w i) e]"
    by (rule bf_step_raised)
next
  assume "{''host'', ''port'', ''username'', ''protocol''} \<subseteq> dom srv"
  from cs_error_result_built [OF this, of "error_now w i" e]
  obtain d where d: "cs_error_result srv (error_now w i) e = Inr d" "dom d = synthetic_keys"
    by (elim exE conjE)
  then show "\<exists>d. cs_error_result srv (error_now w i) e = Inr d
              \<and> dom d = synthetic_keys \<and> dom d \<inter> checker_only_keys = {}
              \<and> fst (snd (cs_step w i srv (Inl e) (rs', out'))) = rs' @ [d]"
    using cs_step_raised [OF d(1), of rs' out'] keys_disjoint by (intro exI [of _ d]) simp
next
  assume "cs_error_result srv now e = Inr d"
  then show "dom d = synthetic_keys" "dom d \<inter> checker_only_keys = {}"
    by (simp_all add: dom_cs_error_result keys_disjoint)
next
  let ?r = "snd (FTPChecker_run env c (FTPChecker_init c now'))"
  have t: "total_time ?r = Some (ftp_total_ms env)"
    by (simp add: FTPChecker_run_total_time)
  have d: "dom (to_dict ?r) = synthetic_keys \<union> checker_only_keys"
    using total_time_key by (auto simp: dom_to_dict t)
  have "dom (to_dict ?r) \<noteq> dom (bf_error_result cmb now e)"
    using total_time_key keys_disjoint by (auto simp: d dom_bf_error_result)
  with d show "\<exists>r. FTPChecker_check env c (FTPChecker_init c now') = Inr r
            \<and> dom (to_dict r) = synthetic_keys \<union> checker_only_keys
            \<and> dom (to_dict r) \<noteq> dom (bf_error_result cmb now e)"
    by (simp add: FTPChecker_check_Inr)
next
  assume "SFTPChecker_check senv c (SFTPChecker_init c now') = Inr r'"
  then have "SFTPChecker_run senv c (SFTPChecker_init c now') = (None, r')"
    by (simp add: SFTPChecker_check_def returned_Inr)
  then have t: "total_time r' = Some (sftp_total_ms senv)"
    using SFTPChecker_run_total_time [of senv c "SFTPChecker_init c now'"] by simp
  show d: "dom (to_dict r') = synthetic_keys \<union> checker_only_keys"
    using total_time_key by (auto simp: dom_to_dict t)
  show "dom (to_dict r') \<noteq> dom (bf_error_result cmb now e)"
    using total_time_key keys_disjoint by (auto simp: d dom_bf_error_result)
next
  assume "ssh_close senv = None"
  then show "\<exists>r'. SFTPChecker_check senv c (SFTPChecker_init c now') = Inr r'"
    by (simp add: SFTPChecker_check_Inr)
qed

lemma sftp_ok_check:
  "SFTPChecker_check sftp_ok chk0 (SFTPChecker_init chk0 now0) =
     Inr (snd (SFTPChecker_run sftp_ok chk0 (SFTPChecker_init chk0 now0)))"
  by (rule SFTPChecker_check_Inr) (simp add: sftp_ok_def)

lemma srv_ftp_error_result:
  "cs_error_result srv_ftp now0 exn0 =
     Inr [''host'' \<mapsto> PStr ''ftp.example.test'', ''port'' \<mapsto> PInt 21,
          ''username'' \<mapsto> PStr ''anonymous'', ''protocol'' \<mapsto> PStr ''FTP'',
          ''timestamp'' \<mapsto> PStr now0, ''connection'' \<mapsto> PBool False,
          ''authentication'' \<mapsto> PBool False, ''errors'' \<mapsto> PList [''Check failed: boom'']]"
  by (simp add: cs_error_result_def srv_ftp_def getitem_def exn0_def)

lemma srv_ftp_keys: "{''host'', ''port'', ''username'', ''protocol''} \<subseteq> dom srv_ftp"
  by (simp add: srv_ftp_def)

theorem synthetic_record_shape_witness:
  "{''host'', ''port'', ''username'', ''protocol''} \<subseteq> dom srv_ftp
   \<and> (\<exists>d. cs_error_result srv_ftp now0 exn0 = Inr d
           \<and> dom d = synthetic_keys \<and> dom d \<inter> checker_only_keys = {}
           \<and> fst (snd (cs_step world0 0 srv_ftp (Inl exn0) ([], []))) = [d])
   \<and> dom (bf_error_result cmb0 now0 exn0) = synthetic_keys
   \<and> ssh_close sftp_ok = None
   \<and> (\<exists>r'. SFTPChecker_check sftp_ok chk0 (SFTPChecker_init chk0 now0) = Inr r'
            \<and> dom (to_dict r') = synthetic_keys \<union> checker_only_keys)
   \<and> (\<exists>r. FTPChecker_check ftp_ok chk0 (FTPChecker_init chk0 now0) = Inr r
           \<and> dom (to_dict r) = synthetic_keys \<union> checker_only_keys)"
proof -
  note t = synthetic_record_shape [where srv = srv_ftp and now = now0 and e = exn0
      and w = world0 and i = 0 and rs' = "[]" and out' = "[]" and cmb = cmb0
      and env = ftp_ok and c = chk0 and now' = now0 and senv = sftp_ok
      and n = 1 and rs = "[]" and out = "[]" and d = Map.empty
      and r' = "snd (SFTPChecker_run sftp_ok chk0 (SFTPChecker_init chk0 now0))"]
  have n: "error_now world0 0 = now0"
    by (simp add: world0_def)
  have c: "ssh_close sftp_ok = None"
    by (simp add: sftp_ok_def)
  have k: "{''host'', ''port'', ''username'', ''protocol''} \<subseteq> dom srv_ftp"
    by (rule srv_ftp_keys)
  from t have 1: "dom (bf_error_result cmb0 now0 exn0) = synthetic_keys"
    by (elim conjE)
  from t k have 2: "\<exists>d. cs_error_result srv_ftp now0 exn0 = Inr d
           \<and> dom d = synthetic_keys \<and> dom d \<inter> checker_only_keys = {}
           \<and> fst (snd (cs_step world0 0 srv_ftp (Inl exn0) ([], []))) = [d]"
    unfolding n by (elim conjE) (simp del: insert_subset)
  from t sftp_ok_check have 3: "\<exists>r'. SFTPChecker_check sftp_ok chk0 (SFTPChecker_init chk0 now0) = Inr r'
            \<and> dom (to_dict r') = synthetic_keys \<union> checker_only_keys"
    by (elim conjE) simp
  from t have 4: "\<exists>r. FTPChecker_check ftp_ok chk0 (FTPChecker_init chk0 now0) = Inr r
           \<and> dom (to_dict r) = synthetic_keys \<union> checker_only_keys"
    by (elim conjE exE) (intro exI conjI)
  from k 1 2 3 4 c show ?thesis
    by (intro conjI)
qed

subsection \<open>The brute forcer\<close>

lemma as_completed_length [simp]: "length (as_completed cs xs) = length xs"
  by (induction cs xs rule: as_completed.induct) (simp_all add: insert_at_def)

lemma mset_insert_at: "mset (insert_at k x ys) = add_mset x (mset ys)"
proof -
  have e: "mset (take k ys) + mset (drop k ys) = mset ys"
    by (metis append_take_drop_id mset_append)
  show ?thesis by (simp add: insert_at_def e)
qed

lemma as_completed_mset [simp]: "mset (as_completed cs xs) = mset xs"
proof (induction cs xs rule: as_completed.induct)
  case (3 c cs x xs)
  then show ?case by (simp add: mset_insert_at)
qed simp_all

lemma combinations_length:
  "length (combinations self us ps ports) = length us * length ps * length ports"
  by (induction ports) (simp_all add: combinations_def length_concat comp_def sum_list_triv)

lemma connection_and_authentication_to_dict:
  "connection_and_authentication (to_dict r) = Inr (connection r \<and> authentication r)"
  by (simp add: connection_and_authentication_def getitem_def to_dict_lookup)

lemma bf_step_results:
  assumes "n \<noteq> 0"
  shows "fst (bf_step w n i cmb fut (rs, out)) = rs @ [bf_record w (i, cmb, fut)]"
  using assms
  by (cases fut)
     (simp_all add: bf_step_def bf_try_def bf_record_def Let_def
        connection_and_authentication_to_dict split: bool.splits)

lemma bf_collect_results:
  assumes "futs \<noteq> [] \<longrightarrow> n \<noteq> 0"
  shows "fst (bf_collect w n i futs st) = fst st @ map (bf_record w) (enumerate i futs)"
  using assms
proof (induction futs arbitrary: i st)
  case Nil
  then show ?case by simp
next
  case (Cons f futs)
  obtain cmb fut where f: "f = (cmb, fut)" by (cases f)
  obtain rs out where st: "st = (rs, out)" by (cases st)
  from Cons.prems have n: "n \<noteq> 0" by simp
  show ?case
    using Cons.IH [of "Suc i" "bf_step w n i cmb fut (rs, out)"] n
      bf_step_results [OF n, of w i cmb fut rs out]
    by (simp add: f st)
qed

lemma bf_futures_length [simp]: "length (bf_futures w self combos) = length combos"
  by (simp add: bf_futures_def)

lemma brute_force_results:
  assumes "0 < bf_max_workers self"
  shows "fst (brute_force w self us ps ports) = None"
    and "bf_results (fst (snd (brute_force w self us ps ports))) =
           bf_results self @
           map (bf_record w)
             (enumerate 0 (as_completed (order w) (bf_futures w self (bf_generated self us ps ports))))"
proof -
  let ?combos = "bf_generated self us ps ports"
  let ?n = "length us * length ps * length (default_ports (bf_protocol self) ports)"
  let ?done = "as_completed (order w) (bf_futures w self ?combos)"
  have len: "length ?combos = ?n"
    by (simp add: bf_generated_def combinations_length)
  have "?done \<noteq> [] \<longrightarrow> ?n \<noteq> 0"
    using len by (metis as_completed_length bf_futures_length length_0_conv)
  from bf_collect_results [OF this]
  have c: "fst (bf_collect w ?n 0 ?done st) = fst st @ map (bf_record w) (enumerate 0 ?done)" for st
    by simp
  show "fst (brute_force w self us ps ports) = None"
    using assms by (simp add: brute_force_def Let_def case_prod_beta)
  show "bf_results (fst (snd (brute_force w self us ps ports))) =
           bf_results self @ map (bf_record w) (enumerate 0 ?done)"
    using assms c [of "(bf_results self, Starting ?n # map Submitted ?combos)"]
    by (simp add: brute_force_def Let_def bf_generated_def case_prod_beta)
qed
lemma concat_map_product:
  "concat (map (\<lambda>x. map (f x) ys) xs) = map (\<lambda>(x, y). f x y) (List.product xs ys)"
  by (induction xs) simp_all

lemma combinations_product:
  "combinations self us ps ports =
     map (\<lambda>(p, u, pw). combo_of self p u pw) (List.product ports (List.product us ps))"
proof -
  have inner: "concat (map (\<lambda>u. map (\<lambda>pw. combo_of self p u pw) ps) us) =
                 map (\<lambda>(u, pw). combo_of self p u pw) (List.product us ps)" for p
    by (rule concat_map_product)
  have "combinations self us ps ports =
          concat (map (\<lambda>p. map (\<lambda>(u, pw). combo_of self p u pw) (List.product us ps)) ports)"
    by (simp add: combinations_def combo_of_def [symmetric] inner)
  also have "\<dots> = map (\<lambda>(p, y). (\<lambda>(u, pw). combo_of self p u pw) y)
                     (List.product ports (List.product us ps))"
    by (rule concat_map_product)
  finally show ?thesis by (simp add: case_prod_beta)
qed

lemma combo_of_inj: "inj (\<lambda>(p, u, pw). combo_of self p u pw)"
  by (auto simp: inj_on_def combo_of_def)

lemma combinations_distinct:
  assumes "distinct us" "distinct ps" "distinct ports"
  shows "distinct (combinations self us ps ports)"
proof -
  have "distinct (List.product ports (List.product us ps))"
    using assms by (simp add: distinct_product)
  then show ?thesis
    unfolding combinations_product
    by (simp add: distinct_map inj_on_subset [OF combo_of_inj subset_UNIV])
qed

lemma nth_concat_uniform:
  assumes "\<And>x. x \<in> set xs \<Longrightarrow> length (f x) = n" "i < length xs" "j < n"
  shows "concat (map f xs) ! (i * n + j) = f (xs ! i) ! j"
  using assms
proof (induction xs arbitrary: i)
  case Nil
  then show ?case by simp
next
  case (Cons x xs)
  have lx: "length (f x) = n" using Cons.prems(1) by simp
  show ?case
  proof (cases i)
    case 0
    then show ?thesis using Cons.prems(3) lx by (simp add: nth_append)
  next
    case (Suc i')
    then have "i' < length xs" using Cons.prems(2) by simp
    then have "concat (map f xs) ! (i' * n + j) = f (xs ! i') ! j"
      using Cons.IH [of i'] Cons.prems(1,3) by simp
    then show ?thesis using Suc lx by (simp add: nth_append)
  qed
qed

lemma combinations_nth:
  assumes "i < length ports" "j < length us" "k < length ps"
  shows "combinations self us ps ports ! ((i * length us + j) * length ps + k) =
           combo_of self (ports ! i) (us ! j) (ps ! k)"
proof -
  let ?g = "\<lambda>p u. map (\<lambda>pw. combo_of self p u pw) ps"
  let ?f = "\<lambda>p. concat (map (?g p) us)"
  have lenf: "length (?f p) = length us * length ps" for p
    by (induction us) simp_all
  have c: "combinations self us ps ports = concat (map ?f ports)"
    by (simp add: combinations_def combo_of_def [symmetric])
  have jk: "j * length ps + k < length us * length ps"
  proof -
    have "j * length ps + k < j * length ps + length ps" using assms(3) by simp
    also have "\<dots> = Suc j * length ps" by simp
    also have "\<dots> \<le> length us * length ps"
      using assms(2) by (intro mult_le_mono1) simp
    finally show ?thesis .
  qed
  have idx: "(i * length us + j) * length ps + k = i * (length us * length ps) + (j * length ps + k)"
    by (simp add: algebra_simps)
  have "concat (map ?f ports) ! (i * (length us * length ps) + (j * length ps + k)) =
          ?f (ports ! i) ! (j * length ps + k)"
    by (rule nth_concat_uniform) (use lenf assms(1) jk in auto)
  also have "\<dots> = ?g (ports ! i) (us ! j) ! k"
    by (rule nth_concat_uniform) (use assms in auto)
  also have "\<dots> = combo_of self (ports ! i) (us ! j) (ps ! k)"
    using assms(3) by simp
  finally show ?thesis by (simp add: c idx)
qed

lemma bf_step_events: "\<exists>more. snd (bf_step w n i cmb fut (rs, out)) = out @ more"
  by (cases fut)
     (auto simp: bf_step_def bf_try_def Let_def split: sum.splits bool.splits)

lemma bf_collect_events: "\<exists>more. snd (bf_collect w n i futs st) = snd st @ more"
proof (induction futs arbitrary: i st)
  case Nil
  then show ?case by simp
next
  case (Cons f futs)
  obtain cmb fut where f: "f = (cmb, fut)" by (cases f)
  obtain rs out where st: "st = (rs, out)" by (cases st)
  obtain m1 where m1: "snd (bf_step w n i cmb fut (rs, out)) = out @ m1"
    using bf_step_events by blast
  obtain m2 where "snd (bf_collect w n (Suc i) futs (bf_step w n i cmb fut (rs, out))) =
                     snd (bf_step w n i cmb fut (rs, out)) @ m2"
    using Cons.IH by blast
  then show ?case by (simp add: f st m1)
qed

lemma brute_force_events:
  "\<exists>more. snd (snd (brute_force w self us ps ports)) =
            Starting (length (bf_generated self us ps ports)) # more"
proof -
  let ?n = "length us * length ps * length (default_ports (bf_protocol self) ports)"
  have len: "length (bf_generated self us ps ports) = ?n"
    by (simp add: bf_generated_def combinations_length)
  show ?thesis
  proof (cases "bf_max_workers self \<le> 0")
    case True
    then show ?thesis by (simp add: brute_force_def Let_def len)
  next
    case False
    obtain more where
      "snd (bf_collect w ?n 0
              (as_completed (order w) (bf_futures w self (bf_generated self us ps ports)))
              (bf_results self, Starting ?n # map Submitted (bf_generated self us ps ports))) =
         (Starting ?n # map Submitted (bf_generated self us ps ports)) @ more"
      using bf_collect_events [of w ?n 0 _ "(bf_results self, Starting ?n # map Submitted (bf_generated self us ps ports))"]
      by auto
    then show ?thesis using False
      by (simp add: brute_force_def Let_def combinations_length case_prod_beta bf_generated_def)
  qed
qed

lemma brute_force_submits:
  assumes "0 < bf_max_workers self"
  shows "\<exists>more. snd (snd (brute_force w self us ps ports)) =
            Starting (length (bf_generated self us ps ports))
              # map Submitted (bf_generated self us ps ports) @ more"
proof -
  let ?n = "length us * length ps * length (default_ports (bf_protocol self) ports)"
  have len: "length (bf_generated self us ps ports) = ?n"
    by (simp add: bf_generated_def combinations_length)
  obtain more where
    "snd (bf_collect w ?n 0
            (as_completed (order w) (bf_futures w self (bf_generated self us ps ports)))
            (bf_results self, Starting ?n # map Submitted (bf_generated self us ps ports))) =
       (Starting ?n # map Submitted (bf_generated self us ps ports)) @ more"
    using bf_collect_events [of w ?n 0 _ "(bf_results self, Starting ?n # map Submitted (bf_generated self us ps ports))"]
    by auto
  then show ?thesis using assms
    by (simp add: brute_force_def Let_def combinations_length case_prod_beta bf_generated_def)
qed
lemma default_ports_distinct: "distinct ports \<Longrightarrow> distinct (default_ports proto ports)"
  by (simp add: default_ports_def)

text \<open>
  C5, as amended. With lists of distinct usernames, passwords and ports,
  \<^verbatim>\<open>brute_force\<close> generates each combination of a port, a username and a password once,
  ports outermost and passwords innermost, where an empty port list stands for the one
  default port of the protocol (21 for FTP, 22 otherwise): the number of attempts is the
  product of the three lengths after that replacement. That number is printed first,
  before any check is submitted.
\<close>

theorem brute_force_combinations:
  assumes "distinct us" "distinct ps" "distinct ports"
  shows "length (bf_generated self us ps ports) =
           length (default_ports (bf_protocol self) ports) * length us * length ps
       \<and> distinct (bf_generated self us ps ports)
       \<and> (\<forall>i j k. i < length (default_ports (bf_protocol self) ports) \<and> j < length us
                    \<and> k < length ps \<longrightarrow>
             bf_generated self us ps ports ! ((i * length us + j) * length ps + k) =
               combo_of self (default_ports (bf_protocol self) ports ! i) (us ! j) (ps ! k))
       \<and> (\<exists>more. snd (snd (brute_force w self us ps ports)) =
                    Starting (length (bf_generated self us ps ports)) # more)
       \<and> (0 < bf_max_workers self \<longrightarrow>
             (\<exists>more. snd (snd (brute_force w self us ps ports)) =
                      Starting (length (bf_generated self us ps ports))
                        # map Submitted (bf_generated self us ps ports) @ more))
       \<and> (ports \<noteq> [] \<longrightarrow> default_ports (bf_protocol self) ports = ports)
       \<and> (ports = [] \<longrightarrow>
             default_ports (bf_protocol self) ports = [if bf_protocol self = 0 then 21 else 22])"
proof (intro conjI allI impI)
  show "length (bf_generated self us ps ports) =
          length (default_ports (bf_protocol self) ports) * length us * length ps"
    by (simp add: bf_generated_def combinations_length mult_ac)
  show "distinct (bf_generated self us ps ports)"
    unfolding bf_generated_def
    by (rule combinations_distinct) (use assms default_ports_distinct in auto)
  show "\<exists>more. snd (snd (brute_force w self us ps ports)) =
                 Starting (length (bf_generated self us ps ports)) # more"
    by (rule brute_force_events)
next
  fix i j k
  assume "i < length (default_ports (bf_protocol self) ports) \<and> j < length us \<and> k < length ps"
  then show "bf_generated self us ps ports ! ((i * length us + j) * length ps + k) =
               combo_of self (default_ports (bf_protocol self) ports ! i) (us ! j) (ps ! k)"
    unfolding bf_generated_def by (intro combinations_nth) simp_all
next
  assume "0 < bf_max_workers self"
  then show "\<exists>more. snd (snd (brute_force w self us ps ports)) =
                 Starting (length (bf_generated self us ps ports))
                   # map Submitted (bf_generated self us ps ports) @ more"
    by (rule brute_force_submits)
next
  assume "ports \<noteq> []"
  then show "default_ports (bf_protocol self) ports = ports"
    by (simp add: default_ports_def)
next
  assume "ports = []"
  then show "default_ports (bf_protocol self) ports = [if bf_protocol self = 0 then 21 else 22]"
    by (simp add: default_ports_def)
qed

theorem brute_force_combinations_witness:
  "distinct [''admin'', ''root''] \<and> distinct [''1234''] \<and> distinct [21 :: int]
   \<and> length (bf_generated bf0 [''admin'', ''root''] [''1234''] [21]) = 2
   \<and> distinct (bf_generated bf0 [''admin'', ''root''] [''1234''] [21])
   \<and> bf_generated bf0 [''admin'', ''root''] [''1234''] [21] ! 1 = combo_of bf0 21 ''root'' ''1234''
   \<and> (\<exists>more. snd (snd (brute_force world0 bf0 [''admin'', ''root''] [''1234''] [21])) =
               Starting 2 # map Submitted (bf_generated bf0 [''admin'', ''root''] [''1234''] [21]) @ more)"
proof -
  have d: "distinct [''admin'', ''root'']" "distinct [''1234'']" "distinct [21 :: int]"
    by simp_all
  note t = brute_force_combinations [OF d, of bf0 world0]
  have dp: "default_ports (bf_protocol bf0) [21] = [21]"
    using t by simp
  have len: "length (bf_generated bf0 [''admin'', ''root''] [''1234''] [21]) = 2"
    using t by (simp add: dp)
  have nth: "bf_generated bf0 [''admin'', ''root''] [''1234''] [21] ! 1 = combo_of bf0 21 ''root'' ''1234''"
    using t [THEN conjunct2, THEN conjunct2, THEN conjunct1, THEN spec, THEN spec, THEN spec,
        of 0 1 0]
    by (simp add: dp)
  have ev: "\<exists>more. snd (snd (brute_force world0 bf0 [''admin'', ''root''] [''1234''] [21])) =
               Starting 2 # map Submitted (bf_generated bf0 [''admin'', ''root''] [''1234''] [21]) @ more"
  proof -
    have mw: "0 < bf_max_workers bf0" by (simp add: bf0_def)
    from t have "0 < bf_max_workers bf0 \<longrightarrow>
             (\<exists>more. snd (snd (brute_force world0 bf0 [''admin'', ''root''] [''1234''] [21])) =
                      Starting (length (bf_generated bf0 [''admin'', ''root''] [''1234''] [21]))
                        # map Submitted (bf_generated bf0 [''admin'', ''root''] [''1234''] [21]) @ more)"
      by blast
    with mw show ?thesis by (simp add: len)
  qed
  have dist: "distinct (bf_generated bf0 [''admin'', ''root''] [''1234''] [21])"
    using t by blast
  show ?thesis
    using d len nth ev dist by simp
qed

text \<open>
  C5 as stated fails on an empty port list: \<open>|ports| \<times> |usernames| \<times> |passwords|\<close> is 0,
  and \<^verbatim>\<open>brute_force\<close> announces one attempt and makes it, on port 21.
\<close>

theorem brute_force_empty_ports:
  "length ([] :: int list) * length [''admin''] * length [''1234''] = 0
   \<and> bf_generated bf0 [''admin''] [''1234''] [] =
       [\<lparr> combo_host = ''ftp.example.test'', combo_port = 21, combo_username = ''admin'',
           combo_password = ''1234'', combo_protocol = 0 \<rparr>]
   \<and> snd (snd (brute_force world0 bf0 [''admin''] [''1234''] [])) =
       [Starting 1,
        Submitted \<lparr> combo_host = ''ftp.example.test'', combo_port = 21,
                    combo_username = ''admin'', combo_password = ''1234'', combo_protocol = 0 \<rparr>,
        Found \<lparr> combo_host = ''ftp.example.test'', combo_port = 21,
                combo_username = ''admin'', combo_password = ''1234'', combo_protocol = 0 \<rparr> 1 1]"
proof -
  let ?cmb = "\<lparr> combo_host = ''ftp.example.test'', combo_port = 21, combo_username = ''admin'',
                combo_password = ''1234'', combo_protocol = 0 \<rparr>"
  let ?c = "\<lparr> self_host = PStr ''ftp.example.test'', self_username = PStr ''admin'',
              self_password = PStr ''1234'', self_port = PInt 21, self_timeout = 10,
              self_check_path = None \<rparr>"
  let ?r = "snd (FTPChecker_run ftp_ok ?c (FTPChecker_init ?c now0))"
  have dp: "default_ports (bf_protocol bf0) [] = [21]"
    by (simp add: default_ports_def bf0_def)
  have c: "combinations bf0 [''admin''] [''1234''] [21] = [?cmb]"
    by (simp add: combinations_def bf0_def)
  have g: "bf_generated bf0 [''admin''] [''1234''] [] = [?cmb]"
    by (simp add: bf_generated_def dp c)
  have w: "\<not> bf_max_workers bf0 \<le> 0" "bf_results bf0 = []"
    by (simp_all add: bf0_def)
  have s: "bf_submit world0 bf0 0 ?cmb = Inr ?r"
    by (simp add: bf_submit_def world0_def bf0_def FTPChecker_check_Inr Let_def)
  have futs: "bf_futures world0 bf0 [?cmb] = [(?cmb, Inr ?r)]"
    by (simp add: bf_futures_def s)
  have asc: "as_completed (order world0) [(?cmb, Inr ?r)] = [(?cmb, Inr ?r)]"
    by (simp add: world0_def insert_at_def)
  have f: "connection ?r \<and> authentication ?r"
    using ftp_swallowed [of ftp_ok ?c now0] by (simp add: ftp_ok_def)
  have step: "bf_step world0 (Suc 0) 0 ?cmb (Inr ?r) ([], [Starting (Suc 0), Submitted ?cmb]) =
                ([to_dict ?r], [Starting (Suc 0), Submitted ?cmb, Found ?cmb (Suc 0) (Suc 0)])"
    using f by (simp add: bf_step_def bf_try_def connection_and_authentication_to_dict)
  have "snd (snd (brute_force world0 bf0 [''admin''] [''1234''] [])) =
          [Starting 1, Submitted ?cmb, Found ?cmb 1 1]"
    by (simp add: brute_force_def Let_def dp c w futs asc step)
  then show ?thesis
    by (simp add: g)
qed
subsection \<open>Combo lists\<close>

lemma main_combos_lengths:
  "length (fst (main_combos ls)) = length (filter (\<lambda>l. CHR '':'' \<in> set l) ls)
   \<and> length (snd (main_combos ls)) = length (filter (\<lambda>l. CHR '':'' \<in> set l) ls)"
  by (induction ls) (auto split: prod.splits)

lemma combo_mode_attempts:
  "length (bf_generated self (fst (main_combos ls)) (snd (main_combos ls)) ports) =
     length (filter (\<lambda>l. CHR '':'' \<in> set l) ls) * length (filter (\<lambda>l. CHR '':'' \<in> set l) ls)
       * length (default_ports (bf_protocol self) ports)"
  by (simp add: bf_generated_def combinations_length main_combos_lengths)

text \<open>
  C4 fails on the code. A combo file with the two lines \<open>alice:wonder\<close> and
  \<open>bob:builder\<close> makes \<^verbatim>\<open>main\<close> pass the usernames and the passwords as two separate
  lists, and \<^verbatim>\<open>brute_force\<close> then tries all four pairs on port 21, among them \<open>alice\<close>
  with the password of \<open>bob\<close>: four attempts, not \<open>|ports| \<times> |combos| = 2\<close>.
\<close>

theorem combo_list_cross_product:
  "main_configure (args0\<lparr>args_combo_list := Some ''combos.txt''\<rparr>) fs0 =
     Run (Brute_force bf0 [''alice'', ''bob''] [''wonder'', ''builder''] [21])
   \<and> map (\<lambda>c. (combo_port c, combo_username c, combo_password c))
         (bf_generated bf0 [''alice'', ''bob''] [''wonder'', ''builder''] [21]) =
       [(21, ''alice'', ''wonder''), (21, ''alice'', ''builder''),
        (21, ''bob'', ''wonder''), (21, ''bob'', ''builder'')]"
proof -
  have rw: "read_wordlist fs0 ''combos.txt'' = [''alice:wonder'', ''bob:builder'']"
    by (simp add: read_wordlist_def fs0_def strip_def isspace_def startswith_def)
  have mc: "main_combos [''alice:wonder'', ''bob:builder''] =
              ([''alice'', ''bob''], [''wonder'', ''builder''])"
    by (simp add: split_colon_def strip_def isspace_def)
  let ?a = "args0\<lparr>args_combo_list := Some ''combos.txt''\<rparr>"
  have "main_credentials ?a fs0 = main_combos (read_wordlist fs0 ''combos.txt'')"
    by (simp add: main_credentials_def text_of_def args0_def)
  then have cr: "main_credentials ?a fs0 = ([''alice'', ''bob''], [''wonder'', ''builder''])"
    by (simp only: rw mc)
  have po: "main_ports ?a fs0 = Inr [21]"
    by (simp add: main_ports_def port_of_def text_of_def args0_def)
  have fields: "args_brute_force ?a" "text_of (args_host ?a) = ''ftp.example.test''"
    "args_protocol ?a = 0" "args_timeout ?a = 10" "args_max_workers ?a = 5"
    "args_check_path ?a = None"
    by (simp_all add: args0_def text_of_def)
  have "main_configure ?a fs0 =
          Run (Brute_force bf0 [''alice'', ''bob''] [''wonder'', ''builder''] [21])"
    unfolding main_configure_def cr po
    by (simp only: fields bf0_def) simp
  moreover have "map (\<lambda>c. (combo_port c, combo_username c, combo_password c))
         (bf_generated bf0 [''alice'', ''bob''] [''wonder'', ''builder''] [21]) =
       [(21, ''alice'', ''wonder''), (21, ''alice'', ''builder''),
        (21, ''bob'', ''wonder''), (21, ''bob'', ''builder'')]"
    by (simp add: bf_generated_def combinations_def default_ports_def)
  ultimately show ?thesis by simp
qed
subsection \<open>The bulk checker\<close>

lemma getitems_present:
  "set ks \<subseteq> dom d \<Longrightarrow> getitems d ks = Inr (map (\<lambda>k. the (d k)) ks)"
  by (induction ks) (auto simp: getitem_def)

lemma well_keyed_getitems:
  assumes "well_keyed srv" "set ks \<subseteq> read_keys"
  shows "getitems srv ks = Inr (map (\<lambda>k. the (srv k)) ks)"
  using assms by (intro getitems_present) (auto simp: well_keyed_def)

lemma well_keyed_getitem:
  assumes "well_keyed srv" "k \<in> read_keys"
  shows "getitem srv k = Inr (the (srv k))"
  using assms by (auto simp: well_keyed_def getitem_def)

lemma cs_submit_well_keyed:
  assumes "well_keyed srv"
  shows "\<exists>fut. cs_submit w cp t i srv = Inr (if supported srv then [(srv, fut)] else [])"
proof -
  have p: "getitem srv ''protocol'' = Inr (the (srv ''protocol''))"
    using assms by (rule well_keyed_getitem) (simp add: read_keys_def)
  have s: "srv ''protocol'' = Some (the (srv ''protocol''))"
    using assms by (auto simp: well_keyed_def read_keys_def)
  have g4: "getitems srv [''host'', ''username'', ''password'', ''port''] =
              Inr (map (\<lambda>k. the (srv k)) [''host'', ''username'', ''password'', ''port''])"
    using assms by (rule well_keyed_getitems) (simp add: read_keys_def)
  have g3: "getitems srv [''host'', ''username'', ''password''] =
              Inr (map (\<lambda>k. the (srv k)) [''host'', ''username'', ''password''])"
    using assms by (rule well_keyed_getitems) (simp add: read_keys_def)
  have sup: "supported srv = (py_eq_int (the (srv ''protocol'')) 0 \<or> py_eq_int (the (srv ''protocol'')) 1)"
    by (cases "srv ''protocol''") (use s in \<open>simp_all add: supported_def\<close>)
  show ?thesis
    unfolding cs_submit_def p g4 g3
    by (simp add: sup Let_def)
qed

lemma cs_submit_all_well_keyed:
  assumes "list_all well_keyed servers"
  shows "\<exists>futs. cs_submit_all w cp t i servers = Inr futs \<and> map fst futs = filter supported servers"
  using assms
proof (induction servers arbitrary: i)
  case Nil
  then show ?case by simp
next
  case (Cons srv rest)
  then have wk: "well_keyed srv" and r: "list_all well_keyed rest" by simp_all
  obtain fut where f: "cs_submit w cp t i srv = Inr (if supported srv then [(srv, fut)] else [])"
    using cs_submit_well_keyed [OF wk] by blast
  obtain futs where fs: "cs_submit_all w cp t (Suc i) rest = Inr futs"
      "map fst futs = filter supported rest"
    using Cons.IH [OF r] by blast
  show ?case by (simp add: f fs)
qed

lemma to_dict_getitems_times:
  "getitems (to_dict r) [''connection_time'', ''auth_time''] =
     Inr [opt_float (connection_time r), opt_float (auth_time r)]"
  by (simp add: getitem_def to_dict_lookup)

lemma cs_try_well_keyed:
  assumes "well_keyed srv"
  shows "\<exists>out'. cs_try srv (Inr r) (rs, out) = (None, (rs @ [to_dict r], out'))"
proof -
  have g5: "getitems srv [''username'', ''password'', ''host'', ''port'', ''type''] =
              Inr (map (\<lambda>k. the (srv k)) [''username'', ''password'', ''host'', ''port'', ''type''])"
    using assms by (rule well_keyed_getitems) (simp add: read_keys_def)
  have g4: "getitems srv [''username'', ''host'', ''port'', ''type''] =
              Inr (map (\<lambda>k. the (srv k)) [''username'', ''host'', ''port'', ''type''])"
    using assms by (rule well_keyed_getitems) (simp add: read_keys_def)
  have e: "getitem (to_dict r) ''errors'' = Inr (PList (errors r))"
    by (simp add: getitem_def to_dict_lookup)
  show ?thesis
    unfolding cs_try_def
    by (simp add: Let_def connection_and_authentication_to_dict g5 g4 e to_dict_getitems_times
        del: getitems.simps split: bool.splits)
qed

lemma cs_error_result_well_keyed:
  assumes "well_keyed srv"
  shows "\<exists>d. cs_error_result srv now e = Inr d"
proof -
  have g: "getitems srv [''host'', ''port'', ''username'', ''protocol''] =
             Inr (map (\<lambda>k. the (srv k)) [''host'', ''port'', ''username'', ''protocol''])"
    using assms by (rule well_keyed_getitems) (simp add: read_keys_def)
  show ?thesis unfolding cs_error_result_def g by simp
qed

lemma cs_except_well_keyed:
  assumes "well_keyed srv"
  shows "\<exists>d out'. cs_except srv now e (rs, out) = (None, (rs @ [d], out'))
                  \<and> cs_error_result srv now e = Inr d"
proof -
  obtain d where d: "cs_error_result srv now e = Inr d"
    using cs_error_result_well_keyed [OF assms] by blast
  have g4: "getitems srv [''username'', ''host'', ''port'', ''type''] =
              Inr (map (\<lambda>k. the (srv k)) [''username'', ''host'', ''port'', ''type''])"
    using assms by (rule well_keyed_getitems) (simp add: read_keys_def)
  show ?thesis
    unfolding cs_except_def by (simp add: d g4 Let_def del: getitems.simps)
qed

lemma cs_step_well_keyed:
  assumes "well_keyed srv"
  shows "\<exists>d out'. cs_step w i srv fut (rs, out) = (None, (rs @ [d], out'))
                  \<and> cs_record w (i, srv, fut) = Inr d"
proof (cases fut)
  case (Inl e)
  obtain d out' where "cs_except srv (error_now w i) e (rs, out) = (None, (rs @ [d], out'))"
    "cs_error_result srv (error_now w i) e = Inr d"
    using cs_except_well_keyed [OF assms] by blast
  then show ?thesis using Inl by (simp add: cs_step_def cs_try_def cs_record_def)
next
  case (Inr r)
  obtain out' where "cs_try srv (Inr r) (rs, out) = (None, (rs @ [to_dict r], out'))"
    using cs_try_well_keyed [OF assms] by blast
  then show ?thesis using Inr by (simp add: cs_step_def cs_record_def)
qed

lemma cs_collect_well_keyed:
  assumes "list_all (\<lambda>f. well_keyed (fst f)) futs"
  shows "\<exists>recs out'. cs_collect w i futs (rs, out) = (None, (rs @ recs, out'))
                     \<and> map Inr recs = map (cs_record w) (enumerate i futs)"
  using assms
proof (induction futs arbitrary: i rs out)
  case Nil
  then show ?case by simp
next
  case (Cons f futs)
  obtain srv fut where f: "f = (srv, fut)" by (cases f)
  from Cons.prems f have wk: "well_keyed srv" and r: "list_all (\<lambda>f. well_keyed (fst f)) futs"
    by simp_all
  obtain d out1 where s: "cs_step w i srv fut (rs, out) = (None, (rs @ [d], out1))"
      "cs_record w (i, srv, fut) = Inr d"
    using cs_step_well_keyed [OF wk] by blast
  obtain recs out2 where c: "cs_collect w (Suc i) futs (rs @ [d], out1) = (None, ((rs @ [d]) @ recs, out2))"
      "map Inr recs = map (cs_record w) (enumerate (Suc i) futs)"
    using Cons.IH [OF r] by blast
  have "cs_collect w i (f # futs) (rs, out) = (None, (rs @ (d # recs), out2))"
    by (simp add: f s c)
  moreover have "map Inr (d # recs) = map (cs_record w) (enumerate i (f # futs))"
    by (simp add: c f s)
  ultimately show ?case by blast
qed

lemma as_completed_set [simp]: "set (as_completed cs xs) = set xs"
  by (rule mset_eq_setD) simp

lemma check_servers_well_keyed:
  assumes "0 < max_workers" "list_all well_keyed servers"
  shows "\<exists>futs recs out.
           cs_submit_all w cp t 0 servers = Inr futs
           \<and> map fst futs = filter supported servers
           \<and> check_servers w rs servers max_workers cp t = (None, rs @ recs, out)
           \<and> map Inr recs = map (cs_record w) (enumerate 0 (as_completed (order w) futs))
           \<and> length recs = length (filter supported servers)"
proof -
  obtain futs where futs: "cs_submit_all w cp t 0 servers = Inr futs"
      "map fst futs = filter supported servers"
    using cs_submit_all_well_keyed [OF assms(2)] by blast
  have "set (map fst futs) \<subseteq> set servers"
    by (simp add: futs)
  then have "list_all (\<lambda>f. well_keyed (fst f)) futs"
    using assms(2) by (auto simp: list_all_iff)
  then have "list_all (\<lambda>f. well_keyed (fst f)) (as_completed (order w) futs)"
    by (simp add: list_all_iff)
  from cs_collect_well_keyed [OF this, of w 0 rs "[]"]
  obtain recs out where c: "cs_collect w 0 (as_completed (order w) futs) (rs, []) = (None, (rs @ recs, out))"
      "map Inr recs = map (cs_record w) (enumerate 0 (as_completed (order w) futs))"
    by blast
  have "length (map Inr recs :: (exn + result) list) =
          length (map (cs_record w) (enumerate 0 (as_completed (order w) futs)))"
    by (simp only: c(2))
  then have "length recs = length futs"
    by simp
  then have "length recs = length (filter supported servers)"
    using futs(2) by (metis length_map)
  moreover have "check_servers w rs servers max_workers cp t = (None, rs @ recs, out)"
    using assms(1) by (simp add: check_servers_def futs c)
  ultimately show ?thesis using futs c(2) by blast
qed

text \<open>The records that the schedulers append are of the kind \<open>produced\<close>.\<close>

lemma in_enumerate_as_completed:
  assumes "(i, x) \<in> set (enumerate n (as_completed cs xs))"
  shows "x \<in> set xs"
proof -
  from assms have "i - n < length (as_completed cs xs)" "x = as_completed cs xs ! (i - n)"
    by (auto simp: in_set_enumerate_eq)
  then have "x \<in> set (as_completed cs xs)"
    using nth_mem by blast
  then show ?thesis by simp
qed

lemma bf_submit_produced: "bf_submit w self j cmb = Inr r \<Longrightarrow> produced (to_dict r)"
  by (auto simp: bf_submit_def Let_def split: if_splits intro: produced.intros)

lemma bf_record_produced: "produced (bf_record w (i, cmb, bf_submit w self j cmb))"
  by (cases "bf_submit w self j cmb")
     (auto simp: bf_record_def intro: produced.intros bf_submit_produced)

lemma brute_force_records_produced:
  assumes "0 < bf_max_workers self" "list_all produced (bf_results self)"
  shows "list_all produced (bf_results (fst (snd (brute_force w self us ps ports))))"
proof -
  let ?futs = "bf_futures w self (bf_generated self us ps ports)"
  have h: "produced (bf_record w (i, f))" if "f \<in> set ?futs" for i f
  proof -
    from that obtain j cmb where "f = (cmb, bf_submit w self j cmb)"
      by (auto simp: bf_futures_def)
    then show ?thesis by (simp add: bf_record_produced)
  qed
  have "produced (bf_record w x)" if "x \<in> set (enumerate 0 (as_completed (order w) ?futs))" for x
  proof -
    obtain i f where x: "x = (i, f)" by (cases x)
    with that have "(i, f) \<in> set (enumerate 0 (as_completed (order w) ?futs))"
      by simp
    then have "f \<in> set ?futs"
      by (rule in_enumerate_as_completed)
    then show ?thesis by (simp add: x h)
  qed
  then show ?thesis
    using assms(2) by (auto simp: brute_force_results(2) [OF assms(1)] list_all_iff)
qed

lemma cs_submit_produced:
  assumes "cs_submit w cp t i srv = Inr futs" "(srv', Inr r) \<in> set futs"
  shows "produced (to_dict r)"
  using assms
  by (auto simp: cs_submit_def Let_def split: sum.splits if_splits list.splits
      intro: produced.intros)

lemma cs_submit_all_produced:
  assumes "cs_submit_all w cp t i servers = Inr futs" "(srv', Inr r) \<in> set futs"
  shows "produced (to_dict r)"
  using assms
proof (induction servers arbitrary: i futs)
  case Nil
  then show ?case by simp
next
  case (Cons srv rest)
  from Cons.prems(1) obtain f1 f2 where f: "cs_submit w cp t i srv = Inr f1"
    "cs_submit_all w cp t (Suc i) rest = Inr f2" "futs = f1 @ f2"
    by (auto split: sum.splits)
  from Cons.prems(2) f(3) consider "(srv', Inr r) \<in> set f1" | "(srv', Inr r) \<in> set f2"
    by auto
  then show ?case
  proof cases
    case 1
    then show ?thesis using cs_submit_produced [OF f(1)] by blast
  next
    case 2
    then show ?thesis using Cons.IH [OF f(2)] by blast
  qed
qed

lemma check_servers_records_produced:
  assumes "0 < max_workers" "list_all well_keyed servers" "list_all produced rs"
  shows "list_all produced (fst (snd (check_servers w rs servers max_workers cp t)))"
proof -
  obtain futs recs out where c: "cs_submit_all w cp t 0 servers = Inr futs"
    "check_servers w rs servers max_workers cp t = (None, rs @ recs, out)"
    "map Inr recs = map (cs_record w) (enumerate 0 (as_completed (order w) futs))"
    using check_servers_well_keyed [OF assms(1,2)] by blast
  have "produced d" if "d \<in> set recs" for d
  proof -
    from that have "(Inr d :: exn + result) \<in> set (map Inr recs)" by simp
    then obtain i srv fut where x: "(i, srv, fut) \<in> set (enumerate 0 (as_completed (order w) futs))"
      "cs_record w (i, srv, fut) = Inr d"
      unfolding c(3) by auto
    from x(1) have m: "(srv, fut) \<in> set futs"
      by (rule in_enumerate_as_completed)
    show ?thesis
    proof (cases fut)
      case (Inl e)
      then show ?thesis using x(2) by (auto simp: cs_record_def intro: produced.intros)
    next
      case (Inr r)
      then have "produced (to_dict r)" using m cs_submit_all_produced [OF c(1)] by blast
      then show ?thesis using x(2) Inr by (simp add: cs_record_def)
    qed
  qed
  then show ?thesis
    using assms(3) by (auto simp: c(2) list_all_iff)
qed

lemma as_completed_single [simp]: "as_completed cs [x] = [x]"
  by (cases cs) (simp_all add: insert_at_def)

text \<open>
  In the single-host mode the dictionary of the server has no key \<open>type\<close>, which every
  message of \<^verbatim>\<open>check_servers\<close> reads: the first message raises \<^verbatim>\<open>KeyError\<close> inside the
  \<^verbatim>\<open>try\<close>, the message of the handler raises it again, and it leaves \<^verbatim>\<open>check_servers\<close>.
\<close>

lemma single_host_mode_raises:
  assumes "0 < mw" "args_protocol a = 0 \<or> args_protocol a = 1"
  shows "fst (check_servers w rs [single_server a] mw cp t) = Some (KeyError_of ''type'')"
proof -
  let ?srv = "single_server a"
  have p: "getitem ?srv ''protocol'' = Inr (PInt (args_protocol a))"
    by (simp add: single_server_def getitem_def)
  have g4: "getitems ?srv [''host'', ''username'', ''password'', ''port''] =
              Inr [PStr (text_of (args_host a)), PStr (text_of (args_username a)),
                   PStr (text_of (args_password a)), PInt (port_of a)]"
    by (simp add: single_server_def getitem_def)
  have g3: "getitems ?srv [''host'', ''username'', ''password''] =
              Inr [PStr (text_of (args_host a)), PStr (text_of (args_username a)),
                   PStr (text_of (args_password a))]"
    by (simp add: single_server_def getitem_def)
  have "\<exists>fut. cs_submit w cp t 0 ?srv = Inr [(?srv, fut)]"
    unfolding cs_submit_def p g4 g3 using assms(2) by (auto simp: Let_def)
  then obtain fut where sub: "cs_submit w cp t 0 ?srv = Inr [(?srv, fut)]"
    by blast
  have m5: "getitems ?srv [''username'', ''password'', ''host'', ''port'', ''type''] =
              Inl (KeyError_of ''type'')"
    by (simp add: single_server_def getitem_def)
  have m4: "getitems ?srv [''username'', ''host'', ''port'', ''type''] = Inl (KeyError_of ''type'')"
    by (simp add: single_server_def getitem_def)
  have er: "\<exists>d. cs_error_result ?srv now e = Inr d" for now e
    by (simp add: cs_error_result_def single_server_def getitem_def)
  have ex: "fst (cs_except ?srv now e st) = Some (KeyError_of ''type'')" for now e st
  proof -
    obtain d where "cs_error_result ?srv now e = Inr d" using er by blast
    then show ?thesis
      unfolding cs_except_def
      by (cases st) (simp add: m4 Let_def del: getitems.simps)
  qed
  have tr: "\<exists>e st'. cs_try ?srv fut (rs, []) = (Some e, st')"
  proof (cases fut)
    case (Inl e)
    then show ?thesis by (simp add: cs_try_def)
  next
    case (Inr r)
    then show ?thesis
      unfolding cs_try_def
      by (simp add: Let_def connection_and_authentication_to_dict m5 m4
          del: getitems.simps split: bool.splits)
  qed
  then obtain e st' where "cs_try ?srv fut (rs, []) = (Some e, st')" by blast
  then have "fst (cs_step w 0 ?srv fut (rs, [])) = Some (KeyError_of ''type'')"
    by (simp add: cs_step_def ex)
  then show ?thesis
    using assms(1) by (auto simp: check_servers_def sub split: prod.splits option.splits)
qed

lemma bf_error_result_fields:
  "\<not> flag (bf_error_result cmb now e) ''connection''"
  "\<not> flag (bf_error_result cmb now e) ''authentication''"
  "bf_error_result cmb now e ''errors'' = Some (PList [''Check failed: '' @ str_exn e])"
  by (simp_all add: bf_error_result_def flag_def)

lemma cs_error_result_fields:
  assumes "cs_error_result srv now e = Inr d"
  shows "\<not> flag d ''connection''" "\<not> flag d ''authentication''"
    "d ''errors'' = Some (PList [''Check failed: '' @ str_exn e])"
  using assms
  by (auto simp: cs_error_result_def flag_def split: sum.splits list.splits)

text \<open>
  With a positive number of workers, \<^verbatim>\<open>brute_force\<close> appends exactly one record for each
  combination it generated: the record the check returned, or, when the check raised, a
  record with \<open>connection\<close> and \<open>authentication\<close> false and one error that describes
  the exception; it does not raise. \<^verbatim>\<open>check_servers\<close>, given servers that hold the six
  keys it reads, appends exactly one such record for each server whose protocol is 0 or
  1, and does not raise.
\<close>

lemma one_result_per_descriptor:
  "(0 < bf_max_workers self \<longrightarrow>
      fst (brute_force w self us ps ports) = None
      \<and> bf_results (fst (snd (brute_force w self us ps ports))) =
          bf_results self @
          map (bf_record w)
            (enumerate 0 (as_completed (order w) (bf_futures w self (bf_generated self us ps ports))))
      \<and> length (bf_results (fst (snd (brute_force w self us ps ports)))) =
          length (bf_results self) + length (bf_generated self us ps ports)
      \<and> mset (as_completed (order w) (bf_futures w self (bf_generated self us ps ports))) =
          mset (bf_futures w self (bf_generated self us ps ports)))
   \<and> (0 < max_workers \<and> list_all well_keyed servers \<longrightarrow>
        (\<exists>futs recs out.
           cs_submit_all w cp t 0 servers = Inr futs
           \<and> map fst futs = filter supported servers
           \<and> check_servers w rs servers max_workers cp t = (None, rs @ recs, out)
           \<and> map Inr recs = map (cs_record w) (enumerate 0 (as_completed (order w) futs))
           \<and> length recs = length (filter supported servers)))
   \<and> \<not> flag (bf_error_result cmb now e) ''connection''
   \<and> \<not> flag (bf_error_result cmb now e) ''authentication''
   \<and> bf_error_result cmb now e ''errors'' = Some (PList [''Check failed: '' @ str_exn e])
   \<and> (cs_error_result srv now e = Inr d \<longrightarrow>
        \<not> flag d ''connection'' \<and> \<not> flag d ''authentication''
        \<and> d ''errors'' = Some (PList [''Check failed: '' @ str_exn e]))"
proof (intro conjI impI)
  assume mw: "0 < bf_max_workers self"
  show "fst (brute_force w self us ps ports) = None"
    by (rule brute_force_results(1) [OF mw])
  show r: "bf_results (fst (snd (brute_force w self us ps ports))) =
          bf_results self @
          map (bf_record w)
            (enumerate 0 (as_completed (order w) (bf_futures w self (bf_generated self us ps ports))))"
    by (rule brute_force_results(2) [OF mw])
  show "length (bf_results (fst (snd (brute_force w self us ps ports)))) =
          length (bf_results self) + length (bf_generated self us ps ports)"
    by (simp add: r)
  show "mset (as_completed (order w) (bf_futures w self (bf_generated self us ps ports))) =
          mset (bf_futures w self (bf_generated self us ps ports))"
    by simp
next
  assume "0 < max_workers \<and> list_all well_keyed servers"
  then show "\<exists>futs recs out.
           cs_submit_all w cp t 0 servers = Inr futs
           \<and> map fst futs = filter supported servers
           \<and> check_servers w rs servers max_workers cp t = (None, rs @ recs, out)
           \<and> map Inr recs = map (cs_record w) (enumerate 0 (as_completed (order w) futs))
           \<and> length recs = length (filter supported servers)"
    using check_servers_well_keyed by blast
next
  show "\<not> flag (bf_error_result cmb now e) ''connection''"
    "\<not> flag (bf_error_result cmb now e) ''authentication''"
    "bf_error_result cmb now e ''errors'' = Some (PList [''Check failed: '' @ str_exn e])"
    by (rule bf_error_result_fields)+
next
  assume "cs_error_result srv now e = Inr d"
  then show "\<not> flag d ''connection''" "\<not> flag d ''authentication''"
    "d ''errors'' = Some (PList [''Check failed: '' @ str_exn e])"
    by (rule cs_error_result_fields)+
qed

lemma well_keyed_examples: "well_keyed srv_ftp" "well_keyed srv_ftps"
  by (simp_all add: well_keyed_def read_keys_def srv_ftp_def srv_ftps_def)

lemma supported_examples: "supported srv_ftp" "\<not> supported srv_ftps"
  by (simp_all add: supported_def srv_ftp_def srv_ftps_def)

lemma one_result_per_descriptor_examples:
  "0 < bf_max_workers bf1
   \<and> bf_generated bf1 [''root''] [''1234''] [22] =
       [\<lparr> combo_host = ''ftp.example.test'', combo_port = 22, combo_username = ''root'',
           combo_password = ''1234'', combo_protocol = 1 \<rparr>]
   \<and> bf_results (fst (snd (brute_force world1 bf1 [''root''] [''1234''] [22]))) =
       [bf_error_result
          \<lparr> combo_host = ''ftp.example.test'', combo_port = 22, combo_username = ''root'',
            combo_password = ''1234'', combo_protocol = 1 \<rparr>
          now0 (Exn OSError ''Socket is closed'')]
   \<and> list_all well_keyed [srv_ftp, srv_ftps]
   \<and> (\<exists>recs out. check_servers world0 [] [srv_ftp, srv_ftps] 5 None 10 = (None, recs, out)
                 \<and> length recs = 1)
   \<and> (\<exists>d. cs_error_result srv_ftp now0 exn0 = Inr d \<and> \<not> flag d ''connection''
           \<and> d ''errors'' = Some (PList [''Check failed: boom'']))"
proof -
  let ?cmb = "\<lparr> combo_host = ''ftp.example.test'', combo_port = 22, combo_username = ''root'',
                combo_password = ''1234'', combo_protocol = 1 \<rparr>"
  note t = one_result_per_descriptor [of bf1 world1 "[''root'']" "[''1234'']" "[22]"
      5 "[srv_ftp, srv_ftps]" None 10 "[]"]
  have mw: "0 < bf_max_workers bf1" by (simp add: bf1_def bf0_def)
  have g: "bf_generated bf1 [''root''] [''1234''] [22] = [?cmb]"
    by (simp add: bf_generated_def combinations_def default_ports_def bf1_def bf0_def)
  have s: "bf_submit world1 bf1 0 ?cmb = Inl (Exn OSError ''Socket is closed'')"
    by (simp add: bf_submit_def world1_def world0_def bf1_def bf0_def Let_def
        SFTPChecker_check_def returned_def SFTPChecker_run_def sftp_session_def
        sftp_close_fails_def sftp_ok_def SFTPChecker_init_def)
  have f: "bf_futures world1 bf1 [?cmb] = [(?cmb, Inl (Exn OSError ''Socket is closed''))]"
    by (simp add: bf_futures_def s)
  have en: "error_now world1 0 = now0" "bf_results bf1 = []"
    by (simp_all add: world1_def world0_def bf1_def bf0_def)
  have r: "bf_results (fst (snd (brute_force world1 bf1 [''root''] [''1234''] [22]))) =
             [bf_error_result ?cmb now0 (Exn OSError ''Socket is closed'')]"
    using t [THEN conjunct1] mw by (simp add: g f bf_record_def en)
  have wk: "list_all well_keyed [srv_ftp, srv_ftps]"
    by (simp add: well_keyed_examples)
  have cs: "\<exists>recs out. check_servers world0 [] [srv_ftp, srv_ftps] 5 None 10 = (None, recs, out)
                 \<and> length recs = 1"
    using one_result_per_descriptor [of bf1 world0 "[''root'']" "[''1234'']" "[22]"
      5 "[srv_ftp, srv_ftps]" None 10 "[]", THEN conjunct2, THEN conjunct1] wk
    by (auto simp: supported_examples)
  have er: "\<exists>d. cs_error_result srv_ftp now0 exn0 = Inr d \<and> \<not> flag d ''connection''
           \<and> d ''errors'' = Some (PList [''Check failed: boom''])"
    using srv_ftp_error_result
      one_result_per_descriptor [where srv = srv_ftp and now = now0 and e = exn0]
    by (simp add: exn0_def)
  show ?thesis
    using mw g r wk cs er by simp
qed

text \<open>
  A server whose protocol is 3 (FTP over TLS in a FileZilla export) is passed over by
  lines 390-412.
\<close>

lemma unsupported_protocol_skipped:
  "srv_ftps ''protocol'' = Some (PInt 3)
   \<and> check_servers world0 [] [srv_ftps] 5 None 10 = (None, [], [])"
proof -
  have "cs_submit world0 None 10 0 srv_ftps = Inr []"
    by (simp add: cs_submit_def getitem_def srv_ftps_def)
  then show ?thesis
    by (simp add: check_servers_def srv_ftps_def)
qed

lemma world0_0:
  "ftp_of world0 0 = ftp_ok" "init_now world0 0 = now0" "error_now world0 0 = now0"
  by (simp_all add: world0_def)

lemma args_single_check:
  "FTPChecker_check ftp_ok
     \<lparr> self_host = PStr ''ftp.example.test'', self_username = PStr ''anonymous'',
       self_password = PStr ''guest'', self_port = PInt 21, self_timeout = 10,
       self_check_path = None \<rparr>
     (FTPChecker_init
        \<lparr> self_host = PStr ''ftp.example.test'', self_username = PStr ''anonymous'',
          self_password = PStr ''guest'', self_port = PInt 21, self_timeout = 10,
          self_check_path = None \<rparr> now0) = Inr r_ok"
  by (simp add: FTPChecker_check_def returned_def FTPChecker_run_def ftp_with_def
      ftp_session_def ftp_features_def ftp_ok_def FTPChecker_init_def init_results_def
      startswith_def r_ok_def)

text \<open>
  C1 fails on the code, in the single-host mode of \<^verbatim>\<open>main\<close>. The dictionary of lines
  727-733 holds five keys and no key \<open>type\<close>, which every message of
  \<^verbatim>\<open>check_servers\<close> reads. For \<^verbatim>\<open>--host ftp.example.test --username anonymous --password guest\<close>
  and a server that accepts the login, line 418 appends the record of the check, the
  message of line 421 raises \<^verbatim>\<open>KeyError\<close>, the handler appends a second record at line
  439, and its message at line 440 raises \<^verbatim>\<open>KeyError\<close> again, which leaves
  \<^verbatim>\<open>check_servers\<close>: one server, two records, and no list returned.
\<close>

theorem single_host_check_raises:
  "main_configure args_single fs0 = Run (Check_servers [single_server args_single] 5 None 10)
   \<and> dom (single_server args_single) = {''host'', ''port'', ''protocol'', ''username'', ''password''}
   \<and> check_servers world0 [] [single_server args_single] 5 None 10 =
       (Some (KeyError_of ''type''),
        [to_dict r_ok,
         [''host'' \<mapsto> PStr ''ftp.example.test'', ''port'' \<mapsto> PInt 21,
          ''username'' \<mapsto> PStr ''anonymous'', ''protocol'' \<mapsto> PStr ''FTP'',
          ''timestamp'' \<mapsto> PStr now0, ''connection'' \<mapsto> PBool False,
          ''authentication'' \<mapsto> PBool False,
          ''errors'' \<mapsto> PList [''Check failed: '' @ quoted ''type'']]],
        [])"
proof (intro conjI)
  let ?srv = "single_server args_single"
  let ?d = "[''host'' \<mapsto> PStr ''ftp.example.test'', ''port'' \<mapsto> PInt 21,
          ''username'' \<mapsto> PStr ''anonymous'', ''protocol'' \<mapsto> PStr ''FTP'',
          ''timestamp'' \<mapsto> PStr now0, ''connection'' \<mapsto> PBool False,
          ''authentication'' \<mapsto> PBool False,
          ''errors'' \<mapsto> PList [''Check failed: '' @ quoted ''type'']]"
  show "main_configure args_single fs0 = Run (Check_servers [single_server args_single] 5 None 10)"
    by (simp add: main_configure_def args_single_def args0_def text_of_def)
  have srv: "?srv = [''host'' \<mapsto> PStr ''ftp.example.test'', ''port'' \<mapsto> PInt 21,
                     ''protocol'' \<mapsto> PInt 0, ''username'' \<mapsto> PStr ''anonymous'',
                     ''password'' \<mapsto> PStr ''guest'']"
    by (simp add: single_server_def args_single_def args0_def text_of_def port_of_def)
  show "dom ?srv = {''host'', ''port'', ''protocol'', ''username'', ''password''}"
    unfolding srv by auto
  have p: "getitem ?srv ''protocol'' = Inr (PInt 0)"
    by (simp add: srv getitem_def)
  have g4: "getitems ?srv [''host'', ''username'', ''password'', ''port''] =
              Inr [PStr ''ftp.example.test'', PStr ''anonymous'', PStr ''guest'', PInt 21]"
    by (simp add: srv getitem_def)
  have sub: "cs_submit world0 None 10 0 ?srv = Inr [(?srv, Inr r_ok)]"
    unfolding cs_submit_def p g4 by (simp add: Let_def world0_0 args_single_check)
  have m5: "getitems ?srv [''username'', ''password'', ''host'', ''port'', ''type''] =
              Inl (KeyError_of ''type'')"
    by (simp add: srv getitem_def)
  have m4: "getitems ?srv [''username'', ''host'', ''port'', ''type''] = Inl (KeyError_of ''type'')"
    by (simp add: srv getitem_def)
  have fl: "connection_and_authentication (to_dict r_ok) = Inr True"
    by (simp add: connection_and_authentication_to_dict r_ok_def)
  have tr: "cs_try ?srv (Inr r_ok) ([], []) = (Some (KeyError_of ''type''), ([to_dict r_ok], []))"
    unfolding cs_try_def by (simp add: Let_def fl m5 del: getitems.simps)
  have er: "cs_error_result ?srv now0 (KeyError_of ''type'') = Inr ?d"
    by (simp add: cs_error_result_def srv getitem_def KeyError_of_def)
  have ex: "cs_except ?srv now0 (KeyError_of ''type'') ([to_dict r_ok], []) =
              (Some (KeyError_of ''type''), ([to_dict r_ok, ?d], []))"
    unfolding cs_except_def by (simp add: er m4 Let_def del: getitems.simps)
  have st: "cs_step world0 0 ?srv (Inr r_ok) ([], []) =
              (Some (KeyError_of ''type''), ([to_dict r_ok, ?d], []))"
    by (simp add: cs_step_def tr world0_0 ex)
  show "check_servers world0 [] [?srv] 5 None 10 =
          (Some (KeyError_of ''type''), [to_dict r_ok, ?d], [])"
    by (simp add: check_servers_def sub st)
qed

subsection \<open>Reports\<close>

lemma bind_Inr [simp]: "bind (Inr v) f = f v"
  by (simp add: bind_def)

lemma bind_Inl [simp]: "bind (Inl e) f = Inl e"
  by (simp add: bind_def)

lemma synthetic_flags [simp]:
  "connection_and_authentication (bf_error_result cmb ts e) = Inr False"
  by (simp add: connection_and_authentication_def getitem_def bf_error_result_def)

text \<open>
  C7 fails on the code. For the list that holds one record built by \<^verbatim>\<open>brute_force\<close> for
  a check that raised, \<^verbatim>\<open>_save_txt\<close> and \<^verbatim>\<open>_save_xml\<close> raise \<^verbatim>\<open>KeyError\<close> on
  \<^verbatim>\<open>result['connection_time']\<close>, a key that record does not have: no report is written.
\<close>

theorem synthetic_record_breaks_reports:
  "save_txt now [bf_error_result cmb ts e] = Inl (KeyError_of ''connection_time'')
   \<and> save_xml now [bf_error_result cmb ts e] = Inl (KeyError_of ''connection_time'')"
proof
  have u: "getitems (bf_error_result cmb ts e) [''username'', ''host'', ''port''] =
             Inr [PStr (combo_username cmb), PStr (combo_host cmb), PInt (combo_port cmb)]"
    by (simp add: getitem_def bf_error_result_def)
  have c: "getitem (bf_error_result cmb ts e) ''connection'' = Inr (PBool False)"
    by (simp add: getitem_def bf_error_result_def)
  have t: "getitem (bf_error_result cmb ts e) ''connection_time'' = Inl (KeyError_of ''connection_time'')"
    by (simp add: getitem_def bf_error_result_def)
  have "txt_server 1 (bf_error_result cmb ts e) = Inl (KeyError_of ''connection_time'')"
    unfolding txt_server_def u txt_status_def c t by simp
  then show "save_txt now [bf_error_result cmb ts e] = Inl (KeyError_of ''connection_time'')"
    by (simp add: save_txt_def)
  have h: "getitems (bf_error_result cmb ts e) [''host'', ''port'', ''username''] =
             Inr [PStr (combo_host cmb), PInt (combo_port cmb), PStr (combo_username cmb)]"
    by (simp add: getitem_def bf_error_result_def)
  have s: "getitem (bf_error_result cmb ts e) ''timestamp'' = Inr (PStr ts)"
    by (simp add: getitem_def bf_error_result_def)
  have ct: "getitems (bf_error_result cmb ts e) [''connection'', ''connection_time''] =
              Inl (KeyError_of ''connection_time'')"
    by (simp add: getitem_def bf_error_result_def)
  have "xml_server (bf_error_result cmb ts e) = Inl (KeyError_of ''connection_time'')"
    unfolding xml_server_def h s xml_status_def ct by simp
  then show "save_xml now [bf_error_result cmb ts e] = Inl (KeyError_of ''connection_time'')"
    by (simp add: save_xml_def)
qed

lemma getitem_to_dict:
  "getitem (to_dict r) ''host'' = Inr (host r)"
  "getitem (to_dict r) ''port'' = Inr (port r)"
  "getitem (to_dict r) ''username'' = Inr (username r)"
  "getitem (to_dict r) ''timestamp'' = Inr (PStr (timestamp r))"
  "getitem (to_dict r) ''connection'' = Inr (PBool (connection r))"
  "getitem (to_dict r) ''connection_time'' = Inr (opt_float (connection_time r))"
  "getitem (to_dict r) ''authentication'' = Inr (PBool (authentication r))"
  "getitem (to_dict r) ''auth_time'' = Inr (opt_float (auth_time r))"
  "getitem (to_dict r) ''path_exists'' = Inr (opt_bool (path_exists r))"
  "getitem (to_dict r) ''path_type'' = Inr (opt_str (path_type r))"
  "getitem (to_dict r) ''path_check_time'' = Inr (opt_float (path_check_time r))"
  "getitem (to_dict r) ''welcome_message'' = Inr (opt_str (welcome_message r))"
  "getitem (to_dict r) ''features'' = Inr (PList (features r))"
  "getitem (to_dict r) ''errors'' = Inr (PList (errors r))"
  by (simp_all add: getitem_def to_dict_lookup)

























lemma well_formed_StrOf [simp]:
  "well_formed (StrOf (opt_float t))"
  "well_formed (StrOf (opt_bool b))"
  by (simp_all add: opt_float_def opt_bool_def split: option.splits)
















text \<open>
  A banner that holds an escape character makes line 563 raise: the tree is built, and
  the parser refuses what \<^verbatim>\<open>ET.tostring\<close> wrote.
\<close>

lemma xml_control_character_raises:
  "save_xml now0 [to_dict r_esc] = Inl (Exn ExpatError ''not well-formed (invalid token)'')"
proof -
  have g: "get_default (to_dict r_esc) ''protocol'' (PStr ''Unknown'') = PStr ''FTP''"
    "get_default (to_dict r_esc) ''total_time'' (PStr ''N/A'') = PFloat 2600"
    by (simp_all add: get_default_def to_dict_lookup r_esc_def r_ok_def)
  have s: "xml_server (to_dict r_esc) =
             Inr (Element ''server'' NoText
                    [leaf ''host'' (Text (PStr ''ftp.example.test'')),
                     leaf ''port'' (StrOf (PInt 21)),
                     leaf ''username'' (Text (PStr ''anonymous'')),
                     leaf ''protocol'' (Text (PStr ''FTP'')),
                     leaf ''timestamp'' (Text (PStr now0)),
                     Element ''status'' NoText
                       [leaf ''connection'' (StrOf (PBool True)),
                        leaf ''connection_time_ms'' (StrOf (PFloat 1250)),
                        leaf ''authentication'' (StrOf (PBool True)),
                        leaf ''authentication_time_ms'' (StrOf (PFloat 830))],
                     leaf ''welcome_message'' (Text (PStr (''220 '' @ [CHR 0x1B] @ ''[1mready''))),
                     leaf ''total_time_ms'' (StrOf (PFloat 2600))])"
    unfolding xml_server_def g
    by (simp add: xml_status_def xml_path_def xml_list_def getitem_to_dict r_esc_def r_ok_def
        opt_float_def opt_bool_def opt_str_def)
  have c: "connection_and_authentication (to_dict r_esc) = Inr True"
    by (simp add: connection_and_authentication_to_dict r_esc_def r_ok_def)
  show ?thesis
    by (simp add: save_xml_def c s serialize_def tostring_def parseString_def xml_header_def
        leaf_def xml_char_def)
qed

subsection \<open>The command line\<close>














lemma isdigit_examples:
  "isdigit ''21''" "\<not> isdigit ''abc''" "isdigit [CHR 0xB2]" "\<not> isdigit ''-1''" "\<not> isdigit []"
  by (simp_all add: isdigit_def is_digit_def is_decimal_def)






subsection \<open>Records in the store\<close>

lemma append_error_errors [simp]: "errors (append_error m r) = errors r @ [m]"
  by (simp add: append_error_def)

lemma ftp_features_errors: "ftp_features env r = (ex, r') \<Longrightarrow> errors r' = errors r"
  by (auto simp: ftp_features_def split: option.splits sum.splits if_splits)

lemma ftp_check_file_errors:
  "ftp_check_file env p r = (ex, r') \<Longrightarrow> \<exists>more. errors r' = errors r @ more"
  by (auto simp: ftp_check_file_def Let_def path_not_found_def
      split: option.splits sum.splits if_splits)

lemma ftp_path_check_errors: "\<exists>more. errors (ftp_path_check env p r) = errors r @ more"
proof (cases "ftp_cwd env p")
  case None
  then show ?thesis by (simp add: ftp_path_check_def)
next
  case (Some e)
  show ?thesis
  proof (cases "cls e = error_perm")
    case True
    obtain ex r1 where f: "ftp_check_file env p r = (ex, r1)"
      by (cases "ftp_check_file env p r")
    then obtain more where "errors r1 = errors r @ more"
      using ftp_check_file_errors by blast
    then show ?thesis
      using Some True f by (cases ex) (simp_all add: ftp_path_check_def path_check_error_def)
  next
    case False
    then show ?thesis using Some by (simp add: ftp_path_check_def path_check_error_def)
  qed
qed

lemma ftp_session_errors:
  "ftp_session env c r = (ex, r') \<Longrightarrow> \<exists>more. errors r' = errors r @ more"
proof -
  assume a: "ftp_session env c r = (ex, r')"
  have pc: "\<exists>more. errors (ftp_path_check env p r4) = errors r @ more"
    if "errors r4 = errors r" for p r4
    using ftp_path_check_errors [of env p r4] that by simp
  show ?thesis
    using a
    by (auto simp: ftp_session_def Let_def pc
        split: option.splits sum.splits if_splits prod.splits dest!: ftp_features_errors)
qed

lemma ftp_with_errors:
  "ftp_with env c r = (ex, r') \<Longrightarrow> \<exists>more. errors r' = errors r @ more"
  by (auto simp: ftp_with_def split: option.splits prod.splits dest: ftp_session_errors)

lemma FTPChecker_run_errors:
  "\<exists>more. errors (snd (FTPChecker_run env c r)) = errors r @ more"
proof -
  obtain ex r1 where w: "ftp_with env c r = (ex, r1)"
    by (cases "ftp_with env c r")
  then obtain more where "errors r1 = errors r @ more"
    using ftp_with_errors by blast
  then show ?thesis
    using w by (cases ex) (simp_all add: FTPChecker_run_def ftp_except_def)
qed

lemma sftp_stat_path_errors:
  "sftp_stat_path env p r = (ex, r') \<Longrightarrow> \<exists>more. errors r' = errors r @ more"
  by (auto simp: sftp_stat_path_def Let_def path_not_found_def
      split: option.splits sum.splits if_splits prod.splits)

lemma sftp_path_check_errors: "\<exists>more. errors (sftp_path_check env p r) = errors r @ more"
proof (cases "ssh_open_sftp env")
  case (Some e)
  then show ?thesis by (simp add: sftp_path_check_def path_check_error_def)
next
  case None
  obtain ex r1 where f: "sftp_stat_path env p r = (ex, r1)"
    by (cases "sftp_stat_path env p r")
  then obtain more where "errors r1 = errors r @ more"
    using sftp_stat_path_errors by blast
  then show ?thesis
    using None f by (cases ex) (simp_all add: sftp_path_check_def path_check_error_def)
qed

lemma sftp_session_errors:
  "sftp_session env c r = ((ex, r'), b) \<Longrightarrow> \<exists>more. errors r' = errors r @ more"
proof -
  assume a: "sftp_session env c r = ((ex, r'), b)"
  have pc: "\<exists>more. errors (sftp_path_check env p r1) = errors r @ more"
    if "errors r1 = errors r" for p r1
    using sftp_path_check_errors [of env p r1] that by simp
  show ?thesis
    using a
    by (auto simp: sftp_session_def Let_def pc split: option.splits if_splits)
qed

lemma SFTPChecker_run_errors:
  "\<exists>more. errors (snd (SFTPChecker_run env c r)) = errors r @ more"
proof -
  obtain ex r1 b where s: "sftp_session env c r = ((ex, r1), b)"
    by (cases "sftp_session env c r") auto
  then obtain more where "errors r1 = errors r @ more"
    using sftp_session_errors by blast
  then show ?thesis
    using s
    by (cases ex)
       (auto simp: SFTPChecker_run_def sftp_except_def split: option.splits)
qed
text \<open>
  C9, as amended. \<^verbatim>\<open>check\<close> returns the dictionary \<^verbatim>\<open>self.results\<close> of its checker, not a
  copy, and writes to no other dictionary: a record returned earlier is unchanged by the
  checks of other checkers and by the making of new checkers. A later \<^verbatim>\<open>check\<close> on the
  same checker updates the record in place; it may add errors at the end but removes none.
\<close>

theorem returned_record_frame:
  "fst (FTPChecker_check_obj env obj h) = Inr (obj_results obj)
   \<and> (ssh_close senv = None \<longrightarrow>
        fst (SFTPChecker_check_obj senv obj h) = Inr (obj_results obj))
   \<and> (a \<noteq> obj_results obj \<longrightarrow>
        snd (FTPChecker_check_obj env obj h) a = h a
        \<and> snd (SFTPChecker_check_obj senv obj h) a = h a)
   \<and> (a \<noteq> b \<longrightarrow>
        snd (FTPChecker_new b c now h) a = h a \<and> snd (SFTPChecker_new b c now h) a = h a)
   \<and> snd (FTPChecker_check_obj env obj h) (obj_results obj) =
        snd (FTPChecker_run env (obj_args obj) (h (obj_results obj)))
   \<and> snd (SFTPChecker_check_obj senv obj h) (obj_results obj) =
        snd (SFTPChecker_run senv (obj_args obj) (h (obj_results obj)))
   \<and> (\<exists>more. errors (snd (FTPChecker_check_obj env obj h) (obj_results obj)) =
               errors (h (obj_results obj)) @ more)
   \<and> (\<exists>more. errors (snd (SFTPChecker_check_obj senv obj h) (obj_results obj)) =
               errors (h (obj_results obj)) @ more)"
proof (intro conjI impI)
  show "fst (FTPChecker_check_obj env obj h) = Inr (obj_results obj)"
    using FTPChecker_run_None [of env "obj_args obj" "h (obj_results obj)"]
    by (simp add: FTPChecker_check_obj_def case_prod_beta)
  show f: "snd (FTPChecker_check_obj env obj h) (obj_results obj) =
        snd (FTPChecker_run env (obj_args obj) (h (obj_results obj)))"
    by (simp add: FTPChecker_check_obj_def split: prod.splits)
  show s: "snd (SFTPChecker_check_obj senv obj h) (obj_results obj) =
        snd (SFTPChecker_run senv (obj_args obj) (h (obj_results obj)))"
    by (simp add: SFTPChecker_check_obj_def split: prod.splits)
  show "\<exists>more. errors (snd (FTPChecker_check_obj env obj h) (obj_results obj)) =
               errors (h (obj_results obj)) @ more"
    unfolding f by (rule FTPChecker_run_errors)
  show "\<exists>more. errors (snd (SFTPChecker_check_obj senv obj h) (obj_results obj)) =
               errors (h (obj_results obj)) @ more"
    unfolding s by (rule SFTPChecker_run_errors)
next
  assume "ssh_close senv = None"
  from sftp_close_ok_None [OF this, of "obj_args obj" "h (obj_results obj)"]
  show "fst (SFTPChecker_check_obj senv obj h) = Inr (obj_results obj)"
    by (simp add: SFTPChecker_check_obj_def case_prod_beta)
next
  assume "a \<noteq> obj_results obj"
  then show "snd (FTPChecker_check_obj env obj h) a = h a"
    "snd (SFTPChecker_check_obj senv obj h) a = h a"
    by (simp_all add: FTPChecker_check_obj_def SFTPChecker_check_obj_def split: prod.splits)
next
  assume "a \<noteq> b"
  then show "snd (FTPChecker_new b c now h) a = h a" "snd (SFTPChecker_new b c now h) a = h a"
    by (simp_all add: FTPChecker_new_def SFTPChecker_new_def)
qed

lemma obj0_simps: "obj_results obj0 = 0" "obj_args obj0 = chk0"
  by (simp_all add: obj0_def FTPChecker_new_def)

lemma store1_0: "store1 0 = FTPChecker_init chk0 now0"
  by (simp add: store1_def FTPChecker_new_def)

lemma ftp_refused_run:
  "FTPChecker_run ftp_refused chk0 (FTPChecker_init chk0 now0) =
     (None, (FTPChecker_init chk0 now0)
              \<lparr>errors := [''FTP error: [Errno 111] Connection refused''],
               total_time := Some 2600\<rparr>)"
  by (simp add: FTPChecker_run_def ftp_with_def ftp_session_def ftp_except_def append_error_def
      ftp_refused_def ftp_ok_def FTPChecker_init_def init_results_def)

lemma store2_0:
  "store2 0 = (FTPChecker_init chk0 now0)
                \<lparr>errors := [''FTP error: [Errno 111] Connection refused''],
                 total_time := Some 2600\<rparr>"
  by (simp add: store2_def FTPChecker_check_obj_def obj0_simps store1_0 ftp_refused_run)

text \<open>
  C9 as stated fails. A checker is made and its \<^verbatim>\<open>check\<close> finds the connection refused:
  the record returned, at address 0, has \<open>connection\<close> false and one error. A second
  \<^verbatim>\<open>check\<close> on the same checker, which succeeds, returns the same address, and the
  record returned by the first call now has \<open>connection\<close> and \<open>authentication\<close> true.
\<close>

theorem returned_record_not_frozen:
  "fst (FTPChecker_check_obj ftp_refused obj0 store1) = Inr 0
   \<and> \<not> connection (store2 0) \<and> \<not> authentication (store2 0)
   \<and> errors (store2 0) = [''FTP error: [Errno 111] Connection refused'']
   \<and> fst (FTPChecker_check_obj ftp_ok obj0 store2) = Inr 0
   \<and> connection (store3 0) \<and> authentication (store3 0)
   \<and> errors (store3 0) = [''FTP error: [Errno 111] Connection refused'']
   \<and> store3 0 \<noteq> store2 0"
proof -
  have r1: "fst (FTPChecker_check_obj ftp_refused obj0 store1) = Inr 0"
    by (simp add: FTPChecker_check_obj_def obj0_simps store1_0 ftp_refused_run)
  have s2: "\<not> connection (store2 0)" "\<not> authentication (store2 0)"
    "errors (store2 0) = [''FTP error: [Errno 111] Connection refused'']"
    by (simp_all add: store2_0 FTPChecker_init_def)
  have run2: "FTPChecker_run ftp_ok chk0 (store2 0) =
                (None, (store2 0)\<lparr>connection_time := Some 1250, connection := True,
                                  welcome_message := Some ''220 ready'',
                                  auth_time := Some 830, authentication := True,
                                  total_time := Some 2600\<rparr>)"
    by (simp add: FTPChecker_run_def ftp_with_def ftp_session_def ftp_features_def
        ftp_ok_def chk0_def startswith_def)
  have r2: "fst (FTPChecker_check_obj ftp_ok obj0 store2) = Inr 0"
    by (simp add: FTPChecker_check_obj_def obj0_simps run2)
  have s3: "store3 0 = (store2 0)\<lparr>connection_time := Some 1250, connection := True,
                                  welcome_message := Some ''220 ready'',
                                  auth_time := Some 830, authentication := True,
                                  total_time := Some 2600\<rparr>"
    by (simp add: store3_def FTPChecker_check_obj_def obj0_simps run2)
  have c3: "connection (store3 0)" "authentication (store3 0)"
    "errors (store3 0) = [''FTP error: [Errno 111] Connection refused'']"
    by (simp_all add: s3 s2)
  have "store3 0 \<noteq> store2 0"
    using c3(1) s2(1) by auto
  then show ?thesis
    using r1 s2 r2 c3 by simp
qed

theorem returned_record_frame_witness:
  "(1::nat) \<noteq> obj_results obj0
   \<and> snd (FTPChecker_check_obj ftp_refused obj0 store1) 1 = store1 1
   \<and> snd (SFTPChecker_check_obj sftp_ok obj0 store1) 1 = store1 1
   \<and> fst (SFTPChecker_check_obj sftp_ok obj0 store1) = Inr 0
   \<and> snd (FTPChecker_new 1 chk0 now0 store2) 0 = store2 0
   \<and> snd (SFTPChecker_new 1 chk0 now0 store2) 0 = store2 0"
proof -
  have a: "(1::nat) \<noteq> obj_results obj0" by (simp add: obj0_simps)
  have c: "ssh_close sftp_ok = None" by (simp add: sftp_ok_def)
  note t1 = returned_record_frame [of ftp_refused obj0 store1 sftp_ok 1 0]
  note t2 = returned_record_frame [of ftp_refused obj0 store2 sftp_ok 0 1 chk0 now0]
  show ?thesis
    using a c t1 t2 by (simp add: obj0_simps)
qed

end
